theory Spec2Isabelle
  imports Main "HOL-Library.Word"
begin

section \<open>Errors and formatted text\<close>

text \<open>
  Go's \<^verbatim>\<open>error\<close> values and the strings built by \<^verbatim>\<open>fmt.Sprintf\<close> are kept symbolic:
  a formatted value is its format string together with its arguments, so that every
  message of the source can be read off the model. \<^verbatim>\<open>Wrapf\<close> is \<^verbatim>\<open>fmt.Errorf\<close> with one
  \<^verbatim>\<open>%w\<close> verb (the wrapped error is the last component), \<^verbatim>\<open>Errorf\<close> is \<^verbatim>\<open>fmt.Errorf\<close>
  without one.
\<close>

datatype val = S string | Ss "string list" | I int | M "(string \<times> string) list"

datatype error =
    ErrMaxRetriesReached
  | ErrNotFound
  | ErrFailedToCreate
  | ContextError string
  | ErrDefault404
  | StatusNotFound string
  | OtherError string
  | Errorf string "val list"
  | Wrapf string "val list" error

datatype arg = V val | E error

datatype msg = Str string | Sprintf string "arg list" | ErrorText error

text \<open>\<^verbatim>\<open>apierrors.IsNotFound\<close>: looks through the chain of wrapped errors for a NotFound status.\<close>

fun IsNotFound :: "error \<Rightarrow> bool" where
  "IsNotFound (StatusNotFound _) = True"
| "IsNotFound (Wrapf _ _ e) = IsNotFound e"
| "IsNotFound _ = False"

section \<open>Condition state machine\<close>

text \<open>
  \<^verbatim>\<open>metav1.Condition\<close> with the fields the controllers write. \<^verbatim>\<open>metav1.ConditionStatus\<close> is
  a string type; \<^verbatim>\<open>LastTransitionTime\<close> (wall-clock time, set by the library) is left out.
\<close>

record condition =
  ctype :: string
  status :: string
  reason :: string
  message :: msg
  observedGeneration :: "64 word"

definition ConditionTrue :: string where "ConditionTrue = ''True''"
definition ConditionFalse :: string where "ConditionFalse = ''False''"

definition condReady :: string where "condReady = ''Ready''"
definition condDependenciesReady :: string where "condDependenciesReady = ''DependenciesReady''"
definition condSynced :: string where "condSynced = ''Synced''"

definition reasonCreating :: string where "reasonCreating = ''Creating''"
definition reasonProvisioning :: string where "reasonProvisioning = ''Provisioning''"
definition reasonProvisioned :: string where "reasonProvisioned = ''Provisioned''"
definition reasonSynced :: string where "reasonSynced = ''Synced''"
definition reasonReady :: string where "reasonReady = ''Ready''"
definition reasonReconciling :: string where "reasonReconciling = ''Reconciling''"
definition reasonDeleting :: string where "reasonDeleting = ''Deleting''"
definition reasonDeleted :: string where "reasonDeleted = ''Deleted''"
definition reasonDeletionBlocked :: string where "reasonDeletionBlocked = ''DeletionBlocked''"
definition reasonOrphaned :: string where "reasonOrphaned = ''Orphaned''"
definition reasonUnknown :: string where "reasonUnknown = ''Unknown''"
definition reasonFailed :: string where "reasonFailed = ''Failed''"
definition reasonProviderError :: string where "reasonProviderError = ''ProviderError''"
definition reasonDeletionFailed :: string where "reasonDeletionFailed = ''DeletionFailed''"
definition reasonNotFound :: string where "reasonNotFound = ''NotFound''"

text \<open>
  The three functions of \<^verbatim>\<open>k8s.io/apimachinery/pkg/api/meta\<close> the controllers call:
  \<^verbatim>\<open>FindStatusCondition\<close> returns the first condition of the type,
  \<^verbatim>\<open>SetStatusCondition\<close> appends the condition when the type is absent and otherwise
  overwrites status, reason, message and observed generation of the first condition of
  that type in place, \<^verbatim>\<open>IsStatusConditionTrue\<close> reads the status of the first condition
  of the type.
\<close>

fun FindStatusCondition :: "condition list \<Rightarrow> string \<Rightarrow> condition option" where
  "FindStatusCondition [] t = None"
| "FindStatusCondition (c # cs) t = (if ctype c = t then Some c else FindStatusCondition cs t)"

fun SetStatusCondition :: "condition list \<Rightarrow> condition \<Rightarrow> condition list" where
  "SetStatusCondition [] new = [new]"
| "SetStatusCondition (c # cs) new =
     (if ctype c = ctype new
      then c\<lparr>status := status new, reason := reason new, message := message new,
             observedGeneration := observedGeneration new\<rparr> # cs
      else c # SetStatusCondition cs new)"

fun IsStatusConditionPresentAndEqual :: "condition list \<Rightarrow> string \<Rightarrow> string \<Rightarrow> bool" where
  "IsStatusConditionPresentAndEqual [] t st = False"
| "IsStatusConditionPresentAndEqual (c # cs) t st =
     (if ctype c = t then status c = st else IsStatusConditionPresentAndEqual cs t st)"

definition IsStatusConditionTrue :: "condition list \<Rightarrow> string \<Rightarrow> bool" where
  "IsStatusConditionTrue conds t = IsStatusConditionPresentAndEqual conds t ConditionTrue"

definition IsStatusConditionFalse :: "condition list \<Rightarrow> string \<Rightarrow> bool" where
  "IsStatusConditionFalse conds t = IsStatusConditionPresentAndEqual conds t ConditionFalse"

subsection \<open>ConditionBuilder\<close>

record ConditionBuilder =
  b_typ :: string
  b_status :: string
  b_reason :: string
  b_message :: msg
  b_generation :: "64 word"

definition NewCondition :: "string \<Rightarrow> ConditionBuilder" where
  "NewCondition t =
     \<lparr>b_typ = t, b_status = '''', b_reason = '''', b_message = Str '''', b_generation = 0\<rparr>"

definition WithStatus :: "string \<Rightarrow> ConditionBuilder \<Rightarrow> ConditionBuilder" where
  "WithStatus st b = b\<lparr>b_status := st\<rparr>"

definition b_WithReason :: "string \<Rightarrow> ConditionBuilder \<Rightarrow> ConditionBuilder" where
  "b_WithReason r b = b\<lparr>b_reason := r\<rparr>"

definition b_WithMessage :: "msg \<Rightarrow> ConditionBuilder \<Rightarrow> ConditionBuilder" where
  "b_WithMessage m b = b\<lparr>b_message := m\<rparr>"

definition WithGeneration :: "64 word \<Rightarrow> ConditionBuilder \<Rightarrow> ConditionBuilder" where
  "WithGeneration g b = b\<lparr>b_generation := g\<rparr>"

definition Apply :: "ConditionBuilder \<Rightarrow> condition list \<Rightarrow> condition list" where
  "Apply b conditions =
     SetStatusCondition conditions
       \<lparr>ctype = b_typ b, status = b_status b, reason = b_reason b, message = b_message b,
        observedGeneration = b_generation b\<rparr>"

subsection \<open>Condition options\<close>

record ConditionOptions =
  Reason :: string
  Message :: msg

type_synonym ConditionOption = "ConditionOptions \<Rightarrow> ConditionOptions"

definition WithReason :: "string \<Rightarrow> ConditionOption" where
  "WithReason r = (\<lambda>co. co\<lparr>Reason := r\<rparr>)"

definition WithMessage :: "msg \<Rightarrow> ConditionOption" where
  "WithMessage m = (\<lambda>co. co\<lparr>Message := m\<rparr>)"

definition WithMessagef :: "string \<Rightarrow> arg list \<Rightarrow> ConditionOption" where
  "WithMessagef format args = (\<lambda>co. co\<lparr>Message := Sprintf format args\<rparr>)"

definition applyOptions :: "string \<Rightarrow> msg \<Rightarrow> ConditionOption list \<Rightarrow> string \<times> msg" where
  "applyOptions defaultReason defaultMessage opts =
     (let options = fold (\<lambda>opt co. opt co) opts \<lparr>Reason = defaultReason, Message = defaultMessage\<rparr>
      in (Reason options, Message options))"

subsection \<open>Primitive and composite condition setters\<close>

definition SetSynced :: "condition list \<Rightarrow> 64 word \<Rightarrow> ConditionOption list \<Rightarrow> condition list" where
  "SetSynced conditions generation opts =
     (case applyOptions reasonSynced (Str ''External resource matches desired state'') opts of
        (r, m) \<Rightarrow>
          Apply (WithGeneration generation (b_WithMessage m (b_WithReason r
            (WithStatus ConditionTrue (NewCondition condSynced))))) conditions)"

definition SetNotSynced :: "condition list \<Rightarrow> 64 word \<Rightarrow> ConditionOption list \<Rightarrow> condition list" where
  "SetNotSynced conditions generation opts =
     (case applyOptions reasonReconciling (Str ''Resource is being reconciled'') opts of
        (r, m) \<Rightarrow>
          Apply (WithGeneration generation (b_WithMessage m (b_WithReason r
            (WithStatus ConditionFalse (NewCondition condSynced))))) conditions)"

definition SetReady :: "condition list \<Rightarrow> 64 word \<Rightarrow> ConditionOption list \<Rightarrow> condition list" where
  "SetReady conditions generation opts =
     (case applyOptions reasonReady (Str ''Resource is ready'') opts of
        (r, m) \<Rightarrow>
          Apply (WithGeneration generation (b_WithMessage m (b_WithReason r
            (WithStatus ConditionTrue (NewCondition condReady))))) conditions)"

definition SetNotReady :: "condition list \<Rightarrow> 64 word \<Rightarrow> ConditionOption list \<Rightarrow> condition list" where
  "SetNotReady conditions generation opts =
     (case applyOptions reasonFailed (Str ''Resource is not ready'') opts of
        (r, m) \<Rightarrow>
          Apply (WithGeneration generation (b_WithMessage m (b_WithReason r
            (WithStatus ConditionFalse (NewCondition condReady))))) conditions)"

definition SetReconciliationFailed ::
  "condition list \<Rightarrow> 64 word \<Rightarrow> ConditionOption list \<Rightarrow> condition list" where
  "SetReconciliationFailed conditions generation opts =
     SetNotReady (SetNotSynced conditions generation opts) generation opts"

definition SetProvisioned :: "condition list \<Rightarrow> 64 word \<Rightarrow> condition list" where
  "SetProvisioned conditions generation =
     SetReady
       (SetSynced conditions generation
          [WithReason reasonProvisioned,
           WithMessage (Str ''External resource has been successfully provisioned'')])
       generation
       [WithReason reasonProvisioned, WithMessage (Str ''Resource is ready for use'')]"

definition SetTerminating :: "condition list \<Rightarrow> 64 word \<Rightarrow> condition list" where
  "SetTerminating conditions generation =
     SetNotReady
       (SetNotSynced conditions generation
          [WithReason reasonDeleting, WithMessage (Str ''Resource deletion is in progress'')])
       generation
       [WithReason reasonDeleting, WithMessage (Str ''Resource is being deleted'')]"

definition SetDeletionBlocked ::
  "condition list \<Rightarrow> 64 word \<Rightarrow> ConditionOption list \<Rightarrow> condition list" where
  "SetDeletionBlocked conditions generation opts =
     (case applyOptions reasonDeletionBlocked
             (Str ''Resource deletion is blocked by dependencies'') opts of
        (r, m) \<Rightarrow>
          SetNotReady
            (SetNotSynced conditions generation [WithReason r, WithMessage m])
            generation [WithReason r, WithMessage m])"

definition SetDeleted :: "condition list \<Rightarrow> 64 word \<Rightarrow> condition list" where
  "SetDeleted conditions generation =
     SetNotReady
       (SetSynced conditions generation
          [WithReason reasonDeleted,
           WithMessage (Str ''External resource has been successfully deleted'')])
       generation
       [WithReason reasonDeleted, WithMessage (Str ''Resource is terminated'')]"

definition SetOrphaned :: "condition list \<Rightarrow> 64 word \<Rightarrow> ConditionOption list \<Rightarrow> condition list" where
  "SetOrphaned conditions generation opts =
     (case applyOptions reasonOrphaned
             (Str ''External resource was preserved due to orphanOnDelete policy'') opts of
        (r, m) \<Rightarrow>
          SetNotReady
            (SetSynced conditions generation [WithReason r, WithMessage m])
            generation
            [WithReason r,
             WithMessage (Str ''Resource orphaned, no longer managed by operator'')])"

section \<open>Retry utility\<close>

text \<open>
  \<^verbatim>\<open>retry.Options\<close>. \<^verbatim>\<open>Delay\<close> is a \<^verbatim>\<open>time.Duration\<close>, an \<^verbatim>\<open>int64\<close> of nanoseconds.
  \<^verbatim>\<open>MaxAttempts\<close> and the loop counter of \<^verbatim>\<open>Do\<close> are Go \<^verbatim>\<open>int\<close>s, which have 64 bits on
  the 64-bit platforms: \<^verbatim>\<open>n++\<close> wraps around from \<open>2^63 - 1\<close> to \<open>- 2^63\<close>, and
  \<^verbatim>\<open>n > options.MaxAttempts\<close> compares the signed values (\<open>sint\<close>).
\<close>

record Options =
  Delay :: "64 word"
  MaxAttempts :: "64 word"

type_synonym Option = "Options \<Rightarrow> Options"

definition newDefaultOptions :: Options where
  "newDefaultOptions = \<lparr>Delay = 0, MaxAttempts = 0\<rparr>"

definition WithDelay :: "64 word \<Rightarrow> Option" where
  "WithDelay d = (\<lambda>ro. ro\<lparr>Delay := d\<rparr>)"

definition WithMaxAttempts :: "64 word \<Rightarrow> Option" where
  "WithMaxAttempts n = (\<lambda>ro. ro\<lparr>MaxAttempts := n\<rparr>)"

text \<open>
  The wrapped operation \<^verbatim>\<open>Func\<close> is a closure: it reads and changes a state \<open>'s\<close> and
  returns \<^verbatim>\<open>(retry, err)\<close>. The context is what \<^verbatim>\<open>Do\<close> observes of it, in order: \<open>ctx 0\<close>
  is the next observation and \<open>\<lambda>j. ctx (Suc j)\<close> the context after it. \<^verbatim>\<open>Do\<close> observes
  the context at its entry and in the \<^verbatim>\<open>select\<close> after every retry request that is within
  the maximum, so that for the context given to \<^verbatim>\<open>Do\<close>, \<open>ctx 0\<close> is the entry check and
  \<open>ctx j\<close> the \<^verbatim>\<open>select\<close> after the \<open>j\<close>-th retry request: \<open>Some e\<close> says that the context
  is done there, with \<^verbatim>\<open>ctx.Err() = e\<close>; \<open>None\<close> that the entry check passes, resp. that
  the delay elapses first. The loop has no bound of its own, hence the option domain:
  \<open>None\<close> is a run that never returns.
\<close>

type_synonym 's Func = "'s \<Rightarrow> (bool \<times> error option) \<times> 's"

partial_function (option) Do_loop ::
  "'s Func \<Rightarrow> (nat \<Rightarrow> error option) \<Rightarrow> Options \<Rightarrow> 64 word \<Rightarrow> 's \<Rightarrow> (error option \<times> 's) option"
where
  "Do_loop fn ctx options n s =
     (case fn s of
        ((retry, err), s') \<Rightarrow>
          if \<not> retry then Some (err, s')
          else if MaxAttempts options \<noteq> 0 \<and> sint (n + 1) > sint (MaxAttempts options)
               then Some (Some ErrMaxRetriesReached, s')
          else (case ctx 0 of
                  Some e \<Rightarrow> Some (Some e, s')
                | None \<Rightarrow> Do_loop fn (\<lambda>j. ctx (Suc j)) options (n + 1) s'))"

text \<open>The first loop of \<^verbatim>\<open>Do\<close>: the options are applied in order to the defaults.\<close>

definition configured :: "Option list \<Rightarrow> Options" where
  "configured opts = fold (\<lambda>opt ro. opt ro) opts newDefaultOptions"

definition Do ::
  "(nat \<Rightarrow> error option) \<Rightarrow> 's Func \<Rightarrow> Option list \<Rightarrow> 's \<Rightarrow> (error option \<times> 's) option"
where
  "Do ctx fn opts s =
     (let options = configured opts in
      case ctx 0 of
        Some e \<Rightarrow> Some (Some e, s)
      | None \<Rightarrow> Do_loop fn (\<lambda>j. ctx (Suc j)) options 0 s)"

text \<open>
  To speak about single invocations of the operation: \<open>state_after fn k s\<close> is the
  closure's state after \<open>k\<close> invocations from \<open>s\<close>, and \<open>invocation fn k s\<close> is what
  invocation number \<open>k + 1\<close> returns.
\<close>

fun state_after :: "'s Func \<Rightarrow> nat \<Rightarrow> 's \<Rightarrow> 's" where
  "state_after fn 0 s = s"
| "state_after fn (Suc k) s = state_after fn k (snd (fn s))"

definition invocation :: "'s Func \<Rightarrow> nat \<Rightarrow> 's \<Rightarrow> bool \<times> error option" where
  "invocation fn k s = fst (fn (state_after fn k s))"

text \<open>
  Two example operations: one that always asks for a retry, one that fails at its third
  invocation. \<open>MaxInt\<close> is \<^verbatim>\<open>math.MaxInt\<close>, the largest \<^verbatim>\<open>int\<close>.
\<close>

definition always_busy :: "nat Func" where
  "always_busy = (\<lambda>s. ((True, Some (OtherError ''busy'')), s + 1))"

definition fails_third :: "nat Func" where
  "fails_third = (\<lambda>s. ((s < 2, if s < 2 then None else Some (OtherError ''failed'')), s + 1))"

definition MaxInt :: "64 word" where
  "MaxInt = 9223372036854775807"

section \<open>Provider client cache\<close>

record ProviderConfigReference =
  ref_Name :: string
  ref_Namespace :: string

text \<open>
  \<^verbatim>\<open>ProviderConfig\<close> with the fields the controllers read: its metadata (name, namespace,
  generation), \<^verbatim>\<open>Spec.CredentialsSecretRef.Name\<close> and \<^verbatim>\<open>Status.Conditions\<close>.
\<close>

record ProviderConfig =
  pc_Name :: string
  pc_Namespace :: string
  pc_Generation :: "64 word"
  pc_CredentialsSecretRef_Name :: string
  pc_Conditions :: "condition list"

record Secret =
  ResourceVersion :: string

record 'p providerEntry =
  provider :: 'p
  createdAt :: nat
  configGeneration :: "64 word"
  secretResourceVersion :: string

type_synonym 'p cache = "string \<rightharpoonup> 'p providerEntry"

text \<open>
  What \<^verbatim>\<open>GetOrCreate\<close> asks of its collaborators: the object store's \<^verbatim>\<open>Get\<close> of a
  ProviderConfig and of a Secret by namespace and name, the client factory
  \<^verbatim>\<open>provider.NewFromProviderConfig\<close>, and the clock. The mutex only serialises the map
  accesses; the model is of one call at a time.
\<close>

record 'p cache_env =
  getProviderConfig :: "string \<Rightarrow> string \<Rightarrow> error + ProviderConfig"
  getSecret :: "string \<Rightarrow> string \<Rightarrow> error + Secret"
  NewFromProviderConfig :: "ProviderConfigReference \<Rightarrow> string \<Rightarrow> error + 'p"
  now :: nat

definition cacheKey :: "ProviderConfigReference \<Rightarrow> string \<Rightarrow> string" where
  "cacheKey ref defaultNamespace =
     (let ns = (if ref_Namespace ref = [] then defaultNamespace else ref_Namespace ref)
      in ns @ ''/'' @ ref_Name ref)"

text \<open>
  \<^verbatim>\<open>GetOrCreate\<close>. The secret is read from the namespace of the loaded ProviderConfig;
  when that read fails, \<^verbatim>\<open>currentSecretVersion\<close> keeps its zero value, the empty string.
\<close>

definition GetOrCreate ::
  "'p cache_env \<Rightarrow> 'p cache \<Rightarrow> ProviderConfigReference \<Rightarrow> string
     \<Rightarrow> (error + 'p \<times> ProviderConfig) \<times> 'p cache"
where
  "GetOrCreate env cache ref defaultNamespace =
     (let ns = (if ref_Namespace ref = [] then defaultNamespace else ref_Namespace ref);
          key = cacheKey ref defaultNamespace
      in case getProviderConfig env ns (ref_Name ref) of
           Inl err \<Rightarrow>
             (Inl (Wrapf ''failed to get ProviderConfig %s: %w'' [S key] err),
              if IsNotFound err then cache(key := None) else cache)
         | Inr pc \<Rightarrow>
             (let currentSecretVersion =
                    (case getSecret env (pc_Namespace pc) (pc_CredentialsSecretRef_Name pc) of
                       Inr secret \<Rightarrow> ResourceVersion secret
                     | Inl err \<Rightarrow> []);
                  create =
                    (case NewFromProviderConfig env ref defaultNamespace of
                       Inl err \<Rightarrow> (Inl err, cache)
                     | Inr prov \<Rightarrow>
                         (Inr (prov, pc),
                          cache(key \<mapsto>
                            \<lparr>provider = prov, createdAt = now env,
                             configGeneration = pc_Generation pc,
                             secretResourceVersion = currentSecretVersion\<rparr>)))
              in case cache key of
                   None \<Rightarrow> create
                 | Some entry \<Rightarrow>
                     if configGeneration entry = pc_Generation pc \<and>
                        secretResourceVersion entry = currentSecretVersion
                     then (Inr (provider entry, pc), cache)
                     else create))"

definition Invalidate :: "'p cache \<Rightarrow> ProviderConfigReference \<Rightarrow> string \<Rightarrow> 'p cache" where
  "Invalidate cache ref defaultNamespace = cache(cacheKey ref defaultNamespace := None)"

text \<open>
  An example: ProviderConfig \<^verbatim>\<open>default/otc\<close> at generation 3 with secret version 41,
  a factory that hands out client 8, and a cache holding client 7 under the same tags.
\<close>

definition pc_example :: ProviderConfig where
  "pc_example =
     \<lparr>pc_Name = ''otc'', pc_Namespace = ''default'', pc_Generation = 3,
      pc_CredentialsSecretRef_Name = ''otc-credentials'', pc_Conditions = []\<rparr>"

definition env_example :: "nat cache_env" where
  "env_example =
     \<lparr>getProviderConfig = (\<lambda>ns name.
        if ns = ''default'' \<and> name = ''otc'' then Inr pc_example
        else Inl (StatusNotFound name)),
      getSecret = (\<lambda>ns name.
        if ns = ''default'' \<and> name = ''otc-credentials'' then Inr \<lparr>ResourceVersion = ''41''\<rparr>
        else Inl (StatusNotFound name)),
      NewFromProviderConfig = (\<lambda>ref ns. Inr 8),
      now = 100\<rparr>"

definition ref_example :: ProviderConfigReference where
  "ref_example = \<lparr>ref_Name = ''otc'', ref_Namespace = []\<rparr>"

definition cache_example :: "nat cache" where
  "cache_example =
     [''default/otc'' \<mapsto>
        \<lparr>provider = 7, createdAt = 50, configGeneration = 3, secretResourceVersion = ''41''\<rparr>]"

definition stale_cache_example :: "nat cache" where
  "stale_cache_example =
     [''default/otc'' \<mapsto>
        \<lparr>provider = 7, createdAt = 50, configGeneration = 2, secretResourceVersion = ''41''\<rparr>]"

text \<open>
  Variations of the example: the secret has been rotated to version 42; the secret is
  gone; the ProviderConfig is gone; the factory fails.
\<close>

definition env_rotated :: "nat cache_env" where
  "env_rotated =
     env_example\<lparr>getSecret := (\<lambda>ns name.
        if ns = ''default'' \<and> name = ''otc-credentials'' then Inr \<lparr>ResourceVersion = ''42''\<rparr>
        else Inl (StatusNotFound name))\<rparr>"

definition env_no_secret :: "nat cache_env" where
  "env_no_secret = env_example\<lparr>getSecret := (\<lambda>ns name. Inl (StatusNotFound name))\<rparr>"

definition env_no_config :: "nat cache_env" where
  "env_no_config = env_example\<lparr>getProviderConfig := (\<lambda>ns name. Inl (StatusNotFound name))\<rparr>"

definition env_factory_fails :: "nat cache_env" where
  "env_factory_fails =
     env_example\<lparr>NewFromProviderConfig := (\<lambda>ref ns. Inl (OtherError ''authentication failed''))\<rparr>"

section \<open>API types\<close>

record LocalObjectReference =
  lor_Name :: string

record LabelSelectorRequirement =
  req_Key :: string
  req_Operator :: string
  req_Values :: "string list"

text \<open>\<^verbatim>\<open>MatchLabels\<close> is a Go map, kept as the list of its entries; \<^verbatim>\<open>len\<close> is its length.\<close>

record LabelSelector =
  MatchLabels :: "(string \<times> string) list"
  MatchExpressions :: "LabelSelectorRequirement list"

text \<open>The dependency structs: three pointers each, \<open>None\<close> for \<^verbatim>\<open>nil\<close>.\<close>

record NetworkDependency =
  NetworkID :: "string option"
  NetworkRef :: "LocalObjectReference option"
  NetworkSelector :: "LabelSelector option"

record SubnetDependency =
  SubnetID :: "string option"
  SubnetRef :: "LocalObjectReference option"
  SubnetSelector :: "LabelSelector option"

record SecurityGroupDependency =
  SecurityGroupID :: "string option"
  SecurityGroupRef :: "LocalObjectReference option"
  SecurityGroupSelector :: "LabelSelector option"

record NATGatewayDependency =
  NATGatewayID :: "string option"
  NATGatewayRef :: "LocalObjectReference option"
  NATGatewaySelector :: "LabelSelector option"

record PublicIPDependency =
  PublicIPID :: "string option"
  PublicIPRef :: "LocalObjectReference option"
  PublicIPSelector :: "LabelSelector option"

record NetworkSpec =
  net_ProviderConfigRef :: ProviderConfigReference
  net_Description :: string
  net_Cidr :: string
  net_OrphanOnDelete :: bool

record SubnetSpec =
  sub_ProviderConfigRef :: ProviderConfigReference
  sub_Network :: NetworkDependency
  sub_Description :: string
  sub_Cidr :: string
  sub_GatewayIP :: string
  sub_OrphanOnDelete :: bool

record SecurityGroupSpec =
  sg_ProviderConfigRef :: ProviderConfigReference
  sg_Description :: string
  sg_OrphanOnDelete :: bool

record NATGatewaySpec =
  ngw_ProviderConfigRef :: ProviderConfigReference
  ngw_Network :: NetworkDependency
  ngw_Subnet :: SubnetDependency
  ngw_Description :: string
  ngw_Type :: string
  ngw_OrphanOnDelete :: bool

record PublicIPSpec =
  pip_ProviderConfigRef :: ProviderConfigReference
  pip_Type :: string
  pip_BandwidthSize :: int
  pip_BandwidthShareType :: string
  pip_OrphanOnDelete :: bool

record SecurityGroupRuleSpec =
  sgr_ProviderConfigRef :: ProviderConfigReference
  sgr_SecurityGroup :: SecurityGroupDependency
  sgr_Description :: string
  sgr_Direction :: string
  sgr_Protocol :: string
  sgr_Ethertype :: string
  sgr_Multiport :: string
  sgr_Action :: string
  sgr_Priority :: "int option"
  sgr_OrphanOnDelete :: bool

record SNATRuleSpec =
  snat_ProviderConfigRef :: ProviderConfigReference
  snat_NATGateway :: NATGatewayDependency
  snat_Subnet :: SubnetDependency
  snat_PublicIP :: PublicIPDependency
  snat_Description :: string
  snat_OrphanOnDelete :: bool

text \<open>The resolved-dependencies records of the four dependent kinds.\<close>

record SubnetDependencieskResolved =
  subres_NetworkID :: string

record NATGatewayDependenciesResolved =
  ngwres_NetworkID :: string
  ngwres_SubnetID :: string

record SNATRuleDependenciesResolved =
  snatres_NATGatewayID :: string
  snatres_SubnetID :: string
  snatres_PublicIPID :: string

record SecurityGroupResolved =
  sgrres_SecurityGroupID :: string

text \<open>
  A managed resource: the object metadata the controllers use, the spec, and the status.
  Every kind has the same status fields; the kinds without dependencies have no
  \<^verbatim>\<open>ResolvedDependencies\<close> (type \<open>unit\<close> here). Times are clock readings.
\<close>

record ('sp, 'r) object =
  obj_Name :: string
  obj_Namespace :: string
  obj_Labels :: "(string \<times> string) list"
  obj_Generation :: "64 word"
  obj_Finalizers :: "string list"
  obj_DeletionTimestamp :: "nat option"
  Spec :: 'sp
  st_Conditions :: "condition list"
  st_ExternalID :: string
  st_ResolvedDependencies :: 'r
  st_ObservedGeneration :: "64 word"
  st_LastSyncTime :: "nat option"
  st_LastAppliedSpec :: "'sp option"

type_synonym Network = "(NetworkSpec, unit) object"
type_synonym Subnet = "(SubnetSpec, SubnetDependencieskResolved) object"
type_synonym SecurityGroup = "(SecurityGroupSpec, unit) object"
type_synonym NATGateway = "(NATGatewaySpec, NATGatewayDependenciesResolved) object"
type_synonym PublicIP = "(PublicIPSpec, unit) object"
type_synonym SecurityGroupRule = "(SecurityGroupRuleSpec, SecurityGroupResolved) object"
type_synonym SNATRule = "(SNATRuleSpec, SNATRuleDependenciesResolved) object"

text \<open>
  \<^verbatim>\<open>client.Object\<close> as the resolver sees it: a value of one of the five kinds that can be
  a dependency, with its dynamic type.
\<close>

datatype client_object =
    NetworkObj Network
  | SubnetObj Subnet
  | SecurityGroupObj SecurityGroup
  | NATGatewayObj NATGateway
  | PublicIPObj PublicIP

fun GetName :: "client_object \<Rightarrow> string" where
  "GetName (NetworkObj x) = obj_Name x"
| "GetName (SubnetObj x) = obj_Name x"
| "GetName (SecurityGroupObj x) = obj_Name x"
| "GetName (NATGatewayObj x) = obj_Name x"
| "GetName (PublicIPObj x) = obj_Name x"

section \<open>Object store boundary\<close>

text \<open>
  \<^verbatim>\<open>client.Client\<close>, typed as Go types it: \<^verbatim>\<open>Get\<close> fills an object of the static type of
  its argument, \<^verbatim>\<open>List\<close> fills a list of that type, so there is one pair of operations
  per kind. \<^verbatim>\<open>get ns name\<close> is \<^verbatim>\<open>Get\<close> with that object key; \<^verbatim>\<open>list ns sel\<close> is \<^verbatim>\<open>List\<close>
  with \<^verbatim>\<open>InNamespace(ns)\<close> and, when \<open>sel\<close> is given, \<^verbatim>\<open>MatchingLabelsSelector\<close>.
  \<^verbatim>\<open>metav1.LabelSelectorAsSelector\<close> is the library's conversion, which can fail.
\<close>

datatype Selector = Requirements LabelSelector

record 'a api =
  get :: "string \<Rightarrow> string \<Rightarrow> error + 'a"
  list :: "string \<Rightarrow> Selector option \<Rightarrow> error + 'a list"

record client =
  Networks :: "Network api"
  Subnets :: "Subnet api"
  SecurityGroups :: "SecurityGroup api"
  NATGateways :: "NATGateway api"
  PublicIPs :: "PublicIP api"
  SecurityGroupRules :: "SecurityGroupRule api"
  SNATRules :: "SNATRule api"
  LabelSelectorAsSelector :: "LabelSelector \<Rightarrow> error + Selector"

section \<open>Dependency resolver\<close>

definition resolveByRef :: "'a api \<Rightarrow> LocalObjectReference \<Rightarrow> string \<Rightarrow> error + 'a" where
  "resolveByRef a ref ns = get a ns (lor_Name ref)"

text \<open>
  \<^verbatim>\<open>resolveBySelector\<close>; \<open>a\<close> and \<open>wrap\<close> stand for the list object passed in: the kind
  that is listed, and \<^verbatim>\<open>GetItems\<close>, which hands the items out as \<^verbatim>\<open>client.Object\<close>s of
  that kind.
\<close>

definition resolveBySelector ::
  "client \<Rightarrow> 'a api \<Rightarrow> ('a \<Rightarrow> client_object) \<Rightarrow> LabelSelector \<Rightarrow> string \<Rightarrow> error + client_object"
where
  "resolveBySelector c a wrap selector ns =
     (if length (MatchLabels selector) = 0
      then Inl (Errorf ''matchLabels cannot be empty for selector'' [])
      else case LabelSelectorAsSelector c selector of
        Inl err \<Rightarrow> Inl (Wrapf ''invalid label selector: %w'' [] err)
      | Inr labelSelector \<Rightarrow>
          (case list a ns (Some labelSelector) of
             Inl err \<Rightarrow>
               Inl (Wrapf ''failed to list resources with selector %v: %w''
                      [M (MatchLabels selector)] err)
           | Inr objs \<Rightarrow>
               (let items = map wrap objs in
                if length items = 0
                then Inl (Errorf ''no resources found matching selector %v in namespace %s''
                            [M (MatchLabels selector), S ns])
                else if length items > 1
                then Inl (Errorf
                            ''expected exactly one resource to match selector %v, but found %d''
                            [M (MatchLabels selector), I (int (length items))])
                else Inr (hd items))))"

text \<open>The type switch of \<^verbatim>\<open>checkReadinessAndGetID\<close>: three kinds are handled.\<close>

fun statusOf :: "client_object \<Rightarrow> (string \<times> condition list) option" where
  "statusOf (NetworkObj x) = Some (st_ExternalID x, st_Conditions x)"
| "statusOf (SubnetObj x) = Some (st_ExternalID x, st_Conditions x)"
| "statusOf (SecurityGroupObj x) = Some (st_ExternalID x, st_Conditions x)"
| "statusOf _ = None"

definition checkReadinessAndGetID :: "client_object \<Rightarrow> string \<Rightarrow> error + string" where
  "checkReadinessAndGetID obj kind =
     (case statusOf obj of
        None \<Rightarrow> Inl (Errorf ''unhandled dependency type for kind %s'' [S kind])
      | Some (externalID, conditions) \<Rightarrow>
          if externalID = []
          then Inl (Errorf ''%s dependency '%s' is not ready: external ID is not yet set''
                      [S kind, S (GetName obj)])
          else if \<not> IsStatusConditionTrue conditions condReady
          then Inl (Errorf ''%s dependency '%s' is not ready: 'Ready' condition is not true''
                      [S kind, S (GetName obj)])
          else Inr externalID)"

text \<open>
  The five resolvers. \<open>ns\<close> is the resolver's namespace. Each \<^verbatim>\<open>switch\<close> takes the first
  case that holds.
\<close>

definition ResolveNetwork :: "client \<Rightarrow> string \<Rightarrow> NetworkDependency \<Rightarrow> error + string" where
  "ResolveNetwork c ns dep =
     (if NetworkID dep \<noteq> None \<and> NetworkID dep \<noteq> Some [] then Inr (the (NetworkID dep))
      else case NetworkRef dep of
        Some ref \<Rightarrow>
          (case resolveByRef (Networks c) ref ns of
             Inl err \<Rightarrow> Inl (Wrapf ''failed to resolve network by reference: %w'' [] err)
           | Inr network \<Rightarrow> checkReadinessAndGetID (NetworkObj network) ''Network'')
      | None \<Rightarrow>
          (case NetworkSelector dep of
             Some selector \<Rightarrow>
               (case resolveBySelector c (Networks c) NetworkObj selector ns of
                  Inl err \<Rightarrow> Inl (Wrapf ''failed to resolve network by selector: %w'' [] err)
                | Inr resolvedObject \<Rightarrow> checkReadinessAndGetID resolvedObject ''Network'')
           | None \<Rightarrow> Inl (Errorf ''no network specified'' [])))"

definition ResolveSubnet :: "client \<Rightarrow> string \<Rightarrow> SubnetDependency \<Rightarrow> error + string" where
  "ResolveSubnet c ns dep =
     (if SubnetID dep \<noteq> None \<and> SubnetID dep \<noteq> Some [] then Inr (the (SubnetID dep))
      else case SubnetRef dep of
        Some ref \<Rightarrow>
          (case resolveByRef (Subnets c) ref ns of
             Inl err \<Rightarrow> Inl (Wrapf ''failed to resolve subnet by reference: %w'' [] err)
           | Inr subnet \<Rightarrow> checkReadinessAndGetID (SubnetObj subnet) ''Subnet'')
      | None \<Rightarrow>
          (case SubnetSelector dep of
             Some selector \<Rightarrow>
               (case resolveBySelector c (Subnets c) SubnetObj selector ns of
                  Inl err \<Rightarrow> Inl (Wrapf ''failed to resolve subnet by selector: %w'' [] err)
                | Inr resolvedObject \<Rightarrow> checkReadinessAndGetID resolvedObject ''Subnet'')
           | None \<Rightarrow> Inl (Errorf ''no subnet specified'' [])))"

definition ResolveSecurityGroup ::
  "client \<Rightarrow> string \<Rightarrow> SecurityGroupDependency \<Rightarrow> error + string"
where
  "ResolveSecurityGroup c ns dep =
     (if SecurityGroupID dep \<noteq> None \<and> SecurityGroupID dep \<noteq> Some []
      then Inr (the (SecurityGroupID dep))
      else case SecurityGroupRef dep of
        Some ref \<Rightarrow>
          (case resolveByRef (SecurityGroups c) ref ns of
             Inl err \<Rightarrow> Inl (Wrapf ''failed to resolve security group by reference: %w'' [] err)
           | Inr sg \<Rightarrow> checkReadinessAndGetID (SecurityGroupObj sg) ''SecurityGroup'')
      | None \<Rightarrow>
          (case SecurityGroupSelector dep of
             Some selector \<Rightarrow>
               (case resolveBySelector c (SecurityGroups c) SecurityGroupObj selector ns of
                  Inl err \<Rightarrow>
                    Inl (Wrapf ''failed to resolve security group by selector: %w'' [] err)
                | Inr resolvedObject \<Rightarrow> checkReadinessAndGetID resolvedObject ''SecurityGroup'')
           | None \<Rightarrow> Inl (Errorf ''no security group specified'' [])))"

text \<open>
  In \<^verbatim>\<open>ResolveNATGateway\<close> and \<^verbatim>\<open>ResolvePublicIP\<close> the reference case declares
  \<^verbatim>\<open>var sg otcv1alpha1.SecurityGroup\<close> and passes \<^verbatim>\<open>&sg\<close> to \<^verbatim>\<open>resolveByRef\<close> and to
  \<^verbatim>\<open>checkReadinessAndGetID\<close>: the object fetched is a SecurityGroup.
\<close>

definition ResolveNATGateway :: "client \<Rightarrow> string \<Rightarrow> NATGatewayDependency \<Rightarrow> error + string" where
  "ResolveNATGateway c ns dep =
     (if NATGatewayID dep \<noteq> None \<and> NATGatewayID dep \<noteq> Some []
      then Inr (the (NATGatewayID dep))
      else case NATGatewayRef dep of
        Some ref \<Rightarrow>
          (case resolveByRef (SecurityGroups c) ref ns of
             Inl err \<Rightarrow> Inl (Wrapf ''failed to resolve NAT gateway by reference: %w'' [] err)
           | Inr sg \<Rightarrow> checkReadinessAndGetID (SecurityGroupObj sg) ''NATGateway'')
      | None \<Rightarrow>
          (case NATGatewaySelector dep of
             Some selector \<Rightarrow>
               (case resolveBySelector c (NATGateways c) NATGatewayObj selector ns of
                  Inl err \<Rightarrow> Inl (Wrapf ''failed to resolve NAT gateway by selector: %w'' [] err)
                | Inr resolvedObject \<Rightarrow> checkReadinessAndGetID resolvedObject ''NATGateway'')
           | None \<Rightarrow> Inl (Errorf ''no NAT gateway specified'' [])))"

definition ResolvePublicIP :: "client \<Rightarrow> string \<Rightarrow> PublicIPDependency \<Rightarrow> error + string" where
  "ResolvePublicIP c ns dep =
     (if PublicIPID dep \<noteq> None \<and> PublicIPID dep \<noteq> Some []
      then Inr (the (PublicIPID dep))
      else case PublicIPRef dep of
        Some ref \<Rightarrow>
          (case resolveByRef (SecurityGroups c) ref ns of
             Inl err \<Rightarrow> Inl (Wrapf ''failed to resolve public IP by reference: %w'' [] err)
           | Inr sg \<Rightarrow> checkReadinessAndGetID (SecurityGroupObj sg) ''PublicIP'')
      | None \<Rightarrow>
          (case PublicIPSelector dep of
             Some selector \<Rightarrow>
               (case resolveBySelector c (PublicIPs c) PublicIPObj selector ns of
                  Inl err \<Rightarrow> Inl (Wrapf ''failed to resolve public IP by selector: %w'' [] err)
                | Inr resolvedObject \<Rightarrow> checkReadinessAndGetID resolvedObject ''PublicIP'')
           | None \<Rightarrow> Inl (Errorf ''no public IP specified'' [])))"

subsection \<open>An in-memory object store for examples\<close>

text \<open>
  A store that holds a list of objects per kind: \<^verbatim>\<open>Get\<close> finds the object with the given
  namespace and name or answers NotFound, \<^verbatim>\<open>List\<close> returns the objects of the namespace
  that the selector matches: their labels contain every \<^verbatim>\<open>matchLabels\<close> pair and meet every
  \<^verbatim>\<open>matchExpressions\<close> requirement (\<^verbatim>\<open>In\<close>: the key is there with one of the values;
  \<^verbatim>\<open>NotIn\<close>: it is not there with any of them; \<^verbatim>\<open>Exists\<close>, \<^verbatim>\<open>DoesNotExist\<close>: the key is there,
  is not there).
\<close>

definition requirement_matches ::
  "(string \<times> string) list \<Rightarrow> LabelSelectorRequirement \<Rightarrow> bool" where
  "requirement_matches have r =
     (if req_Operator r = ''In''
      then list_ex (\<lambda>v. (req_Key r, v) \<in> set have) (req_Values r)
      else if req_Operator r = ''NotIn''
      then \<not> list_ex (\<lambda>v. (req_Key r, v) \<in> set have) (req_Values r)
      else if req_Operator r = ''Exists'' then req_Key r \<in> set (map fst have)
      else req_Key r \<notin> set (map fst have))"

definition labels_match :: "LabelSelector \<Rightarrow> (string \<times> string) list \<Rightarrow> bool" where
  "labels_match selector have =
     (list_all (\<lambda>kv. kv \<in> set have) (MatchLabels selector) \<and>
      list_all (requirement_matches have) (MatchExpressions selector))"

text \<open>
  The conversion of the example stores fails where the library's does: for an operator
  other than the four, for \<^verbatim>\<open>In\<close> and \<^verbatim>\<open>NotIn\<close> without values, and for \<^verbatim>\<open>Exists\<close> and
  \<^verbatim>\<open>DoesNotExist\<close> with values; the first offending requirement decides. (The library
  also checks the syntax of keys and values; the examples have no ill-formed one.)
\<close>

definition requirement_error :: "LabelSelectorRequirement \<Rightarrow> error option" where
  "requirement_error r =
     (if req_Operator r = ''In'' \<or> req_Operator r = ''NotIn''
      then (if req_Values r = []
            then Some (OtherError ''for in, notin operators, values set cannot be empty'')
            else None)
      else if req_Operator r = ''Exists'' \<or> req_Operator r = ''DoesNotExist''
      then (if req_Values r = [] then None
            else Some (OtherError ''values set must be empty for exists and does not exist''))
      else Some (Errorf ''%q is not a valid label selector operator'' [S (req_Operator r)]))"

definition AsSelector :: "LabelSelector \<Rightarrow> error + Selector" where
  "AsSelector selector =
     (case List.map_filter requirement_error (MatchExpressions selector) of
        [] \<Rightarrow> Inr (Requirements selector)
      | err # errs \<Rightarrow> Inl err)"

definition store_api :: "('sp, 'r) object list \<Rightarrow> ('sp, 'r) object api" where
  "store_api objs =
     \<lparr>get = (\<lambda>ns name.
        case find (\<lambda>x. obj_Namespace x = ns \<and> obj_Name x = name) objs of
          None \<Rightarrow> Inl (StatusNotFound name)
        | Some x \<Rightarrow> Inr x),
      list = (\<lambda>ns sel.
        Inr (filter (\<lambda>x. obj_Namespace x = ns \<and>
                       (case sel of
                          None \<Rightarrow> True
                        | Some (Requirements ls) \<Rightarrow> labels_match ls (obj_Labels x)))
               objs))\<rparr>"

definition new_object ::
  "string \<Rightarrow> string \<Rightarrow> (string \<times> string) list \<Rightarrow> 'sp \<Rightarrow> 'r \<Rightarrow> string \<Rightarrow> condition list
     \<Rightarrow> ('sp, 'r) object"
where
  "new_object name ns labels spec res externalID conds =
     \<lparr>obj_Name = name, obj_Namespace = ns, obj_Labels = labels, obj_Generation = 1,
      obj_Finalizers = [], obj_DeletionTimestamp = None, Spec = spec,
      st_Conditions = conds, st_ExternalID = externalID, st_ResolvedDependencies = res,
      st_ObservedGeneration = 1, st_LastSyncTime = None, st_LastAppliedSpec = Some spec\<rparr>"

definition network_by_id :: NetworkDependency where
  "network_by_id = \<lparr>NetworkID = Some ''net-1'', NetworkRef = None, NetworkSelector = None\<rparr>"

definition subnet_by_id :: SubnetDependency where
  "subnet_by_id = \<lparr>SubnetID = Some ''sub-1'', SubnetRef = None, SubnetSelector = None\<rparr>"

text \<open>
  A ready NAT gateway \<^verbatim>\<open>gw\<close> (external ID \<^verbatim>\<open>nat-1\<close>), a ready public IP \<^verbatim>\<open>eip\<close>
  (\<^verbatim>\<open>eip-1\<close>) and a ready security group that is also named \<^verbatim>\<open>gw\<close> (\<^verbatim>\<open>sg-1\<close>).
\<close>

definition natgw_example :: NATGateway where
  "natgw_example =
     new_object ''gw'' ''default'' [(''app'', ''nat'')]
       \<lparr>ngw_ProviderConfigRef = ref_example, ngw_Network = network_by_id, ngw_Subnet = subnet_by_id,
        ngw_Description = [], ngw_Type = ''small'', ngw_OrphanOnDelete = False\<rparr>
       \<lparr>ngwres_NetworkID = ''net-1'', ngwres_SubnetID = ''sub-1''\<rparr>
       ''nat-1'' (SetProvisioned [] 1)"

definition publicip_example :: PublicIP where
  "publicip_example =
     new_object ''eip'' ''default'' [(''app'', ''eip'')]
       \<lparr>pip_ProviderConfigRef = ref_example, pip_Type = ''5_bgp'', pip_BandwidthSize = 5,
        pip_BandwidthShareType = ''PER'', pip_OrphanOnDelete = False\<rparr>
       () ''eip-1'' (SetProvisioned [] 1)"

definition sg_example :: SecurityGroup where
  "sg_example =
     new_object ''gw'' ''default'' []
       \<lparr>sg_ProviderConfigRef = ref_example, sg_Description = [], sg_OrphanOnDelete = False\<rparr>
       () ''sg-1'' (SetProvisioned [] 1)"

definition store_example :: "SecurityGroup list \<Rightarrow> client" where
  "store_example sgs =
     \<lparr>Networks = store_api [], Subnets = store_api [], SecurityGroups = store_api sgs,
      NATGateways = store_api [natgw_example], PublicIPs = store_api [publicip_example],
      SecurityGroupRules = store_api [], SNATRules = store_api [],
      LabelSelectorAsSelector = AsSelector\<rparr>"

definition by_ref :: "string \<Rightarrow> LocalObjectReference option" where
  "by_ref name = Some \<lparr>lor_Name = name\<rparr>"

definition by_labels :: "(string \<times> string) list \<Rightarrow> LabelSelector option" where
  "by_labels ls = Some \<lparr>MatchLabels = ls, MatchExpressions = []\<rparr>"

text \<open>Two networks that carry the same label, in a store of their own.\<close>

definition network_example :: "string \<Rightarrow> string \<Rightarrow> Network" where
  "network_example name externalID =
     new_object name ''default'' [(''tier'', ''web'')]
       \<lparr>net_ProviderConfigRef = ref_example, net_Description = [], net_Cidr = ''10.0.0.0/16'',
        net_OrphanOnDelete = False\<rparr>
       () externalID (SetProvisioned [] 1)"

definition networks_store :: client where
  "networks_store =
     \<lparr>Networks = store_api [network_example ''net-a'' ''vpc-a'', network_example ''net-b'' ''vpc-b''],
      Subnets = store_api [], SecurityGroups = store_api [],
      NATGateways = store_api [], PublicIPs = store_api [],
      SecurityGroupRules = store_api [], SNATRules = store_api [],
      LabelSelectorAsSelector = AsSelector\<rparr>"

definition web_selector :: LabelSelector where
  "web_selector = \<lparr>MatchLabels = [(''tier'', ''web'')], MatchExpressions = []\<rparr>"

definition db_selector :: LabelSelector where
  "db_selector = \<lparr>MatchLabels = [(''tier'', ''db'')], MatchExpressions = []\<rparr>"

section \<open>Generic reconciler\<close>

definition reasonProvisioningFailed :: string where
  "reasonProvisioningFailed = ''ProvisioningFailed''"
definition reasonUpdateFailed :: string where "reasonUpdateFailed = ''UpdateFailed''"

definition SetSyncedAndReady :: "condition list \<Rightarrow> 64 word \<Rightarrow> condition list" where
  "SetSyncedAndReady conditions generation =
     SetReady (SetSynced conditions generation []) generation []"

definition SetCreating :: "condition list \<Rightarrow> 64 word \<Rightarrow> condition list" where
  "SetCreating conditions generation =
     SetNotReady
       (SetNotSynced conditions generation
          [WithReason reasonCreating, WithMessage (Str ''Creating external resource'')])
       generation
       [WithReason reasonCreating,
        WithMessage (Str ''Resource is being created and is not yet available'')]"

definition SetProvisioning ::
  "condition list \<Rightarrow> 64 word \<Rightarrow> ConditionOption list \<Rightarrow> condition list" where
  "SetProvisioning conditions generation opts =
     (case applyOptions reasonProvisioning (Str ''Resource is provisioning'') opts of
        (r, m) \<Rightarrow>
          SetNotReady
            (SetNotSynced conditions generation [WithReason r, WithMessage m])
            generation [WithReason r, WithMessage m])"

definition SetUpdating :: "condition list \<Rightarrow> 64 word \<Rightarrow> condition list" where
  "SetUpdating conditions generation =
     SetNotReady
       (SetNotSynced conditions generation
          [WithReason reasonReconciling,
           WithMessage (Str ''Updating external resource to match desired state'')])
       generation
       [WithReason reasonReconciling, WithMessage (Str ''Resource is being updated'')]"

text \<open>\<^verbatim>\<open>ctrl.Result\<close>; durations are in nanoseconds.\<close>

record Result =
  Requeue :: bool
  RequeueAfter :: int

definition no_requeue :: Result where
  "no_requeue = \<lparr>Requeue = False, RequeueAfter = 0\<rparr>"

definition second :: int where "second = 1000000000"

subsection \<open>Provider boundary\<close>

record CreateNetworkRequest =
  cnr_Name :: string
  cnr_Description :: string
  cnr_Cidr :: string

record UpdateNetworkRequest =
  unr_Description :: string

record CreateNetworkResponse =
  resp_ID :: string

record NetworkInfo =
  ni_ID :: string
  ni_Name :: string
  ni_Description :: string
  ni_Cidr :: string
  ni_Status :: string

datatype State = Unknown | Provisioning | Ready | Stopped | Failed

definition NetworkInfo_State :: "NetworkInfo \<Rightarrow> State" where
  "NetworkInfo_State i =
     (if ni_Status i = ''ACTIVE'' \<or> ni_Status i = ''OK'' then Ready
      else if ni_Status i = ''DOWN'' \<or> ni_Status i = ''ERROR'' \<or> ni_Status i = ''error''
      then Failed
      else if ni_Status i = ''CREATING'' then Provisioning
      else Unknown)"

definition NetworkInfo_Message :: "NetworkInfo \<Rightarrow> msg" where
  "NetworkInfo_Message i =
     (case NetworkInfo_State i of
        Ready \<Rightarrow> Str ''Network is active''
      | Failed \<Rightarrow> Sprintf ''Network is in a failed state: %s'' [V (S (ni_Status i))]
      | Provisioning \<Rightarrow> Sprintf ''Network busy with status: %s'' [V (S (ni_Status i))]
      | _ \<Rightarrow> Sprintf ''Network is in an unhandled state: %s'' [V (S (ni_Status i))])"

text \<open>
  \<^verbatim>\<open>SecurityGroupRuleInfo\<close>, \<^verbatim>\<open>PublicIPInfo\<close> and \<^verbatim>\<open>SNATRuleInfo\<close> with their \<^verbatim>\<open>State\<close> and
  \<^verbatim>\<open>Message\<close> methods. A security group rule has no status: it is Ready if it exists.
\<close>

record SecurityGroupRuleInfo =
  sgri_ID :: string
  sgri_SecurityGroupID :: string
  sgri_Description :: string
  sgri_Direction :: string
  sgri_Protocol :: string
  sgri_EtherType :: string
  sgri_Multiport :: string
  sgri_Action :: string
  sgri_Priority :: int

definition SecurityGroupRuleInfo_State :: "SecurityGroupRuleInfo \<Rightarrow> State" where
  "SecurityGroupRuleInfo_State i = Ready"

definition SecurityGroupRuleInfo_Message :: "SecurityGroupRuleInfo \<Rightarrow> msg" where
  "SecurityGroupRuleInfo_Message i = Str ''Security Group Rule is active''"

record PublicIPInfo =
  pii_ID :: string
  pii_Name :: string
  pii_PublicAddress :: string
  pii_PrivateAddress :: string
  pii_Type :: string
  pii_BandwidthSize :: int
  pii_BandwidthName :: string
  pii_BandwidthShareType :: string
  pii_Status :: string

definition PublicIPInfo_State :: "PublicIPInfo \<Rightarrow> State" where
  "PublicIPInfo_State i =
     (if pii_Status i = ''ACTIVE'' \<or> pii_Status i = ''OK'' \<or> pii_Status i = ''ELB'' \<or>
         pii_Status i = ''VPN''
      then Ready
      else if pii_Status i = ''DOWN'' \<or> pii_Status i = ''FREEZED'' then Stopped
      else if pii_Status i = ''ERROR'' \<or> pii_Status i = ''error'' then Failed
      else if pii_Status i = ''BINDING'' \<or> pii_Status i = ''NOTIFYING'' \<or>
              pii_Status i = ''NOTIFY_DELETE'' \<or> pii_Status i = ''PENDING_CREATE'' \<or>
              pii_Status i = ''PENDING_UPDATE'' \<or> pii_Status i = ''PENDING_DELETE''
      then Provisioning
      else Unknown)"

definition PublicIPInfo_Message :: "PublicIPInfo \<Rightarrow> msg" where
  "PublicIPInfo_Message i =
     (case PublicIPInfo_State i of
        Ready \<Rightarrow> Str ''Public IP is active''
      | Stopped \<Rightarrow> Str ''Public IP is inactive.''
      | Failed \<Rightarrow> Sprintf ''Public IP is in a failed state: %s'' [V (S (pii_Status i))]
      | Provisioning \<Rightarrow> Sprintf ''Public IP busy with status: %s'' [V (S (pii_Status i))]
      | _ \<Rightarrow> Sprintf ''Public IP is in an unhandled state: %s'' [V (S (pii_Status i))])"

record SNATRuleInfo =
  snati_ID :: string
  snati_Description :: string
  snati_Status :: string
  snati_NATGatewayID :: string
  snati_SubnetID :: string
  snati_PublicIPID :: string

definition SNATRuleInfo_State :: "SNATRuleInfo \<Rightarrow> State" where
  "SNATRuleInfo_State i =
     (if snati_Status i = ''ACTIVE'' then Ready
      else if snati_Status i = ''INACTIVE'' \<or> snati_Status i = ''DOWN'' \<or>
              snati_Status i = ''ERROR''
      then Failed
      else if snati_Status i = ''PENDING_CREATE'' \<or> snati_Status i = ''PENDING_UPDATE'' \<or>
              snati_Status i = ''PENDING_DELETE''
      then Provisioning
      else Unknown)"

definition SNATRuleInfo_Message :: "SNATRuleInfo \<Rightarrow> msg" where
  "SNATRuleInfo_Message i =
     (case SNATRuleInfo_State i of
        Ready \<Rightarrow> Str ''Network is active''
      | Failed \<Rightarrow> Sprintf ''Network is in a failed state: %s'' [V (S (snati_Status i))]
      | Provisioning \<Rightarrow> Sprintf ''Network busy with status: %s'' [V (S (snati_Status i))]
      | _ \<Rightarrow> Sprintf ''Network is in an unhandled state: %s'' [V (S (snati_Status i))])"

text \<open>
  The operations of the \<^verbatim>\<open>Provider\<close> interface that the controllers below call. Go returns
  a pair \<^verbatim>\<open>(*Info, error)\<close> from a \<^verbatim>\<open>Get\<close> operation; both may be nil. For security group
  rules, public IPs and SNAT rules the interface has create, get and delete operations
  and no update operation.
\<close>

record Provider =
  p_CreateNetwork :: "CreateNetworkRequest \<Rightarrow> CreateNetworkResponse \<times> error option"
  p_GetNetwork :: "string \<Rightarrow> NetworkInfo option \<times> error option"
  p_UpdateNetwork :: "string \<Rightarrow> UpdateNetworkRequest \<Rightarrow> error option"
  p_DeleteNetwork :: "string \<Rightarrow> error option"
  p_GetSecurityGroupRule :: "string \<Rightarrow> SecurityGroupRuleInfo option \<times> error option"
  p_GetPublicIP :: "string \<Rightarrow> PublicIPInfo option \<times> error option"
  p_GetSNATRule :: "string \<Rightarrow> SNATRuleInfo option \<times> error option"

text \<open>
  The implementation of \<^verbatim>\<open>GetNetwork\<close> in \<^verbatim>\<open>internal/provider/network.go\<close>, over the result
  of \<^verbatim>\<open>vpcs.Get(...).Extract()\<close>. The type assertion holds for an error that is a
  \<^verbatim>\<open>gophercloud.ErrDefault404\<close> itself.
\<close>

record Vpc =
  vpc_ID :: string
  vpc_Name :: string
  vpc_Description :: string
  vpc_CIDR :: string
  vpc_Status :: string

definition GetNetwork :: "(string \<Rightarrow> error + Vpc) \<Rightarrow> string \<Rightarrow> NetworkInfo option \<times> error option" where
  "GetNetwork vpcs_Get networkID =
     (case vpcs_Get networkID of
        Inl err \<Rightarrow>
          if err = ErrDefault404 then (None, Some ErrNotFound)
          else (None, Some (Wrapf ''failed to get network: %w'' [] err))
      | Inr vpc \<Rightarrow>
          (Some \<lparr>ni_ID = vpc_ID vpc, ni_Name = vpc_Name vpc,
                 ni_Description = vpc_Description vpc, ni_Cidr = vpc_CIDR vpc,
                 ni_Status = vpc_Status vpc\<rparr>,
           None))"

subsection \<open>Reconciler state\<close>

text \<open>
  The requests a reconcile invocation sends to its collaborators, in order: object
  updates (with the finalizers and the status conditions of the object sent), status
  patches (with the conditions sent), and the provider's operations.
\<close>

datatype call =
    ClientUpdate "string list" "condition list"
  | StatusPatch "condition list"
  | ProviderCreateNetwork CreateNetworkRequest
  | ProviderGetNetwork string
  | ProviderUpdateNetwork string UpdateNetworkRequest
  | ProviderDeleteNetwork string
  | ProviderGetSecurityGroupRule string
  | ProviderGetPublicIP string
  | ProviderGetSNATRule string

text \<open>
  \<^verbatim>\<open>Reconciler\<close>. \<^verbatim>\<open>rc.conditions\<close> points to the status conditions of \<^verbatim>\<open>rc.object\<close>, and the
  per-kind functions receive the same object again as their own argument: there is one
  object, \<open>rc_object\<close>. \<open>rc_providers\<close> is the content of the provider cache,
  \<open>rc_calls\<close> the requests sent so far.
\<close>

record ('sp, 'r, 'p) Reconciler =
  rc_object :: "('sp, 'r) object"
  rc_generation :: "64 word"
  rc_finalizerName :: string
  rc_requeueAfter :: int
  rc_providers :: "'p cache"
  rc_calls :: "call list"

text \<open>
  The collaborators' answers during one invocation: the provider cache's environment,
  the object store's reads, and the object store's answers to \<^verbatim>\<open>client.Update\<close> and to
  \<^verbatim>\<open>client.Status().Patch\<close>. Both calls decode the server's response into the object they
  are given: the answer to the object sent is an error, which leaves the object as it is,
  or the object as the call leaves it. For a kind with a status subresource (every kind
  here) the response to an update carries the status that the store holds, not the one
  sent.
\<close>

record ('sp, 'r, 'p) collaborators =
  co_cache_env :: "'p cache_env"
  co_client :: client
  co_Update :: "('sp, 'r) object \<Rightarrow> error + ('sp, 'r) object"
  co_StatusPatch :: "('sp, 'r) object \<Rightarrow> error + ('sp, 'r) object"

definition set_conditions ::
  "(condition list \<Rightarrow> 64 word \<Rightarrow> condition list) \<Rightarrow> ('sp, 'r, 'p) Reconciler
     \<Rightarrow> ('sp, 'r, 'p) Reconciler"
where
  "set_conditions f rc =
     rc\<lparr>rc_object := (rc_object rc)\<lparr>st_Conditions :=
           f (st_Conditions (rc_object rc)) (rc_generation rc)\<rparr>\<rparr>"

definition rc_SetNotSynced where
  "rc_SetNotSynced opts = set_conditions (\<lambda>cs g. SetNotSynced cs g opts)"
definition rc_SetNotReady where
  "rc_SetNotReady opts = set_conditions (\<lambda>cs g. SetNotReady cs g opts)"
definition rc_SetReconciliationFailed where
  "rc_SetReconciliationFailed opts = set_conditions (\<lambda>cs g. SetReconciliationFailed cs g opts)"
definition rc_SetSyncedAndReady where
  "rc_SetSyncedAndReady = set_conditions SetSyncedAndReady"
definition rc_SetCreating where
  "rc_SetCreating = set_conditions SetCreating"
definition rc_SetProvisioning where
  "rc_SetProvisioning opts = set_conditions (\<lambda>cs g. SetProvisioning cs g opts)"
definition rc_SetProvisioned where
  "rc_SetProvisioned = set_conditions SetProvisioned"
definition rc_SetUpdating where
  "rc_SetUpdating = set_conditions SetUpdating"
definition rc_SetTerminating where
  "rc_SetTerminating = set_conditions SetTerminating"
definition rc_SetDeletionBlocked where
  "rc_SetDeletionBlocked opts = set_conditions (\<lambda>cs g. SetDeletionBlocked cs g opts)"
definition rc_SetDeleted where
  "rc_SetDeleted = set_conditions SetDeleted"
definition rc_SetOrphaned where
  "rc_SetOrphaned opts = set_conditions (\<lambda>cs g. SetOrphaned cs g opts)"

text \<open>\<^verbatim>\<open>controllerutil.ContainsFinalizer\<close> and \<^verbatim>\<open>controllerutil.RemoveFinalizer\<close>.\<close>

definition ContainsFinalizer :: "('sp, 'r) object \<Rightarrow> string \<Rightarrow> bool" where
  "ContainsFinalizer obj finalizer = (finalizer \<in> set (obj_Finalizers obj))"

definition RemoveFinalizer_util :: "('sp, 'r) object \<Rightarrow> string \<Rightarrow> ('sp, 'r) object" where
  "RemoveFinalizer_util obj finalizer =
     obj\<lparr>obj_Finalizers := filter (\<lambda>f. f \<noteq> finalizer) (obj_Finalizers obj)\<rparr>"

text \<open>
  \<^verbatim>\<open>rc.client.Update(ctx, rc.object)\<close>: the request is recorded, and on success the object
  of the reconciler is the one the call leaves.
\<close>

definition client_Update ::
  "('sp, 'r, 'p) collaborators \<Rightarrow> ('sp, 'r, 'p) Reconciler
     \<Rightarrow> error option \<times> ('sp, 'r, 'p) Reconciler"
where
  "client_Update env rc =
     (let rc1 = rc\<lparr>rc_calls := rc_calls rc @
                   [ClientUpdate (obj_Finalizers (rc_object rc)) (st_Conditions (rc_object rc))]\<rparr>
      in case co_Update env (rc_object rc) of
           Inl err \<Rightarrow> (Some err, rc1)
         | Inr stored \<Rightarrow> (None, rc1\<lparr>rc_object := stored\<rparr>))"

definition RemoveFinalizer ::
  "('sp, 'r, 'p) collaborators \<Rightarrow> ('sp, 'r, 'p) Reconciler
     \<Rightarrow> error option \<times> ('sp, 'r, 'p) Reconciler"
where
  "RemoveFinalizer env rc =
     client_Update env
       (rc\<lparr>rc_object := RemoveFinalizer_util (rc_object rc) (rc_finalizerName rc)\<rparr>)"

definition UpdateStatus ::
  "('sp, 'r, 'p) collaborators \<Rightarrow> ('sp, 'r, 'p) Reconciler
     \<Rightarrow> error option \<times> ('sp, 'r, 'p) Reconciler"
where
  "UpdateStatus env rc =
     (let rc1 = rc\<lparr>rc_calls := rc_calls rc @ [StatusPatch (st_Conditions (rc_object rc))]\<rparr>
      in case co_StatusPatch env (rc_object rc) of
           Inl err \<Rightarrow> (Some err, rc1)
         | Inr stored \<Rightarrow> (None, rc1\<lparr>rc_object := stored\<rparr>))"

subsection \<open>Reference guard\<close>

datatype ReferenceCheck =
    SecurityGroupRuleReferenceCheck
  | NATGatewayNetworkReferenceCheck
  | SNATRuleNetworkReferenceCheck
  | SubnetNetworkReferenceCheck

fun Resource :: "ReferenceCheck \<Rightarrow> string" where
  "Resource SecurityGroupRuleReferenceCheck = ''SecurityGroupRules''"
| "Resource NATGatewayNetworkReferenceCheck = ''NATGateways''"
| "Resource SNATRuleNetworkReferenceCheck = ''SNATRules''"
| "Resource SubnetNetworkReferenceCheck = ''Subnets''"

text \<open>The loop of every \<^verbatim>\<open>Check\<close>: the names of the items whose resolved ID is the target.\<close>

definition referencing :: "('r \<Rightarrow> string) \<Rightarrow> string \<Rightarrow> ('sp, 'r) object list \<Rightarrow> string list" where
  "referencing resolvedID externalID items =
     map obj_Name (filter (\<lambda>item. resolvedID (st_ResolvedDependencies item) = externalID) items)"

fun Check :: "ReferenceCheck \<Rightarrow> client \<Rightarrow> string \<Rightarrow> string \<Rightarrow> error + string list" where
  "Check SecurityGroupRuleReferenceCheck c namespace externalID =
     (case list (SecurityGroupRules c) namespace None of
        Inl err \<Rightarrow> Inl (Wrapf ''list SecurityGroupRules: %w'' [] err)
      | Inr items \<Rightarrow> Inr (referencing sgrres_SecurityGroupID externalID items))"
| "Check NATGatewayNetworkReferenceCheck c namespace externalID =
     (case list (NATGateways c) namespace None of
        Inl err \<Rightarrow> Inl (Wrapf ''list NATGateways: %w'' [] err)
      | Inr items \<Rightarrow> Inr (referencing ngwres_NetworkID externalID items))"
| "Check SNATRuleNetworkReferenceCheck c namespace externalID =
     (case list (SNATRules c) namespace None of
        Inl err \<Rightarrow> Inl (Wrapf ''list SNATRules: %w'' [] err)
      | Inr items \<Rightarrow> Inr (referencing snatres_NATGatewayID externalID items))"
| "Check SubnetNetworkReferenceCheck c namespace externalID =
     (case list (Subnets c) namespace None of
        Inl err \<Rightarrow> Inl (Wrapf ''list Subnets: %w'' [] err)
      | Inr items \<Rightarrow> Inr (referencing subres_NetworkID externalID items))"

text \<open>
  The loop of \<^verbatim>\<open>BlockOnAnyReference\<close> over the checks, with \<^verbatim>\<open>allRefs\<close> as accumulator: it
  stops at the first check that fails, with that check and its error.
\<close>

fun runChecks ::
  "client \<Rightarrow> string \<Rightarrow> string \<Rightarrow> ReferenceCheck list \<Rightarrow> string list
     \<Rightarrow> (ReferenceCheck \<times> error) + string list"
where
  "runChecks c namespace externalID [] allRefs = Inr allRefs"
| "runChecks c namespace externalID (chk # checks) allRefs =
     (case Check chk c namespace externalID of
        Inl err \<Rightarrow> Inl (chk, err)
      | Inr names \<Rightarrow>
          runChecks c namespace externalID checks
            (if length names > 0 then allRefs @ names else allRefs))"

definition BlockOnAnyReference ::
  "('sp, 'r, 'p) collaborators \<Rightarrow> ('sp, 'r, 'p) Reconciler \<Rightarrow> string \<Rightarrow> string
     \<Rightarrow> ReferenceCheck list
     \<Rightarrow> (bool \<times> Result \<times> error option) \<times> ('sp, 'r, 'p) Reconciler"
where
  "BlockOnAnyReference env rc namespace externalID checks =
     (case runChecks (co_client env) namespace externalID checks [] of
        Inl (chk, err) \<Rightarrow>
          ((True, \<lparr>Requeue = False, RequeueAfter = rc_requeueAfter rc\<rparr>, Some err),
           rc_SetReconciliationFailed
             [WithMessagef ''Failed reference check (%s): %v'' [V (S (Resource chk)), E err]] rc)
      | Inr allRefs \<Rightarrow>
          if length allRefs > 0
          then ((True, \<lparr>Requeue = False, RequeueAfter = rc_requeueAfter rc\<rparr>, None),
                rc_SetDeletionBlocked
                  [WithMessagef ''Still referenced by %v'' [V (Ss allRefs)]] rc)
          else ((False, no_requeue, None), rc))"

subsection \<open>Finalizer-based deletion\<close>

text \<open>
  \<^verbatim>\<open>Reconciler.Delete\<close>. The deletion callback \<open>fn\<close> receives the provider client; it runs
  in the state of the invocation, where it leaves the requests it sends. The result of the
  status patch after \<^verbatim>\<open>SetTerminating\<close> is dropped (best effort), the object it leaves is
  kept.
\<close>

definition Delete ::
  "('sp, 'r, 'p) collaborators \<Rightarrow> ('sp, 'r, 'p) Reconciler \<Rightarrow> ProviderConfigReference
     \<Rightarrow> bool \<Rightarrow> string
     \<Rightarrow> ('p \<Rightarrow> ('sp, 'r, 'p) Reconciler \<Rightarrow> error option \<times> ('sp, 'r, 'p) Reconciler)
     \<Rightarrow> (Result \<times> error option) \<times> ('sp, 'r, 'p) Reconciler"
where
  "Delete env rc providerRef orphanOnDelete externalID fn =
     (if \<not> ContainsFinalizer (rc_object rc) (rc_finalizerName rc)
      then ((no_requeue, None), rc)
      else
        let rc1 = snd (UpdateStatus env (rc_SetTerminating rc)) in
        case GetOrCreate (co_cache_env env) (rc_providers rc1) providerRef
               (obj_Namespace (rc_object rc1)) of
          (Inl err, cache') \<Rightarrow>
            (let rc2 = rc1\<lparr>rc_providers := cache'\<rparr> in
             if IsNotFound err
             then (case RemoveFinalizer env
                          (rc_SetOrphaned
                             [WithMessage
                                (Str ''Resource was orphaned because ProviderConfig was not found'')]
                             rc2) of
                     (uerr, rc3) \<Rightarrow> ((no_requeue, uerr), rc3))
             else ((\<lparr>Requeue = False, RequeueAfter = rc_requeueAfter rc\<rparr>, None),
                   rc_SetNotReady
                     [WithReason reasonDeletionFailed,
                      WithMessage (Str ''Deletion blocked by provider error'')]
                     (rc_SetNotSynced
                        [WithReason reasonDeletionFailed,
                         WithMessagef ''Cannot access provider: %v'' [E err]]
                        rc2)))
        | (Inr (p, pc), cache') \<Rightarrow>
            (let rc2 = rc1\<lparr>rc_providers := cache'\<rparr> in
             if \<not> orphanOnDelete \<and> externalID \<noteq> []
             then (case fn p rc2 of
                     (Some err, rc3) \<Rightarrow>
                       ((\<lparr>Requeue = False, RequeueAfter = rc_requeueAfter rc3\<rparr>, Some err),
                        rc_SetNotReady
                          [WithReason reasonDeletionFailed,
                           WithMessage (Str ''External resource deletion failed'')]
                          (rc_SetNotSynced
                             [WithReason reasonDeletionFailed, WithMessage (ErrorText err)]
                             rc3))
                   | (None, rc3) \<Rightarrow>
                       (case RemoveFinalizer env (rc_SetDeleted rc3) of
                          (uerr, rc4) \<Rightarrow> ((no_requeue, uerr), rc4)))
             else (case RemoveFinalizer env
                          (if orphanOnDelete then rc_SetOrphaned [] rc2 else rc2) of
                     (uerr, rc3) \<Rightarrow> ((no_requeue, uerr), rc3))))"

section \<open>Network controller\<close>

definition networkFinalizerName :: string where
  "networkFinalizerName = ''network.otc.peertech.de/finalizer''"

definition networkRequeueDelay :: int where
  "networkRequeueDelay = 30 * second"

type_synonym NetworkRc = "(NetworkSpec, unit, Provider) Reconciler"

definition set_status ::
  "(('sp, 'r) object \<Rightarrow> ('sp, 'r) object) \<Rightarrow> ('sp, 'r, 'p) Reconciler \<Rightarrow> ('sp, 'r, 'p) Reconciler"
where
  "set_status f rc = rc\<lparr>rc_object := f (rc_object rc)\<rparr>"

definition sent :: "call \<Rightarrow> ('sp, 'r, 'p) Reconciler \<Rightarrow> ('sp, 'r, 'p) Reconciler" where
  "sent c rc = rc\<lparr>rc_calls := rc_calls rc @ [c]\<rparr>"

definition reconcileCreate :: "NetworkRc \<Rightarrow> Provider \<Rightarrow> (Result \<times> error option) \<times> NetworkRc" where
  "reconcileCreate rc p =
     (let network = rc_object rc;
          req = \<lparr>cnr_Name = obj_Name network, cnr_Description = net_Description (Spec network),
                 cnr_Cidr = net_Cidr (Spec network)\<rparr>;
          rc1 = sent (ProviderCreateNetwork req) (rc_SetCreating rc)
      in case p_CreateNetwork p req of
           (resp, Some err) \<Rightarrow>
             ((\<lparr>Requeue = False, RequeueAfter = networkRequeueDelay\<rparr>, None),
              rc_SetReconciliationFailed
                [WithReason reasonProvisioningFailed,
                 WithMessagef ''Failed to create resource: %v'' [E err]] rc1)
         | (resp, None) \<Rightarrow>
             ((\<lparr>Requeue = False, RequeueAfter = 5 * second\<rparr>, None),
              set_status (\<lambda>n. n\<lparr>st_ExternalID := resp_ID resp,
                                 st_LastAppliedSpec := Some (Spec n)\<rparr>) rc1))"

text \<open>
  \<^verbatim>\<open>detectDrift\<close> reads the baseline from \<^verbatim>\<open>network.Status.LastAppliedSpec\<close>, which is not nil
  where \<^verbatim>\<open>reconcileUpdate\<close> calls it; the model hands it over as \<open>lastAppliedSpec\<close>.
\<close>

definition detectDrift :: "Network \<Rightarrow> NetworkSpec \<Rightarrow> UpdateNetworkRequest \<times> bool" where
  "detectDrift network lastAppliedSpec =
     (if net_Description (Spec network) \<noteq> net_Description lastAppliedSpec
      then (\<lparr>unr_Description = net_Description (Spec network)\<rparr>, True)
      else (\<lparr>unr_Description = []\<rparr>, False))"

definition handleDrift ::
  "NetworkRc \<Rightarrow> Provider \<Rightarrow> UpdateNetworkRequest \<Rightarrow> (Result \<times> error option) \<times> NetworkRc"
where
  "handleDrift rc p req =
     (let externalID = st_ExternalID (rc_object rc);
          rc1 = sent (ProviderUpdateNetwork externalID req) (rc_SetUpdating rc)
      in case p_UpdateNetwork p externalID req of
           Some err \<Rightarrow>
             ((\<lparr>Requeue = False, RequeueAfter = networkRequeueDelay\<rparr>, None),
              rc_SetReconciliationFailed
                [WithReason reasonUpdateFailed,
                 WithMessagef ''Failed to update resource: %v'' [E err]] rc1)
         | None \<Rightarrow>
             ((\<lparr>Requeue = True, RequeueAfter = 0\<rparr>, None),
              set_status (\<lambda>n. n\<lparr>st_LastAppliedSpec := Some (Spec n)\<rparr>) rc1))"

definition checkReadiness ::
  "nat \<Rightarrow> NetworkRc \<Rightarrow> NetworkInfo \<Rightarrow> (Result \<times> error option) \<times> NetworkRc"
where
  "checkReadiness clock rc info =
     (case NetworkInfo_State info of
        Ready \<Rightarrow>
          (let isNewlyProvisioned = (st_LastSyncTime (rc_object rc) = None);
               rc1 = set_status (\<lambda>n. n\<lparr>st_LastSyncTime := Some clock\<rparr>) rc
           in ((no_requeue, None),
               if isNewlyProvisioned then rc_SetProvisioned rc1 else rc_SetSyncedAndReady rc1))
      | Failed \<Rightarrow>
          ((\<lparr>Requeue = False, RequeueAfter = networkRequeueDelay\<rparr>, None),
           rc_SetReconciliationFailed
             [WithReason reasonFailed, WithMessage (NetworkInfo_Message info)] rc)
      | Provisioning \<Rightarrow>
          ((\<lparr>Requeue = False, RequeueAfter = networkRequeueDelay\<rparr>, None),
           rc_SetProvisioning [WithMessage (NetworkInfo_Message info)] rc)
      | _ \<Rightarrow>
          ((\<lparr>Requeue = False, RequeueAfter = networkRequeueDelay\<rparr>, None),
           rc_SetReconciliationFailed
             [WithReason reasonUnknown, WithMessage (NetworkInfo_Message info)] rc))"

definition reconcileUpdate ::
  "nat \<Rightarrow> NetworkRc \<Rightarrow> Provider \<Rightarrow> (Result \<times> error option) \<times> NetworkRc"
where
  "reconcileUpdate clock rc p =
     (case st_LastAppliedSpec (rc_object rc) of
        None \<Rightarrow>
          ((\<lparr>Requeue = True, RequeueAfter = 0\<rparr>, None),
           set_status (\<lambda>n. n\<lparr>st_LastAppliedSpec := Some (Spec n)\<rparr>) rc)
      | Some lastAppliedSpec \<Rightarrow>
          (let externalID = st_ExternalID (rc_object rc);
               rc1 = sent (ProviderGetNetwork externalID) rc
           in case p_GetNetwork p externalID of
                (info, Some err) \<Rightarrow>
                  ((\<lparr>Requeue = False, RequeueAfter = networkRequeueDelay\<rparr>, None),
                   rc_SetReconciliationFailed
                     [WithReason reasonProviderError,
                      WithMessagef ''Failed to check existing Network: %v'' [E err]] rc1)
              | (None, None) \<Rightarrow>
                  ((\<lparr>Requeue = True, RequeueAfter = 0\<rparr>, None),
                   set_status (\<lambda>n. n\<lparr>st_ExternalID := [], st_LastAppliedSpec := None\<rparr>)
                     (rc_SetNotReady
                        [WithReason reasonNotFound,
                         WithMessage (Str ''Resource needs to be recreated'')]
                        (rc_SetNotSynced
                           [WithReason reasonNotFound,
                            WithMessagef
                              ''External resource with ID %s was not found and will be recreated''
                              [V (S externalID)]]
                           rc1)))
              | (Some info, None) \<Rightarrow>
                  (case detectDrift (rc_object rc1) lastAppliedSpec of
                     (updateReq, needsUpdate) \<Rightarrow>
                       if needsUpdate then handleDrift rc1 p updateReq
                       else checkReadiness clock rc1 info)))"

definition reconcile ::
  "nat \<Rightarrow> NetworkRc \<Rightarrow> Provider \<Rightarrow> (Result \<times> error option) \<times> NetworkRc"
where
  "reconcile clock rc p =
     (if st_ExternalID (rc_object rc) = [] then reconcileCreate rc p
      else reconcileUpdate clock rc p)"

definition reconcileDelete ::
  "(NetworkSpec, unit, Provider) collaborators \<Rightarrow> NetworkRc
     \<Rightarrow> (Result \<times> error option) \<times> NetworkRc"
where
  "reconcileDelete env rc =
     (let network = rc_object rc in
      if st_ExternalID network = []
      then Delete env rc (net_ProviderConfigRef (Spec network)) (net_OrphanOnDelete (Spec network))
             (st_ExternalID network) (\<lambda>p rc'. (None, rc'))
      else case BlockOnAnyReference env rc (obj_Namespace network) (st_ExternalID network)
                  [SubnetNetworkReferenceCheck, NATGatewayNetworkReferenceCheck] of
             ((blocked, result, err), rc1) \<Rightarrow>
               if blocked then ((result, err), rc1)
               else Delete env rc1 (net_ProviderConfigRef (Spec network))
                      (net_OrphanOnDelete (Spec network)) (st_ExternalID network)
                      (\<lambda>p rc'. (p_DeleteNetwork p (st_ExternalID (rc_object rc')),
                                 sent (ProviderDeleteNetwork (st_ExternalID (rc_object rc'))) rc')))"

section \<open>Controllers of the kinds without updates\<close>

text \<open>
  The update paths of the PublicIP, SecurityGroupRule and SNATRule controllers. Their
  \<^verbatim>\<open>detectDrift\<close> and \<^verbatim>\<open>handleDrift\<close> ignore all their arguments. \<^verbatim>\<open>UpdatePublicIPRequest\<close>
  and \<^verbatim>\<open>UpdateSNATRuleRequest\<close> are empty structs (the records have a field of type
  \<open>unit\<close>: a record needs one).
\<close>

record UpdatePublicIPRequest =
  upr_unused :: unit

record UpdateSecurityGroupRuleRequest =
  usgr_Description :: string

record UpdateSNATRuleRequest =
  usr_unused :: unit

type_synonym PublicIPRc = "(PublicIPSpec, unit, Provider) Reconciler"
type_synonym SecurityGroupRuleRc =
  "(SecurityGroupRuleSpec, SecurityGroupResolved, Provider) Reconciler"
type_synonym SNATRuleRc = "(SNATRuleSpec, SNATRuleDependenciesResolved, Provider) Reconciler"

definition publicIPRequeueDelay :: int where
  "publicIPRequeueDelay = 30 * second"

definition securityGroupRuleRequeueDelay :: int where
  "securityGroupRuleRequeueDelay = 30 * second"

definition snatRuleRequeueDelay :: int where
  "snatRuleRequeueDelay = 30 * second"

subsection \<open>PublicIP\<close>

definition PublicIP_detectDrift :: "PublicIP \<Rightarrow> UpdatePublicIPRequest \<times> bool" where
  "PublicIP_detectDrift publicIP = (\<lparr>upr_unused = ()\<rparr>, False)"

definition PublicIP_handleDrift ::
  "PublicIPRc \<Rightarrow> Provider \<Rightarrow> UpdatePublicIPRequest \<Rightarrow> (Result \<times> error option) \<times> PublicIPRc"
where
  "PublicIP_handleDrift rc p req = ((\<lparr>Requeue = True, RequeueAfter = 0\<rparr>, None), rc)"

definition PublicIP_checkReadiness ::
  "nat \<Rightarrow> PublicIPRc \<Rightarrow> PublicIPInfo \<Rightarrow> (Result \<times> error option) \<times> PublicIPRc"
where
  "PublicIP_checkReadiness clock rc info =
     (case PublicIPInfo_State info of
        Ready \<Rightarrow>
          (let isNewlyProvisioned = (st_LastSyncTime (rc_object rc) = None);
               rc1 = set_status (\<lambda>n. n\<lparr>st_LastSyncTime := Some clock\<rparr>) rc
           in ((no_requeue, None),
               if isNewlyProvisioned then rc_SetProvisioned rc1 else rc_SetSyncedAndReady rc1))
      | Failed \<Rightarrow>
          ((\<lparr>Requeue = False, RequeueAfter = publicIPRequeueDelay\<rparr>, None),
           rc_SetReconciliationFailed
             [WithReason reasonFailed, WithMessage (PublicIPInfo_Message info)] rc)
      | Provisioning \<Rightarrow>
          ((\<lparr>Requeue = False, RequeueAfter = publicIPRequeueDelay\<rparr>, None),
           rc_SetProvisioning [WithMessage (PublicIPInfo_Message info)] rc)
      | _ \<Rightarrow>
          ((\<lparr>Requeue = False, RequeueAfter = publicIPRequeueDelay\<rparr>, None),
           rc_SetReconciliationFailed
             [WithReason reasonUnknown, WithMessage (PublicIPInfo_Message info)] rc))"

definition PublicIP_reconcileUpdate ::
  "nat \<Rightarrow> PublicIPRc \<Rightarrow> Provider \<Rightarrow> (Result \<times> error option) \<times> PublicIPRc"
where
  "PublicIP_reconcileUpdate clock rc p =
     (case st_LastAppliedSpec (rc_object rc) of
        None \<Rightarrow>
          ((\<lparr>Requeue = True, RequeueAfter = 0\<rparr>, None),
           set_status (\<lambda>n. n\<lparr>st_LastAppliedSpec := Some (Spec n)\<rparr>) rc)
      | Some lastAppliedSpec \<Rightarrow>
          (let externalID = st_ExternalID (rc_object rc);
               rc1 = sent (ProviderGetPublicIP externalID) rc
           in case p_GetPublicIP p externalID of
                (info, Some err) \<Rightarrow>
                  ((\<lparr>Requeue = False, RequeueAfter = publicIPRequeueDelay\<rparr>, None),
                   rc_SetReconciliationFailed
                     [WithReason reasonProviderError,
                      WithMessagef ''Failed to check existing Public IP: %v'' [E err]] rc1)
              | (None, None) \<Rightarrow>
                  ((\<lparr>Requeue = True, RequeueAfter = 0\<rparr>, None),
                   set_status (\<lambda>n. n\<lparr>st_ExternalID := [], st_LastAppliedSpec := None\<rparr>)
                     (rc_SetNotReady
                        [WithReason reasonNotFound,
                         WithMessage (Str ''Resource needs to be recreated'')]
                        (rc_SetNotSynced
                           [WithReason reasonNotFound,
                            WithMessagef
                              ''External resource with ID %s was not found and will be recreated''
                              [V (S externalID)]]
                           rc1)))
              | (Some info, None) \<Rightarrow>
                  (case PublicIP_detectDrift (rc_object rc1) of
                     (updateReq, needsUpdate) \<Rightarrow>
                       if needsUpdate then PublicIP_handleDrift rc1 p updateReq
                       else PublicIP_checkReadiness clock rc1 info)))"

subsection \<open>SecurityGroupRule\<close>

definition SecurityGroupRule_detectDrift ::
  "SecurityGroupRule \<Rightarrow> UpdateSecurityGroupRuleRequest \<times> bool" where
  "SecurityGroupRule_detectDrift securityGroupRule = (\<lparr>usgr_Description = []\<rparr>, False)"

definition SecurityGroupRule_handleDrift ::
  "SecurityGroupRuleRc \<Rightarrow> Provider \<Rightarrow> UpdateSecurityGroupRuleRequest
     \<Rightarrow> (Result \<times> error option) \<times> SecurityGroupRuleRc"
where
  "SecurityGroupRule_handleDrift rc p req = ((\<lparr>Requeue = True, RequeueAfter = 0\<rparr>, None), rc)"

definition SecurityGroupRule_checkReadiness ::
  "nat \<Rightarrow> SecurityGroupRuleRc \<Rightarrow> SecurityGroupRuleInfo
     \<Rightarrow> (Result \<times> error option) \<times> SecurityGroupRuleRc"
where
  "SecurityGroupRule_checkReadiness clock rc info =
     (case SecurityGroupRuleInfo_State info of
        Ready \<Rightarrow>
          (let isNewlyProvisioned = (st_LastSyncTime (rc_object rc) = None);
               rc1 = set_status (\<lambda>n. n\<lparr>st_LastSyncTime := Some clock\<rparr>) rc
           in ((no_requeue, None),
               if isNewlyProvisioned then rc_SetProvisioned rc1 else rc_SetSyncedAndReady rc1))
      | Failed \<Rightarrow>
          ((\<lparr>Requeue = False, RequeueAfter = securityGroupRuleRequeueDelay\<rparr>, None),
           rc_SetReconciliationFailed
             [WithReason reasonFailed, WithMessage (SecurityGroupRuleInfo_Message info)] rc)
      | Provisioning \<Rightarrow>
          ((\<lparr>Requeue = False, RequeueAfter = securityGroupRuleRequeueDelay\<rparr>, None),
           rc_SetProvisioning [WithMessage (SecurityGroupRuleInfo_Message info)] rc)
      | _ \<Rightarrow>
          ((\<lparr>Requeue = False, RequeueAfter = securityGroupRuleRequeueDelay\<rparr>, None),
           rc_SetReconciliationFailed
             [WithReason reasonUnknown, WithMessage (SecurityGroupRuleInfo_Message info)] rc))"

definition SecurityGroupRule_reconcileUpdate ::
  "nat \<Rightarrow> SecurityGroupRuleRc \<Rightarrow> Provider \<Rightarrow> (Result \<times> error option) \<times> SecurityGroupRuleRc"
where
  "SecurityGroupRule_reconcileUpdate clock rc p =
     (case st_LastAppliedSpec (rc_object rc) of
        None \<Rightarrow>
          ((\<lparr>Requeue = True, RequeueAfter = 0\<rparr>, None),
           set_status (\<lambda>n. n\<lparr>st_LastAppliedSpec := Some (Spec n)\<rparr>) rc)
      | Some lastAppliedSpec \<Rightarrow>
          (let externalID = st_ExternalID (rc_object rc);
               rc1 = sent (ProviderGetSecurityGroupRule externalID) rc
           in case p_GetSecurityGroupRule p externalID of
                (info, Some err) \<Rightarrow>
                  ((\<lparr>Requeue = False, RequeueAfter = securityGroupRuleRequeueDelay\<rparr>, None),
                   rc_SetReconciliationFailed
                     [WithReason reasonProviderError,
                      WithMessagef ''Failed to check existing SecurityGroupRule: %v'' [E err]]
                     rc1)
              | (None, None) \<Rightarrow>
                  ((\<lparr>Requeue = True, RequeueAfter = 0\<rparr>, None),
                   set_status (\<lambda>n. n\<lparr>st_ExternalID := [], st_LastAppliedSpec := None\<rparr>)
                     (rc_SetNotReady
                        [WithReason reasonNotFound,
                         WithMessage (Str ''Resource needs to be recreated'')]
                        (rc_SetNotSynced
                           [WithReason reasonNotFound,
                            WithMessagef
                              ''External resource with ID %s was not found and will be recreated''
                              [V (S externalID)]]
                           rc1)))
              | (Some info, None) \<Rightarrow>
                  (case SecurityGroupRule_detectDrift (rc_object rc1) of
                     (updateReq, needsUpdate) \<Rightarrow>
                       if needsUpdate then SecurityGroupRule_handleDrift rc1 p updateReq
                       else SecurityGroupRule_checkReadiness clock rc1 info)))"

subsection \<open>SNATRule\<close>

definition SNATRule_detectDrift :: "SNATRule \<Rightarrow> UpdateSNATRuleRequest \<times> bool" where
  "SNATRule_detectDrift snatRule = (\<lparr>usr_unused = ()\<rparr>, False)"

definition SNATRule_handleDrift ::
  "SNATRuleRc \<Rightarrow> Provider \<Rightarrow> UpdateSNATRuleRequest \<Rightarrow> (Result \<times> error option) \<times> SNATRuleRc"
where
  "SNATRule_handleDrift rc p req = ((\<lparr>Requeue = True, RequeueAfter = 0\<rparr>, None), rc)"

definition SNATRule_checkReadiness ::
  "nat \<Rightarrow> SNATRuleRc \<Rightarrow> SNATRuleInfo \<Rightarrow> (Result \<times> error option) \<times> SNATRuleRc"
where
  "SNATRule_checkReadiness clock rc info =
     (case SNATRuleInfo_State info of
        Ready \<Rightarrow>
          (let isNewlyProvisioned = (st_LastSyncTime (rc_object rc) = None);
               rc1 = set_status (\<lambda>n. n\<lparr>st_LastSyncTime := Some clock\<rparr>) rc
           in ((no_requeue, None),
               if isNewlyProvisioned then rc_SetProvisioned rc1 else rc_SetSyncedAndReady rc1))
      | Failed \<Rightarrow>
          ((\<lparr>Requeue = False, RequeueAfter = snatRuleRequeueDelay\<rparr>, None),
           rc_SetReconciliationFailed
             [WithReason reasonFailed, WithMessage (SNATRuleInfo_Message info)] rc)
      | Provisioning \<Rightarrow>
          ((\<lparr>Requeue = False, RequeueAfter = snatRuleRequeueDelay\<rparr>, None),
           rc_SetProvisioning [WithMessage (SNATRuleInfo_Message info)] rc)
      | _ \<Rightarrow>
          ((\<lparr>Requeue = False, RequeueAfter = snatRuleRequeueDelay\<rparr>, None),
           rc_SetReconciliationFailed
             [WithReason reasonUnknown, WithMessage (SNATRuleInfo_Message info)] rc))"

definition SNATRule_reconcileUpdate ::
  "nat \<Rightarrow> SNATRuleRc \<Rightarrow> Provider \<Rightarrow> (Result \<times> error option) \<times> SNATRuleRc"
where
  "SNATRule_reconcileUpdate clock rc p =
     (case st_LastAppliedSpec (rc_object rc) of
        None \<Rightarrow>
          ((\<lparr>Requeue = True, RequeueAfter = 0\<rparr>, None),
           set_status (\<lambda>n. n\<lparr>st_LastAppliedSpec := Some (Spec n)\<rparr>) rc)
      | Some lastAppliedSpec \<Rightarrow>
          (let externalID = st_ExternalID (rc_object rc);
               rc1 = sent (ProviderGetSNATRule externalID) rc
           in case p_GetSNATRule p externalID of
                (info, Some err) \<Rightarrow>
                  ((\<lparr>Requeue = False, RequeueAfter = snatRuleRequeueDelay\<rparr>, None),
                   rc_SetReconciliationFailed
                     [WithReason reasonProviderError,
                      WithMessagef ''Failed to check existing Public IP: %v'' [E err]] rc1)
              | (None, None) \<Rightarrow>
                  ((\<lparr>Requeue = True, RequeueAfter = 0\<rparr>, None),
                   set_status (\<lambda>n. n\<lparr>st_ExternalID := [], st_LastAppliedSpec := None\<rparr>)
                     (rc_SetNotReady
                        [WithReason reasonNotFound,
                         WithMessage (Str ''Resource needs to be recreated'')]
                        (rc_SetNotSynced
                           [WithReason reasonNotFound,
                            WithMessagef
                              ''External resource with ID %s was not found and will be recreated''
                              [V (S externalID)]]
                           rc1)))
              | (Some info, None) \<Rightarrow>
                  (case SNATRule_detectDrift (rc_object rc1) of
                     (updateReq, needsUpdate) \<Rightarrow>
                       if needsUpdate then SNATRule_handleDrift rc1 p updateReq
                       else SNATRule_checkReadiness clock rc1 info)))"

section \<open>Examples for the controllers\<close>

text \<open>
  A provider whose \<^verbatim>\<open>GetNetwork\<close> is the implementation above over a given \<^verbatim>\<open>vpcs.Get\<close>,
  whose other network operations succeed, and which finds no resource of the other kinds.
\<close>

definition otc_provider :: "(string \<Rightarrow> error + Vpc) \<Rightarrow> Provider" where
  "otc_provider vpcs_Get =
     \<lparr>p_CreateNetwork = (\<lambda>req. (\<lparr>resp_ID = ''vpc-new''\<rparr>, None)),
      p_GetNetwork = GetNetwork vpcs_Get,
      p_UpdateNetwork = (\<lambda>networkID req. None),
      p_DeleteNetwork = (\<lambda>networkID. None),
      p_GetSecurityGroupRule = (\<lambda>ruleID. (None, Some ErrNotFound)),
      p_GetPublicIP = (\<lambda>publicIPID. (None, Some ErrNotFound)),
      p_GetSNATRule = (\<lambda>ruleID. (None, Some ErrNotFound))\<rparr>"

text \<open>The cloud has no network any more: every \<^verbatim>\<open>vpcs.Get\<close> answers 404.\<close>

definition vpcs_gone :: "string \<Rightarrow> error + Vpc" where
  "vpcs_gone networkID = Inl ErrDefault404"

text \<open>
  The Network \<^verbatim>\<open>default/net\<close> with the finalizer set, and a reconciler bound to it.
  \<open>network_rc_example externalID\<close> has that external ID and, as baseline, its spec.
\<close>

definition network_rc_example :: "string \<Rightarrow> bool \<Rightarrow> NetworkRc" where
  "network_rc_example externalID orphan =
     \<lparr>rc_object =
        \<lparr>obj_Name = ''net'', obj_Namespace = ''default'', obj_Labels = [], obj_Generation = 1,
         obj_Finalizers = [networkFinalizerName], obj_DeletionTimestamp = None,
         Spec = \<lparr>net_ProviderConfigRef = ref_example, net_Description = [],
                 net_Cidr = ''10.0.0.0/16'', net_OrphanOnDelete = orphan\<rparr>,
         st_Conditions = [], st_ExternalID = externalID, st_ResolvedDependencies = (),
         st_ObservedGeneration = 1, st_LastSyncTime = None,
         st_LastAppliedSpec =
           Some \<lparr>net_ProviderConfigRef = ref_example, net_Description = [],
                  net_Cidr = ''10.0.0.0/16'', net_OrphanOnDelete = orphan\<rparr>\<rparr>,
      rc_generation = 1, rc_finalizerName = networkFinalizerName,
      rc_requeueAfter = networkRequeueDelay, rc_providers = Map.empty, rc_calls = []\<rparr>"

text \<open>
  A Subnet \<^verbatim>\<open>default/sub-a\<close> whose resolved network ID is \<^verbatim>\<open>net-1\<close>; a store that holds it,
  and whose listing of NAT gateways works (\<open>guard_store True\<close>) or fails
  (\<open>guard_store False\<close>).
\<close>

definition subnet_example :: Subnet where
  "subnet_example =
     new_object ''sub-a'' ''default'' []
       \<lparr>sub_ProviderConfigRef = ref_example,
        sub_Network = \<lparr>NetworkID = None, NetworkRef = by_ref ''net'', NetworkSelector = None\<rparr>,
        sub_Description = [], sub_Cidr = ''10.0.1.0/24'', sub_GatewayIP = ''10.0.1.1'',
        sub_OrphanOnDelete = False\<rparr>
       \<lparr>subres_NetworkID = ''net-1''\<rparr> ''subnet-1'' (SetProvisioned [] 1)"

definition failing_api :: "'a api" where
  "failing_api =
     \<lparr>get = (\<lambda>ns name. Inl (OtherError ''connection refused'')),
      list = (\<lambda>ns sel. Inl (OtherError ''connection refused''))\<rparr>"

definition guard_store :: "bool \<Rightarrow> client" where
  "guard_store natgateways_listed =
     \<lparr>Networks = store_api [], Subnets = store_api [subnet_example],
      SecurityGroups = store_api [],
      NATGateways = (if natgateways_listed then store_api [] else failing_api),
      PublicIPs = store_api [],
      SecurityGroupRules = store_api [], SNATRules = store_api [],
      LabelSelectorAsSelector = AsSelector\<rparr>"

text \<open>
  Collaborators: ProviderConfig \<^verbatim>\<open>default/otc\<close> and its secret exist, the factory hands out
  the provider above, object updates and status patches succeed. The store is the one of
  a deletion of the example network: the status patch stores what it is sent and leaves
  the object as it is; the update stores the metadata and the spec it is sent and leaves
  the object with the status that the store then holds, whose conditions are the ones of
  the patch, \<open>SetTerminating [] 1\<close>.
\<close>

definition collaborators_example :: "client \<Rightarrow> (NetworkSpec, unit, Provider) collaborators" where
  "collaborators_example c =
     \<lparr>co_cache_env =
        \<lparr>getProviderConfig = getProviderConfig env_example,
         getSecret = getSecret env_example,
         NewFromProviderConfig = (\<lambda>ref ns. Inr (otc_provider vpcs_gone)),
         now = 100\<rparr>,
      co_client = c,
      co_Update = (\<lambda>obj. Inr (obj\<lparr>st_Conditions := SetTerminating [] 1\<rparr>)),
      co_StatusPatch = (\<lambda>obj. Inr obj)\<rparr>"

text \<open>A deletion callback that records a provider call; one that always fails.\<close>

definition recording_callback ::
  "Provider \<Rightarrow> NetworkRc \<Rightarrow> error option \<times> NetworkRc" where
  "recording_callback p rc = (None, sent (ProviderDeleteNetwork ''net-1'') rc)"

definition failing_callback ::
  "Provider \<Rightarrow> NetworkRc \<Rightarrow> error option \<times> NetworkRc" where
  "failing_callback p rc = (Some (OtherError ''callback invoked''), rc)"

text \<open>
  For the kinds without updates: the PublicIP \<^verbatim>\<open>default/eip\<close> of above (external ID \<^verbatim>\<open>eip-1\<close>),
  a SecurityGroupRule \<^verbatim>\<open>default/allow-ssh\<close> (external ID \<^verbatim>\<open>rule-1\<close>) and an SNATRule
  \<^verbatim>\<open>default/snat\<close> (external ID \<^verbatim>\<open>snat-1\<close>), each with its spec at creation as baseline; the
  reconcilers bound to them after the spec has been changed to the given one; and a
  provider that finds the three external resources.
\<close>

definition securitygrouprule_example :: SecurityGroupRule where
  "securitygrouprule_example =
     new_object ''allow-ssh'' ''default'' []
       \<lparr>sgr_ProviderConfigRef = ref_example,
        sgr_SecurityGroup =
          \<lparr>SecurityGroupID = Some ''sg-1'', SecurityGroupRef = None,
           SecurityGroupSelector = None\<rparr>,
        sgr_Description = ''ssh'', sgr_Direction = ''ingress'', sgr_Protocol = ''tcp'',
        sgr_Ethertype = ''IPv4'', sgr_Multiport = ''22'', sgr_Action = ''allow'',
        sgr_Priority = Some 1, sgr_OrphanOnDelete = False\<rparr>
       \<lparr>sgrres_SecurityGroupID = ''sg-1''\<rparr> ''rule-1'' (SetProvisioned [] 1)"

definition snatrule_example :: SNATRule where
  "snatrule_example =
     new_object ''snat'' ''default'' []
       \<lparr>snat_ProviderConfigRef = ref_example,
        snat_NATGateway =
          \<lparr>NATGatewayID = Some ''nat-1'', NATGatewayRef = None, NATGatewaySelector = None\<rparr>,
        snat_Subnet = subnet_by_id,
        snat_PublicIP = \<lparr>PublicIPID = Some ''eip-1'', PublicIPRef = None, PublicIPSelector = None\<rparr>,
        snat_Description = ''outbound'', snat_OrphanOnDelete = False\<rparr>
       \<lparr>snatres_NATGatewayID = ''nat-1'', snatres_SubnetID = ''sub-1'',
        snatres_PublicIPID = ''eip-1''\<rparr>
       ''snat-1'' (SetProvisioned [] 1)"

definition rc_example :: "('sp, 'r) object \<Rightarrow> 'sp \<Rightarrow> ('sp, 'r, Provider) Reconciler" where
  "rc_example obj spec =
     \<lparr>rc_object = obj\<lparr>Spec := spec, obj_Generation := 2\<rparr>,
      rc_generation = 2, rc_finalizerName = [], rc_requeueAfter = 30 * second,
      rc_providers = Map.empty, rc_calls = []\<rparr>"

definition publicip_resized :: PublicIPSpec where
  "publicip_resized = (Spec publicip_example)\<lparr>pip_BandwidthSize := 10\<rparr>"

definition securitygrouprule_redescribed :: SecurityGroupRuleSpec where
  "securitygrouprule_redescribed =
     (Spec securitygrouprule_example)\<lparr>sgr_Description := ''ssh from the office'',
                                        sgr_Priority := Some 5\<rparr>"

definition snatrule_redescribed :: SNATRuleSpec where
  "snatrule_redescribed = (Spec snatrule_example)\<lparr>snat_Description := ''egress''\<rparr>"

definition live_provider :: Provider where
  "live_provider =
     (otc_provider vpcs_gone)
       \<lparr>p_GetSecurityGroupRule := (\<lambda>ruleID.
          (Some \<lparr>sgri_ID = ruleID, sgri_SecurityGroupID = ''sg-1'', sgri_Description = ''ssh'',
                  sgri_Direction = ''ingress'', sgri_Protocol = ''tcp'', sgri_EtherType = ''IPv4'',
                  sgri_Multiport = ''22'', sgri_Action = ''allow'', sgri_Priority = 1\<rparr>, None)),
        p_GetPublicIP := (\<lambda>publicIPID.
          (Some \<lparr>pii_ID = publicIPID, pii_Name = ''eip'', pii_PublicAddress = ''80.158.0.1'',
                  pii_PrivateAddress = [], pii_Type = ''5_bgp'', pii_BandwidthSize = 5,
                  pii_BandwidthName = [], pii_BandwidthShareType = ''PER'',
                  pii_Status = ''ACTIVE''\<rparr>, None)),
        p_GetSNATRule := (\<lambda>ruleID.
          (Some \<lparr>snati_ID = ruleID, snati_Description = [], snati_Status = ''ACTIVE'',
                  snati_NATGatewayID = ''nat-1'', snati_SubnetID = ''sub-1'',
                  snati_PublicIPID = ''eip-1''\<rparr>, None))\<rparr>"

text \<open>The names a check reports: those it returns, none when its listing fails.\<close>

definition reported :: "client \<Rightarrow> string \<Rightarrow> string \<Rightarrow> ReferenceCheck \<Rightarrow> string list" where
  "reported c namespace externalID chk =
     (case Check chk c namespace externalID of Inr names \<Rightarrow> names | Inl err \<Rightarrow> [])"

section \<open>Properties of the condition state machine\<close>

lemma find_set_same:
  "FindStatusCondition (SetStatusCondition cs new) (ctype new) =
     Some (case FindStatusCondition cs (ctype new) of
             None \<Rightarrow> new
           | Some c \<Rightarrow> c\<lparr>status := status new, reason := reason new, message := message new,
                          observedGeneration := observedGeneration new\<rparr>)"
  by (induction cs) auto

lemma find_set_other:
  "t \<noteq> ctype new \<Longrightarrow>
     FindStatusCondition (SetStatusCondition cs new) t = FindStatusCondition cs t"
  by (induction cs) auto

lemma present_set_same:
  "IsStatusConditionPresentAndEqual (SetStatusCondition cs new) (ctype new) st
     = (status new = st)"
  by (induction cs) auto

lemma present_set_other:
  "t \<noteq> ctype new \<Longrightarrow>
     IsStatusConditionPresentAndEqual (SetStatusCondition cs new) t st
       = IsStatusConditionPresentAndEqual cs t st"
  by (induction cs) auto

lemma present_Apply:
  "IsStatusConditionPresentAndEqual (Apply b cs) t st =
     (if t = b_typ b then b_status b = st else IsStatusConditionPresentAndEqual cs t st)"
  using present_set_same [of cs "\<lparr>ctype = b_typ b, status = b_status b, reason = b_reason b,
      message = b_message b, observedGeneration = b_generation b\<rparr>" st]
    present_set_other [of t "\<lparr>ctype = b_typ b, status = b_status b, reason = b_reason b,
      message = b_message b, observedGeneration = b_generation b\<rparr>" cs st]
  by (simp add: Apply_def)

lemma present_SetSynced:
  "IsStatusConditionPresentAndEqual (SetSynced cs g opts) t st =
     (if t = condSynced then st = ConditionTrue else IsStatusConditionPresentAndEqual cs t st)"
  by (auto simp: SetSynced_def present_Apply NewCondition_def WithStatus_def b_WithReason_def
      b_WithMessage_def WithGeneration_def split: prod.splits)

lemma present_SetNotSynced:
  "IsStatusConditionPresentAndEqual (SetNotSynced cs g opts) t st =
     (if t = condSynced then st = ConditionFalse else IsStatusConditionPresentAndEqual cs t st)"
  by (auto simp: SetNotSynced_def present_Apply NewCondition_def WithStatus_def b_WithReason_def
      b_WithMessage_def WithGeneration_def split: prod.splits)

lemma present_SetReady:
  "IsStatusConditionPresentAndEqual (SetReady cs g opts) t st =
     (if t = condReady then st = ConditionTrue else IsStatusConditionPresentAndEqual cs t st)"
  by (auto simp: SetReady_def present_Apply NewCondition_def WithStatus_def b_WithReason_def
      b_WithMessage_def WithGeneration_def split: prod.splits)

lemma present_SetNotReady:
  "IsStatusConditionPresentAndEqual (SetNotReady cs g opts) t st =
     (if t = condReady then st = ConditionFalse else IsStatusConditionPresentAndEqual cs t st)"
  by (auto simp: SetNotReady_def present_Apply NewCondition_def WithStatus_def b_WithReason_def
      b_WithMessage_def WithGeneration_def split: prod.splits)

lemmas present_setters =
  present_SetSynced present_SetNotSynced present_SetReady present_SetNotReady

lemma cond_names_distinct:
  "condSynced \<noteq> condReady" "condReady \<noteq> condSynced"
  by (simp_all add: condSynced_def condReady_def)

text \<open>
  Claim C4. Starting from any condition list, with any observed generation,
  \<^verbatim>\<open>SetProvisioned\<close> leaves the Synced condition and the Ready condition with status True,
  and \<^verbatim>\<open>SetDeletionBlocked\<close>, with any list of reason and message overrides, leaves the
  Synced condition and the Ready condition with status False.
\<close>

theorem C4_condition_composites:
  "IsStatusConditionTrue (SetProvisioned conds g) condSynced \<and>
   IsStatusConditionTrue (SetProvisioned conds g) condReady \<and>
   IsStatusConditionFalse (SetDeletionBlocked conds g opts) condSynced \<and>
   IsStatusConditionFalse (SetDeletionBlocked conds g opts) condReady"
  by (simp add: IsStatusConditionTrue_def IsStatusConditionFalse_def SetProvisioned_def
      SetDeletionBlocked_def present_setters cond_names_distinct split: prod.splits)

theorem C4_condition_composites_witness:
  "IsStatusConditionTrue (SetProvisioned [] 1) condSynced \<and>
   IsStatusConditionTrue (SetProvisioned [] 1) condReady \<and>
   IsStatusConditionFalse
     (SetDeletionBlocked (SetProvisioned [] 1) 2 [WithReason ''Custom'', WithMessage (Str ''m'')])
     condSynced \<and>
   IsStatusConditionFalse
     (SetDeletionBlocked (SetProvisioned [] 1) 2 [WithReason ''Custom'', WithMessage (Str ''m'')])
     condReady"
  using C4_condition_composites [of "[]" 1]
    C4_condition_composites [of "SetProvisioned [] 1" 2 "[WithReason ''Custom'', WithMessage (Str ''m'')]"]
  by simp

section \<open>Properties of the retry utility\<close>

lemma sint_MaxInt: "sint MaxInt = 2 ^ 63 - 1"
  by (simp add: MaxInt_def)

lemma sint_le_MaxInt: "sint (n :: 64 word) \<le> sint MaxInt"
  using sint_lt [of n] by (simp add: sint_MaxInt)

text \<open>Below \<^verbatim>\<open>math.MaxInt\<close> the increment does not wrap.\<close>

lemma sint_succ:
  "0 \<le> sint (n :: 64 word) \<Longrightarrow> sint n < sint MaxInt \<Longrightarrow> sint (n + 1) = sint n + 1"
  by (simp add: sint_MaxInt sint_word_ariths signed_take_bit_int_eq_self)

lemma state_after_Suc: "state_after fn (Suc k) s = snd (fn (state_after fn k s))"
  by (induction k arbitrary: s) auto

lemma Do_loop_step:
  "fn s = ((r, e), s') \<Longrightarrow>
   Do_loop fn ctx options n s =
     (if \<not> r then Some (e, s')
      else if MaxAttempts options \<noteq> 0 \<and> sint (n + 1) > sint (MaxAttempts options)
           then Some (Some ErrMaxRetriesReached, s')
      else (case ctx 0 of
              Some e \<Rightarrow> Some (Some e, s')
            | None \<Rightarrow> Do_loop fn (\<lambda>j. ctx (Suc j)) options (n + 1) s'))"
  by (subst Do_loop.simps) simp

lemma loop_break:
  "(\<And>j. j < k \<Longrightarrow> fst (invocation fn j s)) \<Longrightarrow> \<not> fst (invocation fn k s) \<Longrightarrow>
   MaxAttempts options = 0 \<or> (0 \<le> sint n \<and> sint n + int k \<le> sint (MaxAttempts options)) \<Longrightarrow>
   (\<And>j. j < k \<Longrightarrow> ctx j = None) \<Longrightarrow>
   Do_loop fn ctx options n s
     = Some (snd (invocation fn k s), state_after fn (Suc k) s)"
proof (induction k arbitrary: n s ctx)
  case 0
  obtain r e s' where f: "fn s = ((r, e), s')" by (metis prod.exhaust)
  from "0.prems"(2) f have r: "\<not> r" by (simp add: invocation_def)
  show ?case
    using Do_loop_step [of fn s r e s' ctx options n] r f by (simp add: invocation_def)
next
  case (Suc k)
  obtain r e s' where f: "fn s = ((r, e), s')" by (metis prod.exhaust)
  from Suc.prems(1)[of 0] f have r: r by (simp add: invocation_def)
  have c: "ctx 0 = None"
    using Suc.prems(4)[of 0] by simp
  have n1: "sint (n + 1) = sint n + 1" if "MaxAttempts options \<noteq> 0"
  proof -
    have b: "0 \<le> sint n" "sint n + int (Suc k) \<le> sint (MaxAttempts options)"
      using Suc.prems(3) that by auto
    have "sint n < sint MaxInt" using b sint_le_MaxInt [of "MaxAttempts options"] by simp
    then show ?thesis using b sint_succ by simp
  qed
  have m: "\<not> (MaxAttempts options \<noteq> 0 \<and> sint (n + 1) > sint (MaxAttempts options))"
    using Suc.prems(3) n1 by auto
  have ih: "Do_loop fn (\<lambda>j. ctx (Suc j)) options (n + 1) s'
     = Some (snd (invocation fn k s'), state_after fn (Suc k) s')"
  proof (rule Suc.IH)
    fix j assume "j < k"
    then show "fst (invocation fn j s')"
      using Suc.prems(1)[of "Suc j"] f by (simp add: invocation_def)
  next
    show "\<not> fst (invocation fn k s')" using Suc.prems(2) f by (simp add: invocation_def)
  next
    show "MaxAttempts options = 0 \<or>
            (0 \<le> sint (n + 1) \<and> sint (n + 1) + int k \<le> sint (MaxAttempts options))"
      using Suc.prems(3) n1 by auto
  next
    fix j :: nat assume "j < k"
    then show "ctx (Suc j) = None"
      using Suc.prems(4)[of "Suc j"] by simp
  qed
  have step: "Do_loop fn ctx options n s = Do_loop fn (\<lambda>j. ctx (Suc j)) options (n + 1) s'"
    using Do_loop_step [of fn s r e s' ctx options n] f r c m by auto
  show ?case
    using step ih f by (simp add: invocation_def)
qed

lemma loop_max:
  "0 \<le> sint n \<Longrightarrow> sint (MaxAttempts options) < sint MaxInt \<Longrightarrow>
   sint n + int k = sint (MaxAttempts options) \<Longrightarrow>
   MaxAttempts options \<noteq> 0 \<Longrightarrow>
   (\<And>j. j \<le> k \<Longrightarrow> fst (invocation fn j s)) \<Longrightarrow>
   (\<And>j. j < k \<Longrightarrow> ctx j = None) \<Longrightarrow>
   Do_loop fn ctx options n s = Some (Some ErrMaxRetriesReached, state_after fn (Suc k) s)"
proof (induction k arbitrary: n s ctx)
  case 0
  obtain r e s' where f: "fn s = ((r, e), s')" by (metis prod.exhaust)
  from "0.prems"(5)[of 0] f have r: r by (simp add: invocation_def)
  have "sint (n + 1) = sint n + 1" using "0.prems" sint_succ by simp
  then have m: "sint (n + 1) > sint (MaxAttempts options)" using "0.prems" by simp
  show ?case
    using Do_loop_step [of fn s r e s' ctx options n] r m "0.prems"(4) f by simp
next
  case (Suc k)
  obtain r e s' where f: "fn s = ((r, e), s')" by (metis prod.exhaust)
  from Suc.prems(5)[of 0] f have r: r by (simp add: invocation_def)
  have c: "ctx 0 = None"
    using Suc.prems(6)[of 0] by simp
  have n1: "sint (n + 1) = sint n + 1" using Suc.prems sint_succ by simp
  have ih: "Do_loop fn (\<lambda>j. ctx (Suc j)) options (n + 1) s'
     = Some (Some ErrMaxRetriesReached, state_after fn (Suc k) s')"
  proof (rule Suc.IH)
    show "0 \<le> sint (n + 1)" using n1 Suc.prems(1) by simp
    show "sint (MaxAttempts options) < sint MaxInt" by fact
    show "sint (n + 1) + int k = sint (MaxAttempts options)" using n1 Suc.prems(3) by simp
    show "MaxAttempts options \<noteq> 0" by fact
  next
    fix j assume "j \<le> k"
    then show "fst (invocation fn j s')"
      using Suc.prems(5)[of "Suc j"] f by (simp add: invocation_def)
  next
    fix j :: nat assume "j < k"
    then show "ctx (Suc j) = None"
      using Suc.prems(6)[of "Suc j"] by simp
  qed
  have m: "\<not> (MaxAttempts options \<noteq> 0 \<and> sint (n + 1) > sint (MaxAttempts options))"
    using Suc.prems(3) n1 by auto
  have step: "Do_loop fn ctx options n s = Do_loop fn (\<lambda>j. ctx (Suc j)) options (n + 1) s'"
    using Do_loop_step [of fn s r e s' ctx options n] f r c m by auto
  show ?case
    using step ih f by simp
qed

text \<open>
  With a maximum other than zero and \<^verbatim>\<open>math.MaxInt\<close> the loop is bounded: \<^verbatim>\<open>Do\<close> returns,
  whatever the operation and the context do.
\<close>

lemma Do_loop_returns:
  "0 \<le> sint n \<Longrightarrow> sint n < sint MaxInt \<Longrightarrow> sint (MaxAttempts options) < sint MaxInt \<Longrightarrow>
   MaxAttempts options \<noteq> 0 \<Longrightarrow> nat (sint (MaxAttempts options) - sint n) = k \<Longrightarrow>
   \<exists>r. Do_loop fn ctx options n s = Some r"
proof (induction k arbitrary: n s ctx)
  case 0
  obtain r e s' where f: "fn s = ((r, e), s')" by (metis prod.exhaust)
  have "sint (n + 1) = sint n + 1" using "0.prems" sint_succ by simp
  then show ?case
    using Do_loop_step [of fn s r e s' ctx options n] f 0 by auto
next
  case (Suc k)
  obtain r e s' where f: "fn s = ((r, e), s')" by (metis prod.exhaust)
  have n1: "sint (n + 1) = sint n + 1" using Suc.prems sint_succ by simp
  have ih: "\<exists>r. Do_loop fn (\<lambda>j. ctx (Suc j)) options (n + 1) s' = Some r"
    by (rule Suc.IH) (use Suc.prems n1 in auto)
  show ?case
    using Do_loop_step [of fn s r e s' ctx options n] f ih
    by (cases "ctx 0") auto
qed

lemma Do_returns:
  "MaxAttempts (configured opts) \<noteq> 0 \<Longrightarrow> sint (MaxAttempts (configured opts)) < sint MaxInt \<Longrightarrow>
   \<exists>r. Do ctx fn opts s = Some r"
  using Do_loop_returns [of 0 "configured opts" _ fn "\<lambda>j. ctx (Suc j)" s]
  by (cases "ctx 0") (auto simp: Do_def sint_MaxInt)

text \<open>
  With the maximum \<^verbatim>\<open>math.MaxInt\<close> the test \<^verbatim>\<open>n > options.MaxAttempts\<close> never holds, no
  \<^verbatim>\<open>int\<close> being larger: an operation that always asks for a retry is retried for ever
  under a live context, and \<^verbatim>\<open>Do\<close> does not return.
\<close>

lemma Do_loop_never_returns:
  assumes "Do_loop fn ctx options n s = Some y"
  shows "\<not> ((\<forall>x. fst (fst (fn x))) \<and> (\<forall>j. ctx j = None) \<and> MaxAttempts options = MaxInt)"
proof (rule Do_loop.raw_induct
    [where P = "\<lambda>fn ctx options n s y.
        \<not> ((\<forall>x. fst (fst (fn x))) \<and> (\<forall>j. ctx j = None) \<and> MaxAttempts options = MaxInt)",
      OF _ assms])
  fix loop :: "'a Func \<Rightarrow> (nat \<Rightarrow> error option) \<Rightarrow> Options \<Rightarrow> 64 word \<Rightarrow> 'a
                 \<Rightarrow> (error option \<times> 'a) option"
    and fn ctx options n s y
  assume ih: "\<And>fn ctx options n s y. loop fn ctx options n s = Some y \<Longrightarrow>
      \<not> ((\<forall>x. fst (fst (fn x))) \<and> (\<forall>j. ctx j = None) \<and> MaxAttempts options = MaxInt)"
    and body: "(case fn s of
        ((retry, err), s') \<Rightarrow>
          if \<not> retry then Some (err, s')
          else if MaxAttempts options \<noteq> 0 \<and> sint (n + 1) > sint (MaxAttempts options)
               then Some (Some ErrMaxRetriesReached, s')
          else (case ctx 0 of
                  Some e \<Rightarrow> Some (Some e, s')
                | None \<Rightarrow> loop fn (\<lambda>j. ctx (Suc j)) options (n + 1) s')) = Some y"
  show "\<not> ((\<forall>x. fst (fst (fn x))) \<and> (\<forall>j. ctx j = None) \<and> MaxAttempts options = MaxInt)"
  proof
    assume a: "(\<forall>x. fst (fst (fn x))) \<and> (\<forall>j. ctx j = None) \<and> MaxAttempts options = MaxInt"
    obtain r e s' where f: "fn s = ((r, e), s')" by (metis prod.exhaust)
    have r: r using a f by (metis fst_conv)
    have m: "\<not> sint (n + 1) > sint (MaxAttempts options)"
      using sint_le_MaxInt [of "n + 1"] a by simp
    have "loop fn (\<lambda>j. ctx (Suc j)) options (n + 1) s' = Some y"
      using body f r m a by simp
    from ih [OF this] a show False by simp
  qed
qed

lemma Do_never_returns:
  "(\<forall>x. fst (fst (fn x))) \<Longrightarrow> (\<forall>j. ctx j = None) \<Longrightarrow>
   MaxAttempts (configured opts) = MaxInt \<Longrightarrow> Do ctx fn opts s = None"
  using Do_loop_never_returns [of fn "\<lambda>j. ctx (Suc j)" "configured opts" 0 s]
  by (cases "Do_loop fn (\<lambda>j. ctx (Suc j)) (configured opts) 0 s") (auto simp: Do_def)

text \<open>
  Claim C6, as amended. With a positive maximum attempt count \<open>m\<close> below \<^verbatim>\<open>math.MaxInt\<close>:
  when the first \<open>m + 1\<close> invocations of the operation all ask for a retry (and the
  context stays live over the entry check and the \<open>m\<close> waits between them), \<^verbatim>\<open>Do\<close> returns
  the sentinel \<^verbatim>\<open>ErrMaxRetriesReached\<close>, whatever errors the operation returned. And when
  invocation \<open>k + 1\<close> is the first that returns \<^verbatim>\<open>retry = false\<close>, reached within the
  maximum (or with no maximum configured) under a live context, \<^verbatim>\<open>Do\<close> returns exactly
  the error of that invocation, nil or not.
\<close>

theorem C6_retry_sentinel:
  "(0 < sint (MaxAttempts (configured opts)) \<and>
    sint (MaxAttempts (configured opts)) < sint MaxInt \<and>
    (\<forall>j \<le> nat (sint (MaxAttempts (configured opts))). fst (invocation fn j s) \<and> ctx j = None)
    \<longrightarrow> Do ctx fn opts s =
          Some (Some ErrMaxRetriesReached,
                state_after fn (Suc (nat (sint (MaxAttempts (configured opts))))) s))
   \<and>
   ((\<forall>j < k. fst (invocation fn j s)) \<and> \<not> fst (invocation fn k s) \<and>
    (MaxAttempts (configured opts) = 0 \<or> int k \<le> sint (MaxAttempts (configured opts))) \<and>
    (\<forall>j \<le> k. ctx j = None)
    \<longrightarrow> Do ctx fn opts s = Some (snd (invocation fn k s), state_after fn (Suc k) s))"
proof (intro conjI impI)
  let ?m = "MaxAttempts (configured opts)"
  assume a: "0 < sint ?m \<and> sint ?m < sint MaxInt \<and>
    (\<forall>j \<le> nat (sint ?m). fst (invocation fn j s) \<and> ctx j = None)"
  have "Do_loop fn (\<lambda>j. ctx (Suc j)) (configured opts) 0 s
          = Some (Some ErrMaxRetriesReached, state_after fn (Suc (nat (sint ?m))) s)"
    by (rule loop_max) (use a in auto)
  moreover have "ctx 0 = None" using a by auto
  ultimately show "Do ctx fn opts s =
      Some (Some ErrMaxRetriesReached, state_after fn (Suc (nat (sint ?m))) s)"
    by (simp add: Do_def)
next
  assume b: "(\<forall>j < k. fst (invocation fn j s)) \<and> \<not> fst (invocation fn k s) \<and>
    (MaxAttempts (configured opts) = 0 \<or> int k \<le> sint (MaxAttempts (configured opts))) \<and>
    (\<forall>j \<le> k. ctx j = None)"
  have "Do_loop fn (\<lambda>j. ctx (Suc j)) (configured opts) 0 s
          = Some (snd (invocation fn k s), state_after fn (Suc k) s)"
    by (rule loop_break) (use b in auto)
  moreover have "ctx 0 = None" using b by auto
  ultimately show "Do ctx fn opts s = Some (snd (invocation fn k s), state_after fn (Suc k) s)"
    by (simp add: Do_def)
qed

lemma state_after_always_busy: "state_after always_busy k s = s + k"
  by (induction k arbitrary: s) (auto simp: always_busy_def)

lemma state_after_fails_third: "state_after fails_third k s = s + k"
  by (induction k arbitrary: s) (auto simp: fails_third_def)

theorem C6_retry_sentinel_witness:
  "Do (\<lambda>_. None) always_busy [WithMaxAttempts 2] 0 = Some (Some ErrMaxRetriesReached, 3) \<and>
   Do (\<lambda>_. None) fails_third [WithMaxAttempts 5, WithDelay 1] 0
     = Some (Some (OtherError ''failed''), 3)"
proof -
  have c1: "MaxAttempts (configured [WithMaxAttempts 2]) = 2"
    by (simp add: configured_def WithMaxAttempts_def newDefaultOptions_def)
  have c2: "MaxAttempts (configured [WithMaxAttempts 5, WithDelay 1]) = 5"
    by (simp add: configured_def WithMaxAttempts_def WithDelay_def newDefaultOptions_def)
  have i1: "\<And>j. invocation always_busy j 0 = (True, Some (OtherError ''busy''))"
    by (simp add: invocation_def always_busy_def)
  have i2: "\<And>j. invocation fails_third j 0
              = (j < 2, if j < 2 then None else Some (OtherError ''failed''))"
    by (simp add: invocation_def state_after_fails_third) (simp add: fails_third_def)
  show ?thesis
    using C6_retry_sentinel [of "[WithMaxAttempts 2]" always_busy 0 "\<lambda>_. None" 0]
      C6_retry_sentinel [of "[WithMaxAttempts 5, WithDelay 1]" fails_third 0 "\<lambda>_. None" 2]
    by (simp add: c1 c2 i1 i2 sint_MaxInt state_after_always_busy state_after_fails_third
        del: state_after.simps)
qed

text \<open>
  Claim C6 as it is stated fails for the largest maximum: \<^verbatim>\<open>math.MaxInt\<close> is a positive
  maximum attempt count, the operation \<open>always_busy\<close> asks for a retry at every
  invocation, and \<^verbatim>\<open>Do\<close> never returns, so it does not return \<^verbatim>\<open>ErrMaxRetriesReached\<close>.
\<close>

theorem C6_retry_sentinel_counterexample:
  "0 < sint (MaxAttempts (configured [WithMaxAttempts MaxInt])) \<and>
   (\<forall>j. fst (invocation always_busy j 0)) \<and>
   Do (\<lambda>_. None) always_busy [WithMaxAttempts MaxInt] 0 = None"
proof -
  have c: "MaxAttempts (configured [WithMaxAttempts MaxInt]) = MaxInt"
    by (simp add: configured_def WithMaxAttempts_def newDefaultOptions_def)
  have "Do (\<lambda>_. None) always_busy [WithMaxAttempts MaxInt] 0 = None"
    by (rule Do_never_returns) (simp_all add: c always_busy_def)
  then show ?thesis
    by (simp add: c sint_MaxInt invocation_def always_busy_def)
qed

section \<open>Properties of the provider client cache\<close>

text \<open>
  Claim C5. The freshly observed values are the generation of the ProviderConfig that
  \<^verbatim>\<open>GetOrCreate\<close> loads and the resource version of the Secret it then reads (the empty
  string when the Secret cannot be read).
  (1) Once the ProviderConfig is loaded: an entry under the key whose recorded generation
  and secret version both equal the observed ones is handed back, and nothing is
  constructed or stored; with an entry of which either tag differs, and with no entry, the
  factory is called, its client is returned and stored under the key with the observed
  tags, in place of any prior entry, and a factory error is returned with the cache as it
  was. (2) When the ProviderConfig cannot be loaded there is nothing to compare: the error
  is returned, no client, and the entry is evicted if the ProviderConfig was not found.
  (3) After \<^verbatim>\<open>Invalidate\<close> the next \<^verbatim>\<open>GetOrCreate\<close> for the same reference does not depend on
  what the cache held under the key: it returns the load error, the factory's error or
  the factory's client, and the entry under the key is then the factory's client or none.
\<close>

theorem C5_provider_cache:
  "(\<forall>pc. getProviderConfig env
            (if ref_Namespace ref = [] then dns else ref_Namespace ref) (ref_Name ref) = Inr pc \<longrightarrow>
      (let observed =
             (case getSecret env (pc_Namespace pc) (pc_CredentialsSecretRef_Name pc) of
                Inr secret \<Rightarrow> ResourceVersion secret
              | Inl err \<Rightarrow> []);
           constructed =
             (case NewFromProviderConfig env ref dns of
                Inl err \<Rightarrow> (Inl err, cache)
              | Inr prov \<Rightarrow>
                  (Inr (prov, pc),
                   cache(cacheKey ref dns \<mapsto>
                     \<lparr>provider = prov, createdAt = now env,
                      configGeneration = pc_Generation pc, secretResourceVersion = observed\<rparr>)))
       in (\<forall>entry. cache (cacheKey ref dns) = Some entry \<and>
                    configGeneration entry = pc_Generation pc \<and>
                    secretResourceVersion entry = observed
             \<longrightarrow> GetOrCreate env cache ref dns = (Inr (provider entry, pc), cache)) \<and>
          (\<forall>entry. cache (cacheKey ref dns) = Some entry \<and>
                    (configGeneration entry \<noteq> pc_Generation pc \<or>
                     secretResourceVersion entry \<noteq> observed)
             \<longrightarrow> GetOrCreate env cache ref dns = constructed) \<and>
          (cache (cacheKey ref dns) = None
             \<longrightarrow> GetOrCreate env cache ref dns = constructed))) \<and>
   (\<forall>err. getProviderConfig env
             (if ref_Namespace ref = [] then dns else ref_Namespace ref) (ref_Name ref) = Inl err \<longrightarrow>
      GetOrCreate env cache ref dns =
        (Inl (Wrapf ''failed to get ProviderConfig %s: %w'' [S (cacheKey ref dns)] err),
         if IsNotFound err then cache(cacheKey ref dns := None) else cache)) \<and>
   fst (GetOrCreate env (Invalidate cache ref dns) ref dns) =
     (case getProviderConfig env
             (if ref_Namespace ref = [] then dns else ref_Namespace ref) (ref_Name ref) of
        Inl err \<Rightarrow> Inl (Wrapf ''failed to get ProviderConfig %s: %w'' [S (cacheKey ref dns)] err)
      | Inr pc \<Rightarrow>
          (case NewFromProviderConfig env ref dns of
             Inl err \<Rightarrow> Inl err
           | Inr prov \<Rightarrow> Inr (prov, pc))) \<and>
   snd (GetOrCreate env (Invalidate cache ref dns) ref dns) (cacheKey ref dns) =
     (case getProviderConfig env
             (if ref_Namespace ref = [] then dns else ref_Namespace ref) (ref_Name ref) of
        Inl err \<Rightarrow> None
      | Inr pc \<Rightarrow>
          (case NewFromProviderConfig env ref dns of
             Inl err \<Rightarrow> None
           | Inr prov \<Rightarrow>
               Some \<lparr>provider = prov, createdAt = now env, configGeneration = pc_Generation pc,
                     secretResourceVersion =
                       (case getSecret env (pc_Namespace pc) (pc_CredentialsSecretRef_Name pc) of
                          Inr secret \<Rightarrow> ResourceVersion secret
                        | Inl err \<Rightarrow> [])\<rparr>))"
proof (intro conjI allI impI)
  fix pc
  assume "getProviderConfig env
            (if ref_Namespace ref = [] then dns else ref_Namespace ref) (ref_Name ref) = Inr pc"
  then show "let observed =
             (case getSecret env (pc_Namespace pc) (pc_CredentialsSecretRef_Name pc) of
                Inr secret \<Rightarrow> ResourceVersion secret
              | Inl err \<Rightarrow> []);
           constructed =
             (case NewFromProviderConfig env ref dns of
                Inl err \<Rightarrow> (Inl err, cache)
              | Inr prov \<Rightarrow>
                  (Inr (prov, pc),
                   cache(cacheKey ref dns \<mapsto>
                     \<lparr>provider = prov, createdAt = now env,
                      configGeneration = pc_Generation pc, secretResourceVersion = observed\<rparr>)))
       in (\<forall>entry. cache (cacheKey ref dns) = Some entry \<and>
                    configGeneration entry = pc_Generation pc \<and>
                    secretResourceVersion entry = observed
             \<longrightarrow> GetOrCreate env cache ref dns = (Inr (provider entry, pc), cache)) \<and>
          (\<forall>entry. cache (cacheKey ref dns) = Some entry \<and>
                    (configGeneration entry \<noteq> pc_Generation pc \<or>
                     secretResourceVersion entry \<noteq> observed)
             \<longrightarrow> GetOrCreate env cache ref dns = constructed) \<and>
          (cache (cacheKey ref dns) = None
             \<longrightarrow> GetOrCreate env cache ref dns = constructed)"
    by (auto simp: GetOrCreate_def Let_def split: sum.splits)
next
  fix err
  assume "getProviderConfig env
            (if ref_Namespace ref = [] then dns else ref_Namespace ref) (ref_Name ref) = Inl err"
  then show "GetOrCreate env cache ref dns =
        (Inl (Wrapf ''failed to get ProviderConfig %s: %w'' [S (cacheKey ref dns)] err),
         if IsNotFound err then cache(cacheKey ref dns := None) else cache)"
    by (simp add: GetOrCreate_def Let_def)
next
  show "fst (GetOrCreate env (Invalidate cache ref dns) ref dns) =
     (case getProviderConfig env
             (if ref_Namespace ref = [] then dns else ref_Namespace ref) (ref_Name ref) of
        Inl err \<Rightarrow> Inl (Wrapf ''failed to get ProviderConfig %s: %w'' [S (cacheKey ref dns)] err)
      | Inr pc \<Rightarrow>
          (case NewFromProviderConfig env ref dns of
             Inl err \<Rightarrow> Inl err
           | Inr prov \<Rightarrow> Inr (prov, pc)))"
    by (simp add: GetOrCreate_def Invalidate_def Let_def split: sum.splits)
next
  show "snd (GetOrCreate env (Invalidate cache ref dns) ref dns) (cacheKey ref dns) =
     (case getProviderConfig env
             (if ref_Namespace ref = [] then dns else ref_Namespace ref) (ref_Name ref) of
        Inl err \<Rightarrow> None
      | Inr pc \<Rightarrow>
          (case NewFromProviderConfig env ref dns of
             Inl err \<Rightarrow> None
           | Inr prov \<Rightarrow>
               Some \<lparr>provider = prov, createdAt = now env, configGeneration = pc_Generation pc,
                     secretResourceVersion =
                       (case getSecret env (pc_Namespace pc) (pc_CredentialsSecretRef_Name pc) of
                          Inr secret \<Rightarrow> ResourceVersion secret
                        | Inl err \<Rightarrow> [])\<rparr>))"
    by (simp add: GetOrCreate_def Invalidate_def Let_def split: sum.splits)
qed

lemma cache_example_simps:
  "cacheKey ref_example ''default'' = ''default/otc''"
  "ref_Namespace ref_example = []"
  "ref_Name ref_example = ''otc''"
  "pc_Generation pc_example = 3"
  "pc_Namespace pc_example = ''default''"
  "pc_CredentialsSecretRef_Name pc_example = ''otc-credentials''"
  "cache_example ''default/otc''
     = Some \<lparr>provider = 7, createdAt = 50, configGeneration = 3, secretResourceVersion = ''41''\<rparr>"
  "stale_cache_example ''default/otc''
     = Some \<lparr>provider = 7, createdAt = 50, configGeneration = 2, secretResourceVersion = ''41''\<rparr>"
  by (simp_all add: cacheKey_def ref_example_def pc_example_def cache_example_def
      stale_cache_example_def)

theorem C5_provider_cache_witness:
  "GetOrCreate env_example cache_example ref_example ''default''
     = (Inr (7, pc_example), cache_example) \<and>
   GetOrCreate env_example stale_cache_example ref_example ''default''
     = (Inr (8, pc_example),
        stale_cache_example(''default/otc'' \<mapsto>
          \<lparr>provider = 8, createdAt = 100, configGeneration = 3,
           secretResourceVersion = ''41''\<rparr>)) \<and>
   GetOrCreate env_rotated cache_example ref_example ''default''
     = (Inr (8, pc_example),
        cache_example(''default/otc'' \<mapsto>
          \<lparr>provider = 8, createdAt = 100, configGeneration = 3,
           secretResourceVersion = ''42''\<rparr>)) \<and>
   GetOrCreate env_no_secret cache_example ref_example ''default''
     = (Inr (8, pc_example),
        cache_example(''default/otc'' \<mapsto>
          \<lparr>provider = 8, createdAt = 100, configGeneration = 3,
           secretResourceVersion = []\<rparr>)) \<and>
   GetOrCreate env_factory_fails stale_cache_example ref_example ''default''
     = (Inl (OtherError ''authentication failed''), stale_cache_example) \<and>
   GetOrCreate env_no_config cache_example ref_example ''default''
     = (Inl (Wrapf ''failed to get ProviderConfig %s: %w'' [S ''default/otc'']
               (StatusNotFound ''otc'')),
        cache_example(''default/otc'' := None)) \<and>
   fst (GetOrCreate env_example (Invalidate cache_example ref_example ''default'')
          ref_example ''default'') = Inr (8, pc_example) \<and>
   snd (GetOrCreate env_example (Invalidate cache_example ref_example ''default'')
          ref_example ''default'') ''default/otc''
     = Some \<lparr>provider = 8, createdAt = 100, configGeneration = 3,
              secretResourceVersion = ''41''\<rparr>"
proof -
  have e: "getProviderConfig env_example ''default'' ''otc'' = Inr pc_example"
    "getSecret env_example ''default'' ''otc-credentials'' = Inr \<lparr>ResourceVersion = ''41''\<rparr>"
    "NewFromProviderConfig env_example ref_example ''default'' = Inr 8"
    "now env_example = 100"
    by (simp_all add: env_example_def)
  have r: "getProviderConfig env_rotated ''default'' ''otc'' = Inr pc_example"
    "getSecret env_rotated ''default'' ''otc-credentials'' = Inr \<lparr>ResourceVersion = ''42''\<rparr>"
    "NewFromProviderConfig env_rotated ref_example ''default'' = Inr 8"
    "now env_rotated = 100"
    by (simp_all add: env_rotated_def env_example_def)
  have n: "getProviderConfig env_no_secret ''default'' ''otc'' = Inr pc_example"
    "getSecret env_no_secret ''default'' ''otc-credentials''
       = Inl (StatusNotFound ''otc-credentials'')"
    "NewFromProviderConfig env_no_secret ref_example ''default'' = Inr 8"
    "now env_no_secret = 100"
    by (simp_all add: env_no_secret_def env_example_def)
  have f: "getProviderConfig env_factory_fails ''default'' ''otc'' = Inr pc_example"
    "getSecret env_factory_fails ''default'' ''otc-credentials''
       = Inr \<lparr>ResourceVersion = ''41''\<rparr>"
    "NewFromProviderConfig env_factory_fails ref_example ''default''
       = Inl (OtherError ''authentication failed'')"
    by (simp_all add: env_factory_fails_def env_example_def)
  have c: "getProviderConfig env_no_config ''default'' ''otc'' = Inl (StatusNotFound ''otc'')"
    by (simp add: env_no_config_def)
  show ?thesis
    using C5_provider_cache [of env_example ref_example "''default''" cache_example]
      C5_provider_cache [of env_example ref_example "''default''" stale_cache_example]
      C5_provider_cache [of env_rotated ref_example "''default''" cache_example]
      C5_provider_cache [of env_no_secret ref_example "''default''" cache_example]
      C5_provider_cache [of env_factory_fails ref_example "''default''" stale_cache_example]
      C5_provider_cache [of env_no_config ref_example "''default''" cache_example]
    by (simp add: cache_example_simps e r n f c)
qed

section \<open>Properties of the dependency resolver\<close>

lemma statusOf_wrapped:
  "statusOf (NetworkObj n) = Some (st_ExternalID n, st_Conditions n)"
  "statusOf (SubnetObj s) = Some (st_ExternalID s, st_Conditions s)"
  "statusOf (SecurityGroupObj g) = Some (st_ExternalID g, st_Conditions g)"
  "statusOf (NATGatewayObj w) = None"
  "statusOf (PublicIPObj p) = None"
  by simp_all

lemma resolveBySelector_listed:
  assumes "MatchLabels selector \<noteq> []"
    and "LabelSelectorAsSelector c selector = Inr ls"
    and "list a ns (Some ls) = Inr objs"
  shows "resolveBySelector c a wrap selector ns =
     (if objs = []
      then Inl (Errorf ''no resources found matching selector %v in namespace %s''
                  [M (MatchLabels selector), S ns])
      else if length objs > 1
      then Inl (Errorf ''expected exactly one resource to match selector %v, but found %d''
                  [M (MatchLabels selector), I (int (length objs))])
      else Inr (wrap (hd objs)))"
  using assms by (cases objs) (simp_all add: resolveBySelector_def)

lemma ready_conditions: "IsStatusConditionTrue (SetProvisioned [] 1) condReady"
  by (simp add: IsStatusConditionTrue_def SetProvisioned_def present_setters)

lemma AsSelector_plain:
  "MatchExpressions selector = [] \<Longrightarrow> AsSelector selector = Inr (Requirements selector)"
  by (simp add: AsSelector_def List.map_filter_simps)

lemma store_get_nil: "get (store_api []) ns name = Inl (StatusNotFound name)"
  by (simp add: store_api_def)

text \<open>
  Claim C2, on the example store. The store holds a ready NAT gateway \<^verbatim>\<open>gw\<close> with external
  ID \<^verbatim>\<open>nat-1\<close> and a ready public IP \<^verbatim>\<open>eip\<close> with external ID \<^verbatim>\<open>eip-1\<close>. Resolving them
  by reference looks for security groups of those names: it fails with NotFound when
  there is none, and returns the external ID of the security group \<^verbatim>\<open>gw\<close> when there is
  one. Resolving them by a selector that matches exactly that one object ends in the
  default case of the type switch, with an error.
\<close>

theorem C2_natgateway_publicip_resolution:
  "ResolveNATGateway (store_example []) ''default''
     \<lparr>NATGatewayID = None, NATGatewayRef = by_ref ''gw'', NATGatewaySelector = None\<rparr>
     = Inl (Wrapf ''failed to resolve NAT gateway by reference: %w'' [] (StatusNotFound ''gw'')) \<and>
   ResolveNATGateway (store_example [sg_example]) ''default''
     \<lparr>NATGatewayID = None, NATGatewayRef = by_ref ''gw'', NATGatewaySelector = None\<rparr>
     = Inr ''sg-1'' \<and>
   ResolveNATGateway (store_example []) ''default''
     \<lparr>NATGatewayID = None, NATGatewayRef = None,
      NATGatewaySelector = by_labels [(''app'', ''nat'')]\<rparr>
     = Inl (Errorf ''unhandled dependency type for kind %s'' [S ''NATGateway'']) \<and>
   ResolvePublicIP (store_example []) ''default''
     \<lparr>PublicIPID = None, PublicIPRef = by_ref ''eip'', PublicIPSelector = None\<rparr>
     = Inl (Wrapf ''failed to resolve public IP by reference: %w'' [] (StatusNotFound ''eip'')) \<and>
   ResolvePublicIP (store_example []) ''default''
     \<lparr>PublicIPID = None, PublicIPRef = None,
      PublicIPSelector = by_labels [(''app'', ''eip'')]\<rparr>
     = Inl (Errorf ''unhandled dependency type for kind %s'' [S ''PublicIP''])"
proof -
  have sg: "get (store_api [sg_example]) ''default'' ''gw'' = Inr sg_example"
    by (simp add: store_api_def sg_example_def new_object_def)
  have sgid: "st_ExternalID sg_example = ''sg-1''" "st_Conditions sg_example = SetProvisioned [] 1"
    by (simp_all add: sg_example_def new_object_def)
  have ln: "list (store_api [natgw_example]) ''default''
              (Some (Requirements \<lparr>MatchLabels = [(''app'', ''nat'')], MatchExpressions = []\<rparr>))
            = Inr [natgw_example]"
    by (simp add: store_api_def natgw_example_def new_object_def labels_match_def)
  have lp: "list (store_api [publicip_example]) ''default''
              (Some (Requirements \<lparr>MatchLabels = [(''app'', ''eip'')], MatchExpressions = []\<rparr>))
            = Inr [publicip_example]"
    by (simp add: store_api_def publicip_example_def new_object_def labels_match_def)
  have r1: "resolveBySelector (store_example []) (store_api [natgw_example]) NATGatewayObj
              \<lparr>MatchLabels = [(''app'', ''nat'')], MatchExpressions = []\<rparr> ''default''
            = Inr (NATGatewayObj natgw_example)"
    by (subst resolveBySelector_listed [OF _ _ ln])
      (simp_all add: store_example_def AsSelector_plain)
  have r2: "resolveBySelector (store_example []) (store_api [publicip_example]) PublicIPObj
              \<lparr>MatchLabels = [(''app'', ''eip'')], MatchExpressions = []\<rparr> ''default''
            = Inr (PublicIPObj publicip_example)"
    by (subst resolveBySelector_listed [OF _ _ lp])
      (simp_all add: store_example_def AsSelector_plain)
  show ?thesis
    by (simp add: ResolveNATGateway_def ResolvePublicIP_def by_ref_def by_labels_def
        resolveByRef_def store_example_def store_get_nil sg sgid r1 [unfolded store_example_def]
        r2 [unfolded store_example_def] checkReadinessAndGetID_def ready_conditions)
qed

text \<open>
  In general: whatever the store holds, the reference variant of \<^verbatim>\<open>ResolveNATGateway\<close> and
  of \<^verbatim>\<open>ResolvePublicIP\<close> is decided by the security group of that name alone, and the
  selector variant never returns an external ID.
\<close>

lemma ResolveNATGateway_reference:
  "NATGatewayID dep = None \<Longrightarrow> NATGatewayRef dep = Some ref \<Longrightarrow>
   ResolveNATGateway c ns dep =
     (case get (SecurityGroups c) ns (lor_Name ref) of
        Inl err \<Rightarrow> Inl (Wrapf ''failed to resolve NAT gateway by reference: %w'' [] err)
      | Inr sg \<Rightarrow> checkReadinessAndGetID (SecurityGroupObj sg) ''NATGateway'')"
  by (simp add: ResolveNATGateway_def resolveByRef_def)

lemma ResolvePublicIP_reference:
  "PublicIPID dep = None \<Longrightarrow> PublicIPRef dep = Some ref \<Longrightarrow>
   ResolvePublicIP c ns dep =
     (case get (SecurityGroups c) ns (lor_Name ref) of
        Inl err \<Rightarrow> Inl (Wrapf ''failed to resolve public IP by reference: %w'' [] err)
      | Inr sg \<Rightarrow> checkReadinessAndGetID (SecurityGroupObj sg) ''PublicIP'')"
  by (simp add: ResolvePublicIP_def resolveByRef_def)

lemma resolveBySelector_wrapped:
  "resolveBySelector c a wrap selector ns = Inr obj \<Longrightarrow> \<exists>x. obj = wrap x"
  by (auto simp: resolveBySelector_def Let_def split: if_splits sum.splits)
    (metis hd_map)

lemma ResolveNATGateway_selector_fails:
  "NATGatewayID dep = None \<Longrightarrow> NATGatewayRef dep = None \<Longrightarrow> NATGatewaySelector dep = Some sel
   \<Longrightarrow> isl (ResolveNATGateway c ns dep)"
  by (auto simp: ResolveNATGateway_def checkReadinessAndGetID_def split: sum.splits
      dest!: resolveBySelector_wrapped)

lemma ResolvePublicIP_selector_fails:
  "PublicIPID dep = None \<Longrightarrow> PublicIPRef dep = None \<Longrightarrow> PublicIPSelector dep = Some sel
   \<Longrightarrow> isl (ResolvePublicIP c ns dep)"
  by (auto simp: ResolvePublicIP_def checkReadinessAndGetID_def split: sum.splits
      dest!: resolveBySelector_wrapped)

text \<open>
  Claim C7. A selector resolution whose listing succeeds: with no match it returns the
  \<^verbatim>\<open>no resources found\<close> error, with two or more matches the different error
  \<^verbatim>\<open>expected exactly one ... but found N\<close>, \<open>N\<close> the number of matches. Each of the five
  resolvers, when it takes its selector variant, returns that error wrapped: no readiness
  check is made and no external ID is returned.
\<close>

theorem C7_selector_ambiguity:
  assumes "MatchLabels selector \<noteq> []"
    and "LabelSelectorAsSelector c selector = Inr ls"
    and "list a ns (Some ls) = Inr objs"
  shows
    "(length objs = 0 \<longrightarrow>
        resolveBySelector c a wrap selector ns =
          Inl (Errorf ''no resources found matching selector %v in namespace %s''
                 [M (MatchLabels selector), S ns])) \<and>
     (2 \<le> length objs \<longrightarrow>
        resolveBySelector c a wrap selector ns =
          Inl (Errorf ''expected exactly one resource to match selector %v, but found %d''
                 [M (MatchLabels selector), I (int (length objs))])) \<and>
     Errorf ''no resources found matching selector %v in namespace %s''
        [M (MatchLabels selector), S ns]
       \<noteq> Errorf ''expected exactly one resource to match selector %v, but found %d''
            [M (MatchLabels selector), I (int (length objs))] \<and>
     (resolveBySelector c (Networks c) NetworkObj selector ns = Inl err \<and>
      NetworkID nd \<in> {None, Some []} \<and> NetworkRef nd = None \<and> NetworkSelector nd = Some selector
      \<longrightarrow> ResolveNetwork c ns nd
            = Inl (Wrapf ''failed to resolve network by selector: %w'' [] err)) \<and>
     (resolveBySelector c (Subnets c) SubnetObj selector ns = Inl err \<and>
      SubnetID sd \<in> {None, Some []} \<and> SubnetRef sd = None \<and> SubnetSelector sd = Some selector
      \<longrightarrow> ResolveSubnet c ns sd
            = Inl (Wrapf ''failed to resolve subnet by selector: %w'' [] err)) \<and>
     (resolveBySelector c (SecurityGroups c) SecurityGroupObj selector ns = Inl err \<and>
      SecurityGroupID gd \<in> {None, Some []} \<and> SecurityGroupRef gd = None \<and>
      SecurityGroupSelector gd = Some selector
      \<longrightarrow> ResolveSecurityGroup c ns gd
            = Inl (Wrapf ''failed to resolve security group by selector: %w'' [] err)) \<and>
     (resolveBySelector c (NATGateways c) NATGatewayObj selector ns = Inl err \<and>
      NATGatewayID wd \<in> {None, Some []} \<and> NATGatewayRef wd = None \<and>
      NATGatewaySelector wd = Some selector
      \<longrightarrow> ResolveNATGateway c ns wd
            = Inl (Wrapf ''failed to resolve NAT gateway by selector: %w'' [] err)) \<and>
     (resolveBySelector c (PublicIPs c) PublicIPObj selector ns = Inl err \<and>
      PublicIPID pd \<in> {None, Some []} \<and> PublicIPRef pd = None \<and>
      PublicIPSelector pd = Some selector
      \<longrightarrow> ResolvePublicIP c ns pd
            = Inl (Wrapf ''failed to resolve public IP by selector: %w'' [] err))"
proof -
  note sel = resolveBySelector_listed [OF assms, of wrap]
  have a: "length objs = 0 \<longrightarrow>
        resolveBySelector c a wrap selector ns =
          Inl (Errorf ''no resources found matching selector %v in namespace %s''
                 [M (MatchLabels selector), S ns])"
    using sel by simp
  have b: "2 \<le> length objs \<longrightarrow>
        resolveBySelector c a wrap selector ns =
          Inl (Errorf ''expected exactly one resource to match selector %v, but found %d''
                 [M (MatchLabels selector), I (int (length objs))])"
    using sel by auto
  have d: "Errorf ''no resources found matching selector %v in namespace %s''
        [M (MatchLabels selector), S ns]
       \<noteq> Errorf ''expected exactly one resource to match selector %v, but found %d''
            [M (MatchLabels selector), I (int (length objs))]"
    by simp
  have n: "resolveBySelector c (Networks c) NetworkObj selector ns = Inl err \<and>
      NetworkID nd \<in> {None, Some []} \<and> NetworkRef nd = None \<and> NetworkSelector nd = Some selector
      \<longrightarrow> ResolveNetwork c ns nd
            = Inl (Wrapf ''failed to resolve network by selector: %w'' [] err)"
    by (auto simp: ResolveNetwork_def)
  have s: "resolveBySelector c (Subnets c) SubnetObj selector ns = Inl err \<and>
      SubnetID sd \<in> {None, Some []} \<and> SubnetRef sd = None \<and> SubnetSelector sd = Some selector
      \<longrightarrow> ResolveSubnet c ns sd
            = Inl (Wrapf ''failed to resolve subnet by selector: %w'' [] err)"
    by (auto simp: ResolveSubnet_def)
  have g: "resolveBySelector c (SecurityGroups c) SecurityGroupObj selector ns = Inl err \<and>
      SecurityGroupID gd \<in> {None, Some []} \<and> SecurityGroupRef gd = None \<and>
      SecurityGroupSelector gd = Some selector
      \<longrightarrow> ResolveSecurityGroup c ns gd
            = Inl (Wrapf ''failed to resolve security group by selector: %w'' [] err)"
    by (auto simp: ResolveSecurityGroup_def)
  have w: "resolveBySelector c (NATGateways c) NATGatewayObj selector ns = Inl err \<and>
      NATGatewayID wd \<in> {None, Some []} \<and> NATGatewayRef wd = None \<and>
      NATGatewaySelector wd = Some selector
      \<longrightarrow> ResolveNATGateway c ns wd
            = Inl (Wrapf ''failed to resolve NAT gateway by selector: %w'' [] err)"
    by (auto simp: ResolveNATGateway_def)
  have p: "resolveBySelector c (PublicIPs c) PublicIPObj selector ns = Inl err \<and>
      PublicIPID pd \<in> {None, Some []} \<and> PublicIPRef pd = None \<and>
      PublicIPSelector pd = Some selector
      \<longrightarrow> ResolvePublicIP c ns pd
            = Inl (Wrapf ''failed to resolve public IP by selector: %w'' [] err)"
    by (auto simp: ResolvePublicIP_def)
  from a b d n s g w p show ?thesis by blast
qed

theorem C7_selector_ambiguity_witness:
  "ResolveNetwork networks_store ''default''
     \<lparr>NetworkID = None, NetworkRef = None, NetworkSelector = Some web_selector\<rparr>
     = Inl (Wrapf ''failed to resolve network by selector: %w'' []
         (Errorf ''expected exactly one resource to match selector %v, but found %d''
            [M [(''tier'', ''web'')], I 2])) \<and>
   ResolveNetwork networks_store ''default''
     \<lparr>NetworkID = None, NetworkRef = None, NetworkSelector = Some db_selector\<rparr>
     = Inl (Wrapf ''failed to resolve network by selector: %w'' []
         (Errorf ''no resources found matching selector %v in namespace %s''
            [M [(''tier'', ''db'')], S ''default'']))"
proof -
  have me: "MatchExpressions web_selector = []" "MatchExpressions db_selector = []"
    by (simp_all add: web_selector_def db_selector_def)
  have c: "LabelSelectorAsSelector networks_store web_selector = Inr (Requirements web_selector)"
    "LabelSelectorAsSelector networks_store db_selector = Inr (Requirements db_selector)"
    by (simp_all add: networks_store_def AsSelector_plain me)
  have l2: "list (Networks networks_store) ''default'' (Some (Requirements web_selector))
            = Inr [network_example ''net-a'' ''vpc-a'', network_example ''net-b'' ''vpc-b'']"
    by (simp add: networks_store_def store_api_def network_example_def new_object_def
        labels_match_def web_selector_def)
  have l0: "list (Networks networks_store) ''default'' (Some (Requirements db_selector)) = Inr []"
    by (simp add: networks_store_def store_api_def network_example_def new_object_def
        labels_match_def db_selector_def)
  have m: "MatchLabels web_selector \<noteq> []" "MatchLabels db_selector \<noteq> []"
    by (simp_all add: web_selector_def db_selector_def)
  show ?thesis
    using C7_selector_ambiguity [OF m(1) c(1) l2, of NetworkObj _
        "\<lparr>NetworkID = None, NetworkRef = None, NetworkSelector = Some web_selector\<rparr>"]
      C7_selector_ambiguity [OF m(2) c(2) l0, of NetworkObj _
        "\<lparr>NetworkID = None, NetworkRef = None, NetworkSelector = Some db_selector\<rparr>"]
    by (simp add: web_selector_def db_selector_def)
qed

text \<open>
  Claim C10. A dependency whose ID pointer points to the empty string, with no reference
  and no selector, is not resolved to the empty ID: each resolver falls through to its
  default case and returns its \<^verbatim>\<open>no ... specified\<close> error.
\<close>

theorem C10_empty_id_is_absent:
  "(NetworkID nd = Some [] \<and> NetworkRef nd = None \<and> NetworkSelector nd = None
      \<longrightarrow> ResolveNetwork c ns nd = Inl (Errorf ''no network specified'' [])) \<and>
   (SubnetID sd = Some [] \<and> SubnetRef sd = None \<and> SubnetSelector sd = None
      \<longrightarrow> ResolveSubnet c ns sd = Inl (Errorf ''no subnet specified'' [])) \<and>
   (SecurityGroupID gd = Some [] \<and> SecurityGroupRef gd = None \<and> SecurityGroupSelector gd = None
      \<longrightarrow> ResolveSecurityGroup c ns gd = Inl (Errorf ''no security group specified'' [])) \<and>
   (NATGatewayID wd = Some [] \<and> NATGatewayRef wd = None \<and> NATGatewaySelector wd = None
      \<longrightarrow> ResolveNATGateway c ns wd = Inl (Errorf ''no NAT gateway specified'' [])) \<and>
   (PublicIPID pd = Some [] \<and> PublicIPRef pd = None \<and> PublicIPSelector pd = None
      \<longrightarrow> ResolvePublicIP c ns pd = Inl (Errorf ''no public IP specified'' []))"
  by (simp add: ResolveNetwork_def ResolveSubnet_def ResolveSecurityGroup_def
      ResolveNATGateway_def ResolvePublicIP_def)

theorem C10_empty_id_is_absent_witness:
  "ResolveNetwork (store_example []) ''default''
     \<lparr>NetworkID = Some [], NetworkRef = None, NetworkSelector = None\<rparr>
     = Inl (Errorf ''no network specified'' []) \<and>
   ResolveSubnet (store_example []) ''default''
     \<lparr>SubnetID = Some [], SubnetRef = None, SubnetSelector = None\<rparr>
     = Inl (Errorf ''no subnet specified'' []) \<and>
   ResolveSecurityGroup (store_example []) ''default''
     \<lparr>SecurityGroupID = Some [], SecurityGroupRef = None, SecurityGroupSelector = None\<rparr>
     = Inl (Errorf ''no security group specified'' []) \<and>
   ResolveNATGateway (store_example []) ''default''
     \<lparr>NATGatewayID = Some [], NATGatewayRef = None, NATGatewaySelector = None\<rparr>
     = Inl (Errorf ''no NAT gateway specified'' []) \<and>
   ResolvePublicIP (store_example []) ''default''
     \<lparr>PublicIPID = Some [], PublicIPRef = None, PublicIPSelector = None\<rparr>
     = Inl (Errorf ''no public IP specified'' [])"
  using C10_empty_id_is_absent [of
      "\<lparr>NetworkID = Some [], NetworkRef = None, NetworkSelector = None\<rparr>"
      "store_example []" "''default''"
      "\<lparr>SubnetID = Some [], SubnetRef = None, SubnetSelector = None\<rparr>"
      "\<lparr>SecurityGroupID = Some [], SecurityGroupRef = None, SecurityGroupSelector = None\<rparr>"
      "\<lparr>NATGatewayID = Some [], NATGatewayRef = None, NATGatewaySelector = None\<rparr>"
      "\<lparr>PublicIPID = Some [], PublicIPRef = None, PublicIPSelector = None\<rparr>"]
  by simp

section \<open>Properties of the reconcilers\<close>

subsection \<open>Conditions after a setter\<close>

lemma find_set_new:
  "FindStatusCondition (SetStatusCondition cs new) (ctype new) = Some new"
  by (induction cs) auto

lemma find_Apply:
  "FindStatusCondition (Apply b cs) t =
     (if t = b_typ b
      then Some \<lparr>ctype = b_typ b, status = b_status b, reason = b_reason b,
                 message = b_message b, observedGeneration = b_generation b\<rparr>
      else FindStatusCondition cs t)"
  using find_set_new [of cs "\<lparr>ctype = b_typ b, status = b_status b, reason = b_reason b,
      message = b_message b, observedGeneration = b_generation b\<rparr>"]
    find_set_other [of t "\<lparr>ctype = b_typ b, status = b_status b, reason = b_reason b,
      message = b_message b, observedGeneration = b_generation b\<rparr>" cs]
  by (simp add: Apply_def)

lemma applyOptions_reason_message:
  "applyOptions r0 m0 [WithReason r, WithMessage m] = (r, m)"
  "applyOptions r0 m0 [WithReason r, WithMessagef f a] = (r, Sprintf f a)"
  "applyOptions r0 m0 [WithMessagef f a] = (r0, Sprintf f a)"
  "applyOptions r0 m0 [WithMessage m] = (r0, m)"
  "applyOptions r0 m0 [] = (r0, m0)"
  by (simp_all add: applyOptions_def WithReason_def WithMessage_def WithMessagef_def)

lemma find_SetSynced:
  "FindStatusCondition (SetSynced cs g opts) t =
     (if t = condSynced
      then Some \<lparr>ctype = condSynced, status = ConditionTrue,
                 reason = fst (applyOptions reasonSynced
                                 (Str ''External resource matches desired state'') opts),
                 message = snd (applyOptions reasonSynced
                                  (Str ''External resource matches desired state'') opts),
                 observedGeneration = g\<rparr>
      else FindStatusCondition cs t)"
  by (simp add: SetSynced_def find_Apply NewCondition_def WithStatus_def b_WithReason_def
      b_WithMessage_def WithGeneration_def split: prod.splits)

lemma find_SetNotSynced:
  "FindStatusCondition (SetNotSynced cs g opts) t =
     (if t = condSynced
      then Some \<lparr>ctype = condSynced, status = ConditionFalse,
                 reason = fst (applyOptions reasonReconciling
                                 (Str ''Resource is being reconciled'') opts),
                 message = snd (applyOptions reasonReconciling
                                  (Str ''Resource is being reconciled'') opts),
                 observedGeneration = g\<rparr>
      else FindStatusCondition cs t)"
  by (simp add: SetNotSynced_def find_Apply NewCondition_def WithStatus_def b_WithReason_def
      b_WithMessage_def WithGeneration_def split: prod.splits)

lemma find_SetNotReady:
  "FindStatusCondition (SetNotReady cs g opts) t =
     (if t = condReady
      then Some \<lparr>ctype = condReady, status = ConditionFalse,
                 reason = fst (applyOptions reasonFailed (Str ''Resource is not ready'') opts),
                 message = snd (applyOptions reasonFailed (Str ''Resource is not ready'') opts),
                 observedGeneration = g\<rparr>
      else FindStatusCondition cs t)"
  by (simp add: SetNotReady_def find_Apply NewCondition_def WithStatus_def b_WithReason_def
      b_WithMessage_def WithGeneration_def split: prod.splits)

lemmas find_setters = find_SetSynced find_SetNotSynced find_SetNotReady

lemma find_SetDeletionBlocked:
  "FindStatusCondition (SetDeletionBlocked cs g [WithMessagef f a]) condSynced =
     Some \<lparr>ctype = condSynced, status = ConditionFalse, reason = reasonDeletionBlocked,
            message = Sprintf f a, observedGeneration = g\<rparr>"
  "FindStatusCondition (SetDeletionBlocked cs g [WithMessagef f a]) condReady =
     Some \<lparr>ctype = condReady, status = ConditionFalse, reason = reasonDeletionBlocked,
            message = Sprintf f a, observedGeneration = g\<rparr>"
  by (simp_all add: SetDeletionBlocked_def find_setters applyOptions_reason_message
      cond_names_distinct)

lemma find_SetReconciliationFailed:
  "FindStatusCondition (SetReconciliationFailed cs g opts) condSynced =
     Some \<lparr>ctype = condSynced, status = ConditionFalse,
            reason = fst (applyOptions reasonReconciling (Str ''Resource is being reconciled'') opts),
            message = snd (applyOptions reasonReconciling (Str ''Resource is being reconciled'') opts),
            observedGeneration = g\<rparr>"
  "FindStatusCondition (SetReconciliationFailed cs g opts) condReady =
     Some \<lparr>ctype = condReady, status = ConditionFalse,
            reason = fst (applyOptions reasonFailed (Str ''Resource is not ready'') opts),
            message = snd (applyOptions reasonFailed (Str ''Resource is not ready'') opts),
            observedGeneration = g\<rparr>"
  by (simp_all add: SetReconciliationFailed_def find_setters cond_names_distinct)

lemma find_SetDeleted:
  "FindStatusCondition (SetDeleted cs g) condSynced =
     Some \<lparr>ctype = condSynced, status = ConditionTrue, reason = reasonDeleted,
            message = Str ''External resource has been successfully deleted'',
            observedGeneration = g\<rparr>"
  "FindStatusCondition (SetDeleted cs g) condReady =
     Some \<lparr>ctype = condReady, status = ConditionFalse, reason = reasonDeleted,
            message = Str ''Resource is terminated'', observedGeneration = g\<rparr>"
  by (simp_all add: SetDeleted_def find_setters applyOptions_reason_message cond_names_distinct)

lemma find_SetOrphaned:
  "FindStatusCondition (SetOrphaned cs g []) condSynced =
     Some \<lparr>ctype = condSynced, status = ConditionTrue, reason = reasonOrphaned,
            message = Str ''External resource was preserved due to orphanOnDelete policy'',
            observedGeneration = g\<rparr>"
  "FindStatusCondition (SetOrphaned cs g []) condReady =
     Some \<lparr>ctype = condReady, status = ConditionFalse, reason = reasonOrphaned,
            message = Str ''Resource orphaned, no longer managed by operator'',
            observedGeneration = g\<rparr>"
  by (simp_all add: SetOrphaned_def find_setters applyOptions_reason_message cond_names_distinct)

lemma set_conditions_simps:
  "st_Conditions (rc_object (set_conditions f rc)) = f (st_Conditions (rc_object rc)) (rc_generation rc)"
  "st_ExternalID (rc_object (set_conditions f rc)) = st_ExternalID (rc_object rc)"
  "st_LastAppliedSpec (rc_object (set_conditions f rc)) = st_LastAppliedSpec (rc_object rc)"
  "st_LastSyncTime (rc_object (set_conditions f rc)) = st_LastSyncTime (rc_object rc)"
  "obj_Finalizers (rc_object (set_conditions f rc)) = obj_Finalizers (rc_object rc)"
  "obj_Namespace (rc_object (set_conditions f rc)) = obj_Namespace (rc_object rc)"
  "obj_Name (rc_object (set_conditions f rc)) = obj_Name (rc_object rc)"
  "Spec (rc_object (set_conditions f rc)) = Spec (rc_object rc)"
  "rc_generation (set_conditions f rc) = rc_generation rc"
  "rc_finalizerName (set_conditions f rc) = rc_finalizerName rc"
  "rc_requeueAfter (set_conditions f rc) = rc_requeueAfter rc"
  "rc_providers (set_conditions f rc) = rc_providers rc"
  "rc_calls (set_conditions f rc) = rc_calls rc"
  by (simp_all add: set_conditions_def)

lemmas rc_setters =
  rc_SetNotSynced_def rc_SetNotReady_def rc_SetReconciliationFailed_def rc_SetSyncedAndReady_def
  rc_SetCreating_def rc_SetProvisioning_def rc_SetProvisioned_def rc_SetUpdating_def
  rc_SetTerminating_def rc_SetDeletionBlocked_def rc_SetDeleted_def rc_SetOrphaned_def

lemma sent_simps:
  "rc_object (sent c rc) = rc_object rc"
  "rc_generation (sent c rc) = rc_generation rc"
  "rc_finalizerName (sent c rc) = rc_finalizerName rc"
  "rc_requeueAfter (sent c rc) = rc_requeueAfter rc"
  "rc_providers (sent c rc) = rc_providers rc"
  "rc_calls (sent c rc) = rc_calls rc @ [c]"
  by (simp_all add: sent_def)

lemma set_status_simps:
  "rc_object (set_status f rc) = f (rc_object rc)"
  "rc_generation (set_status f rc) = rc_generation rc"
  "rc_finalizerName (set_status f rc) = rc_finalizerName rc"
  "rc_requeueAfter (set_status f rc) = rc_requeueAfter rc"
  "rc_providers (set_status f rc) = rc_providers rc"
  "rc_calls (set_status f rc) = rc_calls rc"
  by (simp_all add: set_status_def)

subsection \<open>Out-of-band deletion of a network\<close>

text \<open>The provider's \<^verbatim>\<open>GetNetwork\<close> never returns a nil info together with a nil error.\<close>

lemma GetNetwork_not_nil_nil: "GetNetwork vpcs_Get networkID \<noteq> (None, None)"
  by (simp add: GetNetwork_def split: sum.splits)

lemma GetNetwork_404: "vpcs_Get networkID = Inl ErrDefault404 \<Longrightarrow>
    GetNetwork vpcs_Get networkID = (None, Some ErrNotFound)"
  by (simp add: GetNetwork_def)

text \<open>
  \<^verbatim>\<open>reconcileUpdate\<close> does reset the external ID and the baseline when \<^verbatim>\<open>GetNetwork\<close> returns
  \<^verbatim>\<open>(nil, nil)\<close>, and the next \<^verbatim>\<open>reconcile\<close> then takes the create path.
\<close>

lemma reconcileUpdate_nil_nil:
  assumes "st_LastAppliedSpec (rc_object rc) \<noteq> None"
    and "p_GetNetwork p (st_ExternalID (rc_object rc)) = (None, None)"
  shows "fst (reconcileUpdate clock rc p) = (\<lparr>Requeue = True, RequeueAfter = 0\<rparr>, None)"
    and "st_ExternalID (rc_object (snd (reconcileUpdate clock rc p))) = []"
    and "st_LastAppliedSpec (rc_object (snd (reconcileUpdate clock rc p))) = None"
    and "reconcile clock' (snd (reconcileUpdate clock rc p)) p'
           = reconcileCreate (snd (reconcileUpdate clock rc p)) p'"
  using assms
  by (auto simp: reconcileUpdate_def reconcile_def Let_def set_status_simps)

text \<open>
  With the provider's own \<^verbatim>\<open>GetNetwork\<close>, no run of \<^verbatim>\<open>reconcileUpdate\<close> changes the external
  ID: the reset is out of reach.
\<close>

lemma handleDrift_keeps_ID:
  "st_ExternalID (rc_object (snd (handleDrift rc p req))) = st_ExternalID (rc_object rc)"
  by (simp add: handleDrift_def Let_def set_status_simps sent_simps rc_setters
      set_conditions_simps split: option.splits)

lemma checkReadiness_keeps_ID:
  "st_ExternalID (rc_object (snd (checkReadiness clock rc info))) = st_ExternalID (rc_object rc)"
  by (simp add: checkReadiness_def Let_def set_status_simps rc_setters set_conditions_simps
      split: State.splits)

lemma reconcileUpdate_keeps_ID:
  assumes "p_GetNetwork p = GetNetwork vpcs_Get"
  shows "st_ExternalID (rc_object (snd (reconcileUpdate clock rc p)))
           = st_ExternalID (rc_object rc)"
proof (cases "st_LastAppliedSpec (rc_object rc)")
  case None
  then show ?thesis by (simp add: reconcileUpdate_def set_status_simps)
next
  case (Some l)
  obtain info err where g: "GetNetwork vpcs_Get (st_ExternalID (rc_object rc)) = (info, err)"
    by (metis prod.exhaust)
  have nn: "\<not> (info = None \<and> err = None)"
    using GetNetwork_not_nil_nil [of vpcs_Get "st_ExternalID (rc_object rc)"] g by auto
  show ?thesis
    using Some g nn assms
    by (cases info; cases err)
      (simp_all add: reconcileUpdate_def Let_def sent_simps rc_setters set_conditions_simps
        handleDrift_keeps_ID checkReadiness_keeps_ID split: prod.splits)
qed

text \<open>
  Claim C1, on the example. The network has external ID \<^verbatim>\<open>net-1\<close> and a baseline, and the
  cloud answers 404 for it. \<^verbatim>\<open>GetNetwork\<close> returns \<^verbatim>\<open>(nil, ErrNotFound)\<close>, and
  \<^verbatim>\<open>reconcileUpdate\<close> takes its error branch: it reports a provider error in both
  conditions, asks for a requeue after 30 seconds, and leaves the external ID and the
  baseline as they were; the next \<^verbatim>\<open>reconcile\<close> takes the update path again.
\<close>

theorem C1_not_found_reported_as_provider_error:
  "GetNetwork vpcs_gone ''net-1'' = (None, Some ErrNotFound) \<and>
   fst (reconcileUpdate 7 (network_rc_example ''net-1'' False) (otc_provider vpcs_gone))
     = (\<lparr>Requeue = False, RequeueAfter = 30 * second\<rparr>, None) \<and>
   st_ExternalID (rc_object
       (snd (reconcileUpdate 7 (network_rc_example ''net-1'' False) (otc_provider vpcs_gone))))
     = ''net-1'' \<and>
   st_LastAppliedSpec (rc_object
       (snd (reconcileUpdate 7 (network_rc_example ''net-1'' False) (otc_provider vpcs_gone))))
     = st_LastAppliedSpec (rc_object (network_rc_example ''net-1'' False)) \<and>
   FindStatusCondition (st_Conditions (rc_object
       (snd (reconcileUpdate 7 (network_rc_example ''net-1'' False) (otc_provider vpcs_gone)))))
       condReady
     = Some \<lparr>ctype = condReady, status = ConditionFalse, reason = reasonProviderError,
              message = Sprintf ''Failed to check existing Network: %v'' [E ErrNotFound],
              observedGeneration = 1\<rparr> \<and>
   reconcile 8
       (snd (reconcileUpdate 7 (network_rc_example ''net-1'' False) (otc_provider vpcs_gone)))
       (otc_provider vpcs_gone)
     = reconcileUpdate 8
         (snd (reconcileUpdate 7 (network_rc_example ''net-1'' False) (otc_provider vpcs_gone)))
         (otc_provider vpcs_gone)"
proof -
  have g: "p_GetNetwork (otc_provider vpcs_gone) ''net-1'' = (None, Some ErrNotFound)"
    by (simp add: otc_provider_def GetNetwork_def vpcs_gone_def)
  have x: "st_ExternalID (rc_object (network_rc_example ''net-1'' False)) = ''net-1''"
    by (simp add: network_rc_example_def)
  have l: "st_LastAppliedSpec (rc_object (network_rc_example ''net-1'' False)) \<noteq> None"
    by (simp add: network_rc_example_def)
  have n: "rc_generation (network_rc_example ''net-1'' False) = 1"
    by (simp add: network_rc_example_def)
  have u: "reconcileUpdate 7 (network_rc_example ''net-1'' False) (otc_provider vpcs_gone) =
      ((\<lparr>Requeue = False, RequeueAfter = networkRequeueDelay\<rparr>, None),
       rc_SetReconciliationFailed
         [WithReason reasonProviderError,
          WithMessagef ''Failed to check existing Network: %v'' [E ErrNotFound]]
         (sent (ProviderGetNetwork ''net-1'') (network_rc_example ''net-1'' False)))"
    using g x l by (auto simp: reconcileUpdate_def Let_def)
  show ?thesis
    by (simp add: u GetNetwork_def vpcs_gone_def networkRequeueDelay_def rc_setters
        set_conditions_simps sent_simps x n find_SetReconciliationFailed
        applyOptions_reason_message reconcile_def)
qed

subsection \<open>Reference guard\<close>

lemma runChecks_ok:
  "\<forall>chk \<in> set checks. \<not> isl (Check chk c ns xid) \<Longrightarrow>
   runChecks c ns xid checks acc = Inr (acc @ concat (map (reported c ns xid) checks))"
proof (induction checks arbitrary: acc)
  case Nil
  then show ?case by simp
next
  case (Cons chk checks)
  then obtain names where n: "Check chk c ns xid = Inr names"
    by (cases "Check chk c ns xid") auto
  show ?case
    using Cons n by (cases names) (simp_all add: reported_def)
qed

lemma runChecks_fail:
  "\<forall>x \<in> set pre. \<not> isl (Check x c ns xid) \<Longrightarrow> Check chk c ns xid = Inl err \<Longrightarrow>
   runChecks c ns xid (pre @ chk # post) acc = Inl (chk, err)"
proof (induction pre arbitrary: acc)
  case Nil
  then show ?case by simp
next
  case (Cons x pre)
  then obtain names where n: "Check x c ns xid = Inr names"
    by (cases "Check x c ns xid") auto
  show ?case
    using Cons n by simp
qed

lemma runChecks_blocked:
  "(case runChecks c ns xid checks acc of Inl e \<Rightarrow> True | Inr refs \<Rightarrow> refs \<noteq> [])
     = (acc \<noteq> [] \<or> (\<exists>chk \<in> set checks. Check chk c ns xid \<noteq> Inr []))"
proof (induction checks arbitrary: acc)
  case Nil
  then show ?case by simp
next
  case (Cons chk checks)
  show ?case
  proof (cases "Check chk c ns xid")
    case (Inl e)
    then show ?thesis by simp
  next
    case (Inr names)
    then show ?thesis using Cons [of "if length names > 0 then acc @ names else acc"]
      by (cases names) auto
  qed
qed

lemma BlockOnAnyReference_blocked:
  "fst (fst (BlockOnAnyReference env rc ns xid checks))
     = (\<exists>chk \<in> set checks. Check chk (co_client env) ns xid \<noteq> Inr [])"
  using runChecks_blocked [of "co_client env" ns xid checks "[]"]
  by (auto simp: BlockOnAnyReference_def split: sum.splits prod.splits)

lemma BlockOnAnyReference_effects:
  "rc_calls (snd (BlockOnAnyReference env rc ns xid checks)) = rc_calls rc"
  "obj_Finalizers (rc_object (snd (BlockOnAnyReference env rc ns xid checks)))
     = obj_Finalizers (rc_object rc)"
  by (simp_all add: BlockOnAnyReference_def rc_setters set_conditions_simps
      split: sum.splits prod.splits)

text \<open>
  Claim C3, as amended. (1) When every reference check succeeds and at least one reports
  names, \<^verbatim>\<open>BlockOnAnyReference\<close> returns \<^verbatim>\<open>blocked = true\<close> with a requeue and no error, and
  sets Synced and Ready to False with reason DeletionBlocked and a message that holds
  all reported names. (2) When a check fails to list, after checks that succeeded (with or
  without names), it returns \<^verbatim>\<open>blocked = true\<close> with that error, and the conditions are
  those of a failed reconciliation with the failure as message. (3) \<^verbatim>\<open>blocked\<close> is true
  exactly when some check answers anything but an empty list of names. (4) When the guard
  blocks, the network's \<^verbatim>\<open>reconcileDelete\<close> returns the guard's result: it sends no request
  (no provider deletion, no object update) and the finalizers are as before.
\<close>

theorem C3_deletion_guard:
  "((\<forall>chk \<in> set checks. \<not> isl (Check chk (co_client env) ns xid)) \<and>
    (\<exists>chk \<in> set checks. reported (co_client env) ns xid chk \<noteq> [])
    \<longrightarrow> BlockOnAnyReference env rc ns xid checks =
          ((True, \<lparr>Requeue = False, RequeueAfter = rc_requeueAfter rc\<rparr>, None),
           rc_SetDeletionBlocked
             [WithMessagef ''Still referenced by %v''
                [V (Ss (concat (map (reported (co_client env) ns xid) checks)))]] rc) \<and>
        FindStatusCondition
          (st_Conditions (rc_object (snd (BlockOnAnyReference env rc ns xid checks)))) condSynced
          = Some \<lparr>ctype = condSynced, status = ConditionFalse, reason = reasonDeletionBlocked,
                   message = Sprintf ''Still referenced by %v''
                     [V (Ss (concat (map (reported (co_client env) ns xid) checks)))],
                   observedGeneration = rc_generation rc\<rparr> \<and>
        FindStatusCondition
          (st_Conditions (rc_object (snd (BlockOnAnyReference env rc ns xid checks)))) condReady
          = Some \<lparr>ctype = condReady, status = ConditionFalse, reason = reasonDeletionBlocked,
                   message = Sprintf ''Still referenced by %v''
                     [V (Ss (concat (map (reported (co_client env) ns xid) checks)))],
                   observedGeneration = rc_generation rc\<rparr>) \<and>
   (checks = pre @ chk # post \<and> (\<forall>x \<in> set pre. \<not> isl (Check x (co_client env) ns xid)) \<and>
    Check chk (co_client env) ns xid = Inl err
    \<longrightarrow> BlockOnAnyReference env rc ns xid checks =
          ((True, \<lparr>Requeue = False, RequeueAfter = rc_requeueAfter rc\<rparr>, Some err),
           rc_SetReconciliationFailed
             [WithMessagef ''Failed reference check (%s): %v'' [V (S (Resource chk)), E err]]
             rc)) \<and>
   (fst (fst (BlockOnAnyReference env rc ns xid checks))
      = (\<exists>chk \<in> set checks. Check chk (co_client env) ns xid \<noteq> Inr [])) \<and>
   (st_ExternalID (rc_object nrc) \<noteq> [] \<and>
    fst (fst (BlockOnAnyReference nenv nrc (obj_Namespace (rc_object nrc))
                (st_ExternalID (rc_object nrc))
                [SubnetNetworkReferenceCheck, NATGatewayNetworkReferenceCheck]))
    \<longrightarrow> fst (reconcileDelete nenv nrc)
          = snd (fst (BlockOnAnyReference nenv nrc (obj_Namespace (rc_object nrc))
                        (st_ExternalID (rc_object nrc))
                        [SubnetNetworkReferenceCheck, NATGatewayNetworkReferenceCheck])) \<and>
        snd (reconcileDelete nenv nrc)
          = snd (BlockOnAnyReference nenv nrc (obj_Namespace (rc_object nrc))
                   (st_ExternalID (rc_object nrc))
                   [SubnetNetworkReferenceCheck, NATGatewayNetworkReferenceCheck]) \<and>
        rc_calls (snd (reconcileDelete nenv nrc)) = rc_calls nrc \<and>
        obj_Finalizers (rc_object (snd (reconcileDelete nenv nrc)))
          = obj_Finalizers (rc_object nrc))"
proof (intro conjI impI)
  assume a: "(\<forall>chk \<in> set checks. \<not> isl (Check chk (co_client env) ns xid)) \<and>
    (\<exists>chk \<in> set checks. reported (co_client env) ns xid chk \<noteq> [])"
  let ?refs = "concat (map (reported (co_client env) ns xid) checks)"
  have r: "runChecks (co_client env) ns xid checks [] = Inr ?refs"
    using runChecks_ok [of checks "co_client env" ns xid "[]"] a by simp
  have ne: "?refs \<noteq> []" using a by auto
  show b: "BlockOnAnyReference env rc ns xid checks =
          ((True, \<lparr>Requeue = False, RequeueAfter = rc_requeueAfter rc\<rparr>, None),
           rc_SetDeletionBlocked [WithMessagef ''Still referenced by %v'' [V (Ss ?refs)]] rc)"
    using r ne by (simp add: BlockOnAnyReference_def)
  show "FindStatusCondition
          (st_Conditions (rc_object (snd (BlockOnAnyReference env rc ns xid checks)))) condSynced
          = Some \<lparr>ctype = condSynced, status = ConditionFalse, reason = reasonDeletionBlocked,
                   message = Sprintf ''Still referenced by %v'' [V (Ss ?refs)],
                   observedGeneration = rc_generation rc\<rparr>"
    by (simp add: b rc_SetDeletionBlocked_def set_conditions_simps find_SetDeletionBlocked)
  show "FindStatusCondition
          (st_Conditions (rc_object (snd (BlockOnAnyReference env rc ns xid checks)))) condReady
          = Some \<lparr>ctype = condReady, status = ConditionFalse, reason = reasonDeletionBlocked,
                   message = Sprintf ''Still referenced by %v'' [V (Ss ?refs)],
                   observedGeneration = rc_generation rc\<rparr>"
    by (simp add: b rc_SetDeletionBlocked_def set_conditions_simps find_SetDeletionBlocked)
next
  assume a: "checks = pre @ chk # post \<and>
    (\<forall>x \<in> set pre. \<not> isl (Check x (co_client env) ns xid)) \<and>
    Check chk (co_client env) ns xid = Inl err"
  have "runChecks (co_client env) ns xid checks [] = Inl (chk, err)"
    using runChecks_fail [of pre "co_client env" ns xid chk err post "[]"] a by simp
  then show "BlockOnAnyReference env rc ns xid checks =
          ((True, \<lparr>Requeue = False, RequeueAfter = rc_requeueAfter rc\<rparr>, Some err),
           rc_SetReconciliationFailed
             [WithMessagef ''Failed reference check (%s): %v'' [V (S (Resource chk)), E err]]
             rc)"
    by (simp add: BlockOnAnyReference_def)
next
  show "fst (fst (BlockOnAnyReference env rc ns xid checks))
      = (\<exists>chk \<in> set checks. Check chk (co_client env) ns xid \<noteq> Inr [])"
    by (rule BlockOnAnyReference_blocked)
next
  assume a: "st_ExternalID (rc_object nrc) \<noteq> [] \<and>
    fst (fst (BlockOnAnyReference nenv nrc (obj_Namespace (rc_object nrc))
                (st_ExternalID (rc_object nrc))
                [SubnetNetworkReferenceCheck, NATGatewayNetworkReferenceCheck]))"
  let ?g = "BlockOnAnyReference nenv nrc (obj_Namespace (rc_object nrc))
                (st_ExternalID (rc_object nrc))
                [SubnetNetworkReferenceCheck, NATGatewayNetworkReferenceCheck]"
  obtain b r e rc1 where g: "?g = ((b, r, e), rc1)"
    by (metis prod.exhaust)
  have d: "reconcileDelete nenv nrc = ((fst (snd (fst ?g)), snd (snd (fst ?g))), snd ?g)"
    using a g by (simp add: reconcileDelete_def Let_def)
  show "fst (reconcileDelete nenv nrc) = snd (fst ?g)" by (simp add: d)
  show "snd (reconcileDelete nenv nrc) = snd ?g" by (simp add: d)
  show "rc_calls (snd (reconcileDelete nenv nrc)) = rc_calls nrc"
    by (simp add: d BlockOnAnyReference_effects)
  show "obj_Finalizers (rc_object (snd (reconcileDelete nenv nrc)))
          = obj_Finalizers (rc_object nrc)"
    by (simp add: d BlockOnAnyReference_effects)
qed

lemma guard_store_checks:
  "Check SubnetNetworkReferenceCheck (guard_store b) ''default'' ''net-1'' = Inr [''sub-a'']"
  "Check NATGatewayNetworkReferenceCheck (guard_store True) ''default'' ''net-1'' = Inr []"
  "Check NATGatewayNetworkReferenceCheck (guard_store False) ''default'' ''net-1''
     = Inl (Wrapf ''list NATGateways: %w'' [] (OtherError ''connection refused''))"
  by (simp_all add: guard_store_def store_api_def failing_api_def referencing_def
      subnet_example_def new_object_def)

lemma network_rc_example_simps:
  "st_ExternalID (rc_object (network_rc_example x orphan)) = x"
  "obj_Namespace (rc_object (network_rc_example x orphan)) = ''default''"
  "obj_Finalizers (rc_object (network_rc_example x orphan)) = [networkFinalizerName]"
  "st_Conditions (rc_object (network_rc_example x orphan)) = []"
  "rc_generation (network_rc_example x orphan) = 1"
  "rc_finalizerName (network_rc_example x orphan) = networkFinalizerName"
  "rc_requeueAfter (network_rc_example x orphan) = networkRequeueDelay"
  "rc_providers (network_rc_example x orphan) = Map.empty"
  "rc_calls (network_rc_example x orphan) = []"
  "net_OrphanOnDelete (Spec (rc_object (network_rc_example x orphan))) = orphan"
  "net_ProviderConfigRef (Spec (rc_object (network_rc_example x orphan))) = ref_example"
  by (simp_all add: network_rc_example_def)

theorem C3_deletion_guard_witness:
  "BlockOnAnyReference (collaborators_example (guard_store True))
       (network_rc_example ''net-1'' False) ''default'' ''net-1''
       [SubnetNetworkReferenceCheck, NATGatewayNetworkReferenceCheck]
     = ((True, \<lparr>Requeue = False, RequeueAfter = networkRequeueDelay\<rparr>, None),
        rc_SetDeletionBlocked
          [WithMessagef ''Still referenced by %v'' [V (Ss [''sub-a''])]]
          (network_rc_example ''net-1'' False)) \<and>
   fst (reconcileDelete (collaborators_example (guard_store True))
          (network_rc_example ''net-1'' False))
     = (\<lparr>Requeue = False, RequeueAfter = networkRequeueDelay\<rparr>, None) \<and>
   rc_calls (snd (reconcileDelete (collaborators_example (guard_store True))
                    (network_rc_example ''net-1'' False))) = [] \<and>
   obj_Finalizers (rc_object (snd (reconcileDelete (collaborators_example (guard_store True))
                                     (network_rc_example ''net-1'' False))))
     = [networkFinalizerName] \<and>
   fst (BlockOnAnyReference (collaborators_example (guard_store False))
          (network_rc_example ''net-1'' False) ''default'' ''net-1''
          [SubnetNetworkReferenceCheck, NATGatewayNetworkReferenceCheck])
     = (True, \<lparr>Requeue = False, RequeueAfter = networkRequeueDelay\<rparr>,
        Some (Wrapf ''list NATGateways: %w'' [] (OtherError ''connection refused'')))"
proof -
  have c: "co_client (collaborators_example s) = s" for s
    by (simp add: collaborators_example_def)
  have r: "reported (guard_store True) ''default'' ''net-1'' SubnetNetworkReferenceCheck
             = [''sub-a'']"
    "reported (guard_store True) ''default'' ''net-1'' NATGatewayNetworkReferenceCheck = []"
    by (simp_all add: reported_def guard_store_checks del: Check.simps)
  show ?thesis
    using C3_deletion_guard [of "[SubnetNetworkReferenceCheck, NATGatewayNetworkReferenceCheck]"
        "collaborators_example (guard_store True)" "''default''" "''net-1''"
        "network_rc_example ''net-1'' False" "[]" SubnetNetworkReferenceCheck "[]" ErrNotFound
        "network_rc_example ''net-1'' False" "collaborators_example (guard_store True)"]
      C3_deletion_guard [of "[SubnetNetworkReferenceCheck, NATGatewayNetworkReferenceCheck]"
        "collaborators_example (guard_store False)" "''default''" "''net-1''"
        "network_rc_example ''net-1'' False" "[SubnetNetworkReferenceCheck]"
        NATGatewayNetworkReferenceCheck "[]"
        "Wrapf ''list NATGateways: %w'' [] (OtherError ''connection refused'')"
        "network_rc_example ''net-1'' False" "collaborators_example (guard_store True)"]
    by (simp add: c r guard_store_checks network_rc_example_simps rc_setters
        set_conditions_simps del: Check.simps)
qed

text \<open>
  Claim C3 as it is stated fails where a check reports names and a later check fails to
  list: on the store whose Subnet \<^verbatim>\<open>sub-a\<close> refers to \<^verbatim>\<open>net-1\<close> and whose NAT gateways
  cannot be listed, the Subnet check reports \<^verbatim>\<open>sub-a\<close>, and the conditions that
  \<^verbatim>\<open>BlockOnAnyReference\<close> leaves do not have the reason DeletionBlocked.
\<close>

theorem C3_deletion_guard_counterexample:
  "Check SubnetNetworkReferenceCheck (guard_store False) ''default'' ''net-1'' = Inr [''sub-a''] \<and>
   map_option reason
     (FindStatusCondition
        (st_Conditions (rc_object (snd
           (BlockOnAnyReference (collaborators_example (guard_store False))
              (network_rc_example ''net-1'' False) ''default'' ''net-1''
              [SubnetNetworkReferenceCheck, NATGatewayNetworkReferenceCheck]))))
        condReady) = Some reasonFailed \<and>
   map_option reason
     (FindStatusCondition
        (st_Conditions (rc_object (snd
           (BlockOnAnyReference (collaborators_example (guard_store False))
              (network_rc_example ''net-1'' False) ''default'' ''net-1''
              [SubnetNetworkReferenceCheck, NATGatewayNetworkReferenceCheck]))))
        condSynced) = Some reasonReconciling \<and>
   reasonFailed \<noteq> reasonDeletionBlocked \<and> reasonReconciling \<noteq> reasonDeletionBlocked"
proof -
  have c: "co_client (collaborators_example s) = s" for s
    by (simp add: collaborators_example_def)
  show ?thesis
    by (simp add: BlockOnAnyReference_def c guard_store_checks rc_setters set_conditions_simps
        find_SetReconciliationFailed applyOptions_reason_message reasonFailed_def
        reasonReconciling_def reasonDeletionBlocked_def del: Check.simps)
qed

subsection \<open>Finalizer-based deletion\<close>

lemma client_Update_simps:
  "rc_calls (snd (client_Update env rc))
     = rc_calls rc @ [ClientUpdate (obj_Finalizers (rc_object rc)) (st_Conditions (rc_object rc))]"
  "co_Update env (rc_object rc) = Inr stored \<Longrightarrow>
     fst (client_Update env rc) = None \<and> rc_object (snd (client_Update env rc)) = stored"
  "co_Update env (rc_object rc) = Inl uerr \<Longrightarrow>
     fst (client_Update env rc) = Some uerr \<and>
     rc_object (snd (client_Update env rc)) = rc_object rc"
  by (simp_all add: client_Update_def Let_def split: sum.splits)

lemma RemoveFinalizer_simps:
  "rc_calls (snd (RemoveFinalizer env rc))
     = rc_calls rc @ [ClientUpdate (filter (\<lambda>f. f \<noteq> rc_finalizerName rc)
                                      (obj_Finalizers (rc_object rc)))
                        (st_Conditions (rc_object rc))]"
  "co_Update env (RemoveFinalizer_util (rc_object rc) (rc_finalizerName rc)) = Inr stored \<Longrightarrow>
     fst (RemoveFinalizer env rc) = None \<and> rc_object (snd (RemoveFinalizer env rc)) = stored"
  "co_Update env (RemoveFinalizer_util (rc_object rc) (rc_finalizerName rc)) = Inl uerr \<Longrightarrow>
     fst (RemoveFinalizer env rc) = Some uerr \<and>
     rc_object (snd (RemoveFinalizer env rc))
       = RemoveFinalizer_util (rc_object rc) (rc_finalizerName rc)"
  by (simp_all add: RemoveFinalizer_def client_Update_simps RemoveFinalizer_util_def)

lemma UpdateStatus_simps:
  "rc_calls (snd (UpdateStatus env rc))
     = rc_calls rc @ [StatusPatch (st_Conditions (rc_object rc))]"
  "rc_providers (snd (UpdateStatus env rc)) = rc_providers rc"
  "rc_generation (snd (UpdateStatus env rc)) = rc_generation rc"
  "rc_finalizerName (snd (UpdateStatus env rc)) = rc_finalizerName rc"
  "rc_requeueAfter (snd (UpdateStatus env rc)) = rc_requeueAfter rc"
  "co_StatusPatch env (rc_object rc) = Inr stored \<Longrightarrow>
     rc_object (snd (UpdateStatus env rc)) = stored"
  "co_StatusPatch env (rc_object rc) = Inl uerr \<Longrightarrow>
     rc_object (snd (UpdateStatus env rc)) = rc_object rc"
  by (simp_all add: UpdateStatus_def Let_def split: sum.splits)

text \<open>
  \<^verbatim>\<open>Delete\<close> once the finalizer is there and the provider client is acquired; \<open>rc1\<close> is the
  state after the status patch, from whose object the namespace is read.
\<close>

lemma Delete_acquired:
  assumes "ContainsFinalizer (rc_object rc) (rc_finalizerName rc)"
    and "rc1 = snd (UpdateStatus env (rc_SetTerminating rc))"
    and "GetOrCreate (co_cache_env env) (rc_providers rc) ref (obj_Namespace (rc_object rc1))
           = (Inr (p, pc), cache')"
    and "rc' = rc1\<lparr>rc_providers := cache'\<rparr>"
  shows "Delete env rc ref orphanOnDelete externalID fn =
      (if \<not> orphanOnDelete \<and> externalID \<noteq> []
       then (case fn p rc' of
               (Some err, rc'') \<Rightarrow>
                 ((\<lparr>Requeue = False, RequeueAfter = rc_requeueAfter rc''\<rparr>, Some err),
                  rc_SetNotReady
                    [WithReason reasonDeletionFailed,
                     WithMessage (Str ''External resource deletion failed'')]
                    (rc_SetNotSynced
                       [WithReason reasonDeletionFailed, WithMessage (ErrorText err)] rc''))
             | (None, rc'') \<Rightarrow>
                 (case RemoveFinalizer env (rc_SetDeleted rc'') of
                    (uerr, rcf) \<Rightarrow> ((no_requeue, uerr), rcf)))
       else (case RemoveFinalizer env (if orphanOnDelete then rc_SetOrphaned [] rc' else rc') of
               (uerr, rcf) \<Rightarrow> ((no_requeue, uerr), rcf)))"
proof -
  have g: "GetOrCreate (co_cache_env env) (rc_providers rc1) ref (obj_Namespace (rc_object rc1))
           = (Inr (p, pc), cache')"
    using assms(2,3) by (simp add: UpdateStatus_simps rc_SetTerminating_def set_conditions_def)
  show ?thesis
    unfolding Delete_def Let_def using assms(1) g assms(4) assms(2) [symmetric]
    by (auto split: prod.splits option.splits)
qed

text \<open>
  Claim C8, as amended. With the finalizer present and the provider client acquired,
  \<open>rc'\<close> being the state at that point: (1) when \<^verbatim>\<open>orphanOnDelete\<close> is not set and the
  external ID is not empty, the callback is invoked with the client; if it succeeds the
  Deleted conditions are set on the state it leaves, and the finalizer is removed;
  (2) if it fails, its error is returned with a requeue, no object update is sent and the
  finalizers stay; (3) when \<^verbatim>\<open>orphanOnDelete\<close> is set, whatever the external ID, the result
  does not depend on the callback (it is not invoked), the Orphaned conditions are set
  and the finalizer is removed; (4) when \<^verbatim>\<open>orphanOnDelete\<close> is not set and the external ID
  is empty, the result does not depend on the callback either, the conditions stay as
  they are at that point, and the finalizer is removed. (5) Removing the finalizer sends
  the object without the finalizer and with the conditions just set to the store, and
  returns the store's error, if any; when the update succeeds, the object in memory is
  the one that the update leaves, so that the conditions it then has are those of the
  store's answer. (6) The Deleted and Orphaned conditions are Synced=True and Ready=False
  with those reasons.
\<close>

theorem C8_delete_orphan_semantics:
  assumes "ContainsFinalizer (rc_object rc) (rc_finalizerName rc)"
    and "rc1 = snd (UpdateStatus env (rc_SetTerminating rc))"
    and "GetOrCreate (co_cache_env env) (rc_providers rc) ref (obj_Namespace (rc_object rc1))
           = (Inr (p, pc), cache')"
    and "rc' = rc1\<lparr>rc_providers := cache'\<rparr>"
  shows
    "(\<not> orphanOnDelete \<and> externalID \<noteq> [] \<and> fn p rc' = (None, rc'') \<longrightarrow>
        Delete env rc ref orphanOnDelete externalID fn
          = ((no_requeue, fst (RemoveFinalizer env (rc_SetDeleted rc''))),
             snd (RemoveFinalizer env (rc_SetDeleted rc'')))) \<and>
     (\<not> orphanOnDelete \<and> externalID \<noteq> [] \<and> fn p rc' = (Some err, rc'') \<longrightarrow>
        fst (Delete env rc ref orphanOnDelete externalID fn)
          = (\<lparr>Requeue = False, RequeueAfter = rc_requeueAfter rc''\<rparr>, Some err) \<and>
        rc_calls (snd (Delete env rc ref orphanOnDelete externalID fn)) = rc_calls rc'' \<and>
        obj_Finalizers (rc_object (snd (Delete env rc ref orphanOnDelete externalID fn)))
          = obj_Finalizers (rc_object rc'')) \<and>
     (orphanOnDelete \<longrightarrow>
        Delete env rc ref orphanOnDelete externalID fn
          = ((no_requeue, fst (RemoveFinalizer env (rc_SetOrphaned [] rc'))),
             snd (RemoveFinalizer env (rc_SetOrphaned [] rc')))) \<and>
     (\<not> orphanOnDelete \<and> externalID = [] \<longrightarrow>
        Delete env rc ref orphanOnDelete externalID fn
          = ((no_requeue, fst (RemoveFinalizer env rc')), snd (RemoveFinalizer env rc'))) \<and>
     rc_calls (snd (RemoveFinalizer env rcx))
       = rc_calls rcx @ [ClientUpdate (filter (\<lambda>f. f \<noteq> rc_finalizerName rcx)
                                         (obj_Finalizers (rc_object rcx)))
                           (st_Conditions (rc_object rcx))] \<and>
     (co_Update env (RemoveFinalizer_util (rc_object rcx) (rc_finalizerName rcx)) = Inr stored \<longrightarrow>
        fst (RemoveFinalizer env rcx) = None \<and>
        rc_object (snd (RemoveFinalizer env rcx)) = stored) \<and>
     (co_Update env (RemoveFinalizer_util (rc_object rcx) (rc_finalizerName rcx)) = Inl uerr \<longrightarrow>
        fst (RemoveFinalizer env rcx) = Some uerr \<and>
        rc_object (snd (RemoveFinalizer env rcx))
          = RemoveFinalizer_util (rc_object rcx) (rc_finalizerName rcx)) \<and>
     \<not> ContainsFinalizer (RemoveFinalizer_util (rc_object rcx) (rc_finalizerName rcx))
         (rc_finalizerName rcx) \<and>
     st_Conditions (rc_object (rc_SetDeleted rcx))
       = SetDeleted (st_Conditions (rc_object rcx)) (rc_generation rcx) \<and>
     st_Conditions (rc_object (rc_SetOrphaned [] rcx))
       = SetOrphaned (st_Conditions (rc_object rcx)) (rc_generation rcx) [] \<and>
     IsStatusConditionTrue (SetDeleted cs g) condSynced \<and>
     IsStatusConditionFalse (SetDeleted cs g) condReady \<and>
     map_option reason (FindStatusCondition (SetDeleted cs g) condSynced) = Some reasonDeleted \<and>
     IsStatusConditionTrue (SetOrphaned cs g []) condSynced \<and>
     IsStatusConditionFalse (SetOrphaned cs g []) condReady \<and>
     map_option reason (FindStatusCondition (SetOrphaned cs g []) condSynced)
       = Some reasonOrphaned"
proof -
  note d = Delete_acquired [OF assms, of orphanOnDelete externalID fn]
  have a1: "\<not> orphanOnDelete \<and> externalID \<noteq> [] \<and> fn p rc' = (None, rc'') \<longrightarrow>
        Delete env rc ref orphanOnDelete externalID fn
          = ((no_requeue, fst (RemoveFinalizer env (rc_SetDeleted rc''))),
             snd (RemoveFinalizer env (rc_SetDeleted rc'')))"
    using d by (auto split: prod.splits)
  have a2: "\<not> orphanOnDelete \<and> externalID \<noteq> [] \<and> fn p rc' = (Some err, rc'') \<longrightarrow>
        fst (Delete env rc ref orphanOnDelete externalID fn)
          = (\<lparr>Requeue = False, RequeueAfter = rc_requeueAfter rc''\<rparr>, Some err) \<and>
        rc_calls (snd (Delete env rc ref orphanOnDelete externalID fn)) = rc_calls rc'' \<and>
        obj_Finalizers (rc_object (snd (Delete env rc ref orphanOnDelete externalID fn)))
          = obj_Finalizers (rc_object rc'')"
    using d by (auto simp: rc_setters set_conditions_simps)
  have a3: "orphanOnDelete \<longrightarrow>
        Delete env rc ref orphanOnDelete externalID fn
          = ((no_requeue, fst (RemoveFinalizer env (rc_SetOrphaned [] rc'))),
             snd (RemoveFinalizer env (rc_SetOrphaned [] rc')))"
    using d by (auto split: prod.splits)
  have a4: "\<not> orphanOnDelete \<and> externalID = [] \<longrightarrow>
        Delete env rc ref orphanOnDelete externalID fn
          = ((no_requeue, fst (RemoveFinalizer env rc')), snd (RemoveFinalizer env rc'))"
    using d by (auto split: prod.splits)
  have a5: "rc_calls (snd (RemoveFinalizer env rcx))
       = rc_calls rcx @ [ClientUpdate (filter (\<lambda>f. f \<noteq> rc_finalizerName rcx)
                                         (obj_Finalizers (rc_object rcx)))
                           (st_Conditions (rc_object rcx))]"
    by (rule RemoveFinalizer_simps)
  have a6: "co_Update env (RemoveFinalizer_util (rc_object rcx) (rc_finalizerName rcx)) = Inr stored \<longrightarrow>
        fst (RemoveFinalizer env rcx) = None \<and>
        rc_object (snd (RemoveFinalizer env rcx)) = stored"
    using RemoveFinalizer_simps(2) [of env rcx stored] by blast
  have a7: "co_Update env (RemoveFinalizer_util (rc_object rcx) (rc_finalizerName rcx)) = Inl uerr \<longrightarrow>
        fst (RemoveFinalizer env rcx) = Some uerr \<and>
        rc_object (snd (RemoveFinalizer env rcx))
          = RemoveFinalizer_util (rc_object rcx) (rc_finalizerName rcx)"
    using RemoveFinalizer_simps(3) [of env rcx uerr] by blast
  have a8: "\<not> ContainsFinalizer (RemoveFinalizer_util (rc_object rcx) (rc_finalizerName rcx))
         (rc_finalizerName rcx)"
    by (simp add: ContainsFinalizer_def RemoveFinalizer_util_def)
  have a9: "st_Conditions (rc_object (rc_SetDeleted rcx))
       = SetDeleted (st_Conditions (rc_object rcx)) (rc_generation rcx) \<and>
     st_Conditions (rc_object (rc_SetOrphaned [] rcx))
       = SetOrphaned (st_Conditions (rc_object rcx)) (rc_generation rcx) []"
    by (simp add: rc_SetDeleted_def rc_SetOrphaned_def set_conditions_simps)
  have a10: "IsStatusConditionTrue (SetDeleted cs g) condSynced \<and>
     IsStatusConditionFalse (SetDeleted cs g) condReady \<and>
     IsStatusConditionTrue (SetOrphaned cs g []) condSynced \<and>
     IsStatusConditionFalse (SetOrphaned cs g []) condReady"
    by (simp add: IsStatusConditionTrue_def IsStatusConditionFalse_def SetDeleted_def
        SetOrphaned_def present_setters cond_names_distinct split: prod.splits)
  have a11: "map_option reason (FindStatusCondition (SetDeleted cs g) condSynced)
       = Some reasonDeleted \<and>
     map_option reason (FindStatusCondition (SetOrphaned cs g []) condSynced)
       = Some reasonOrphaned"
    by (simp add: find_SetDeleted find_SetOrphaned)
  from a1 a2 a3 a4 a5 a6 a7 a8 a9 a10 a11 show ?thesis by blast
qed

lemma example_acquire:
  "GetOrCreate (co_cache_env (collaborators_example c)) Map.empty ref_example ''default''
     = (Inr (otc_provider vpcs_gone, pc_example),
        [''default/otc'' \<mapsto>
           \<lparr>provider = otc_provider vpcs_gone, createdAt = 100,
            configGeneration = 3, secretResourceVersion = ''41''\<rparr>])"
  by (simp add: GetOrCreate_def collaborators_example_def env_example_def ref_example_def
      cacheKey_def pc_example_def Let_def)

lemma example_finalizer:
  "ContainsFinalizer (rc_object (network_rc_example x orphan))
     (rc_finalizerName (network_rc_example x orphan))"
  by (simp add: ContainsFinalizer_def network_rc_example_simps)

lemma example_store:
  "co_Update (collaborators_example c) obj = Inr (obj\<lparr>st_Conditions := SetTerminating [] 1\<rparr>)"
  "co_StatusPatch (collaborators_example c) obj = Inr obj"
  by (simp_all add: collaborators_example_def)

text \<open>
  The state of the example deletion when the provider client is acquired: the conditions
  are Terminating, the status patch has been sent, and the cache holds the new client.
\<close>

lemma example_terminating:
  "snd (UpdateStatus (collaborators_example c) (rc_SetTerminating (network_rc_example x orphan)))
     = (rc_SetTerminating (network_rc_example x orphan))
         \<lparr>rc_calls := [StatusPatch (SetTerminating [] 1)]\<rparr>"
  by (simp add: UpdateStatus_def Let_def example_store rc_SetTerminating_def
      set_conditions_def network_rc_example_def)

theorem C8_delete_orphan_semantics_witness:
  "fst (Delete (collaborators_example (guard_store True)) (network_rc_example ''net-1'' False)
          ref_example False ''net-1'' recording_callback) = (no_requeue, None) \<and>
   rc_calls (snd (Delete (collaborators_example (guard_store True))
                    (network_rc_example ''net-1'' False)
                    ref_example False ''net-1'' recording_callback))
     = [StatusPatch (SetTerminating [] 1), ProviderDeleteNetwork ''net-1'',
        ClientUpdate [] (SetDeleted (SetTerminating [] 1) 1)] \<and>
   st_Conditions (rc_object (snd (Delete (collaborators_example (guard_store True))
                    (network_rc_example ''net-1'' False)
                    ref_example False ''net-1'' recording_callback)))
     = SetTerminating [] 1 \<and>
   fst (Delete (collaborators_example (guard_store True)) (network_rc_example ''net-1'' False)
          ref_example False ''net-1'' failing_callback)
     = (\<lparr>Requeue = False, RequeueAfter = networkRequeueDelay\<rparr>,
        Some (OtherError ''callback invoked'')) \<and>
   rc_calls (snd (Delete (collaborators_example (guard_store True))
                    (network_rc_example ''net-1'' False)
                    ref_example False ''net-1'' failing_callback))
     = [StatusPatch (SetTerminating [] 1)] \<and>
   rc_calls (snd (Delete (collaborators_example (guard_store True))
                    (network_rc_example ''net-1'' True)
                    ref_example True ''net-1'' recording_callback))
     = [StatusPatch (SetTerminating [] 1),
        ClientUpdate [] (SetOrphaned (SetTerminating [] 1) 1 [])] \<and>
   st_Conditions (rc_object (snd (Delete (collaborators_example (guard_store True))
                    (network_rc_example ''net-1'' True)
                    ref_example True ''net-1'' recording_callback)))
     = SetTerminating [] 1 \<and>
   rc_calls (snd (Delete (collaborators_example (guard_store True))
                    (network_rc_example [] False)
                    ref_example False [] recording_callback))
     = [StatusPatch (SetTerminating [] 1), ClientUpdate [] (SetTerminating [] 1)]"
proof -
  let ?env = "collaborators_example (guard_store True)"
  let ?cache = "[''default/otc'' \<mapsto>
           \<lparr>provider = otc_provider vpcs_gone, createdAt = 100,
            configGeneration = 3, secretResourceVersion = ''41''\<rparr>]"
  let ?rc1 = "\<lambda>x orphan. (rc_SetTerminating (network_rc_example x orphan))
         \<lparr>rc_calls := [StatusPatch (SetTerminating [] 1)]\<rparr>"
  have t: "?rc1 x orphan
             = snd (UpdateStatus ?env (rc_SetTerminating (network_rc_example x orphan)))"
    for x orphan
    by (simp add: example_terminating)
  have acq: "GetOrCreate (co_cache_env ?env) (rc_providers (network_rc_example x orphan))
               ref_example (obj_Namespace (rc_object (?rc1 x orphan)))
             = (Inr (otc_provider vpcs_gone, pc_example), ?cache)" for x orphan
    by (simp add: network_rc_example_simps example_acquire rc_setters set_conditions_simps)
  let ?rc2 = "\<lambda>x orphan. (?rc1 x orphan)\<lparr>rc_providers := ?cache\<rparr>"
  note w1 = C8_delete_orphan_semantics [where rc = "network_rc_example ''net-1'' False"
      and env = ?env and orphanOnDelete = False and externalID = "''net-1''"
      and fn = recording_callback
      and rc'' = "sent (ProviderDeleteNetwork ''net-1'') (?rc2 ''net-1'' False)"
      and err = ErrNotFound
      and rcx = "rc_SetDeleted (sent (ProviderDeleteNetwork ''net-1'') (?rc2 ''net-1'' False))"
      and stored = "(RemoveFinalizer_util
           (rc_object (rc_SetDeleted
              (sent (ProviderDeleteNetwork ''net-1'') (?rc2 ''net-1'' False))))
           networkFinalizerName)\<lparr>st_Conditions := SetTerminating [] 1\<rparr>"
      and uerr = ErrNotFound and cs = "[]" and g = 0,
      OF example_finalizer t acq refl]
  note w2 = C8_delete_orphan_semantics [where rc = "network_rc_example ''net-1'' False"
      and env = ?env and orphanOnDelete = False and externalID = "''net-1''"
      and fn = failing_callback and err = "OtherError ''callback invoked''"
      and rc'' = "?rc2 ''net-1'' False" and rcx = "network_rc_example [] False"
      and stored = "rc_object (network_rc_example [] False)"
      and uerr = ErrNotFound and cs = "[]" and g = 0,
      OF example_finalizer t acq refl]
  note w3 = C8_delete_orphan_semantics [where rc = "network_rc_example ''net-1'' True"
      and env = ?env and orphanOnDelete = True and externalID = "''net-1''"
      and fn = recording_callback and rc'' = "network_rc_example [] False"
      and err = ErrNotFound
      and rcx = "rc_SetOrphaned [] (?rc2 ''net-1'' True)"
      and stored = "(RemoveFinalizer_util
           (rc_object (rc_SetOrphaned [] (?rc2 ''net-1'' True)))
           networkFinalizerName)\<lparr>st_Conditions := SetTerminating [] 1\<rparr>"
      and uerr = ErrNotFound and cs = "[]" and g = 0,
      OF example_finalizer t acq refl]
  note w4 = C8_delete_orphan_semantics [where rc = "network_rc_example [] False"
      and env = ?env and orphanOnDelete = False and externalID = "[]"
      and fn = recording_callback and rc'' = "network_rc_example [] False"
      and err = ErrNotFound and rcx = "?rc2 [] False"
      and stored = "rc_object (network_rc_example [] False)"
      and uerr = ErrNotFound and cs = "[]" and g = 0,
      OF example_finalizer t acq refl]
  show ?thesis
    using w1 w2 w3 w4
    by (simp add: recording_callback_def failing_callback_def example_store
        sent_simps rc_setters set_conditions_simps network_rc_example_simps
        RemoveFinalizer_util_def)
qed

text \<open>
  Claim C8 as it is stated fails for an empty external ID: the condition under which the
  claim has the callback invoked holds (\<^verbatim>\<open>orphanOnDelete\<close> set with an empty external ID,
  and \<^verbatim>\<open>orphanOnDelete\<close> not set with an empty external ID), and \<^verbatim>\<open>Delete\<close> does not invoke
  it: the recording callback leaves no provider call, the failing callback's error is not
  returned, and the finalizer is removed.
\<close>

theorem C8_delete_orphan_semantics_counterexample:
  "rc_calls (snd (Delete (collaborators_example (guard_store True))
                    (network_rc_example [] True)
                    ref_example True [] recording_callback))
     = [StatusPatch (SetTerminating [] 1),
        ClientUpdate [] (SetOrphaned (SetTerminating [] 1) 1 [])] \<and>
   rc_calls (snd (Delete (collaborators_example (guard_store True))
                    (network_rc_example [] False)
                    ref_example False [] recording_callback))
     = [StatusPatch (SetTerminating [] 1), ClientUpdate [] (SetTerminating [] 1)] \<and>
   fst (Delete (collaborators_example (guard_store True)) (network_rc_example [] False)
          ref_example False [] failing_callback) = (no_requeue, None) \<and>
   obj_Finalizers (rc_object (snd (Delete (collaborators_example (guard_store True))
                    (network_rc_example [] False)
                    ref_example False [] failing_callback))) = []"
proof -
  let ?env = "collaborators_example (guard_store True)"
  let ?rc1 = "\<lambda>x orphan. (rc_SetTerminating (network_rc_example x orphan))
         \<lparr>rc_calls := [StatusPatch (SetTerminating [] 1)]\<rparr>"
  have t: "?rc1 x orphan
             = snd (UpdateStatus ?env (rc_SetTerminating (network_rc_example x orphan)))"
    for x orphan
    by (simp add: example_terminating)
  have acq: "GetOrCreate (co_cache_env ?env) (rc_providers (network_rc_example x orphan))
               ref_example (obj_Namespace (rc_object (?rc1 x orphan)))
             = (Inr (otc_provider vpcs_gone, pc_example),
                [''default/otc'' \<mapsto>
                   \<lparr>provider = otc_provider vpcs_gone, createdAt = 100,
                    configGeneration = 3, secretResourceVersion = ''41''\<rparr>])" for x orphan
    by (simp add: network_rc_example_simps example_acquire rc_setters set_conditions_simps)
  note d = Delete_acquired [OF example_finalizer t acq refl]
  show ?thesis
    by (simp add: d example_store RemoveFinalizer_def client_Update_def
        RemoveFinalizer_util_def Let_def rc_setters set_conditions_simps
        network_rc_example_simps)
qed

subsection \<open>Drift detection stubs\<close>

text \<open>
  By contrast with what follows, the network's \<^verbatim>\<open>detectDrift\<close> reports a changed
  description, and \<^verbatim>\<open>reconcileUpdate\<close> then sends the update to the provider.
\<close>

lemma Network_detectDrift_reports:
  "snd (detectDrift network lastAppliedSpec)
     = (net_Description (Spec network) \<noteq> net_Description lastAppliedSpec)"
  by (simp add: detectDrift_def)

lemma Network_drift_is_updated:
  assumes "st_LastAppliedSpec (rc_object rc) = Some lastAppliedSpec"
    and "p_GetNetwork p (st_ExternalID (rc_object rc)) = (Some info, None)"
    and "net_Description (Spec (rc_object rc)) \<noteq> net_Description lastAppliedSpec"
  shows "rc_calls (snd (reconcileUpdate clock rc p))
     = rc_calls rc @
         [ProviderGetNetwork (st_ExternalID (rc_object rc)),
          ProviderUpdateNetwork (st_ExternalID (rc_object rc))
            \<lparr>unr_Description = net_Description (Spec (rc_object rc))\<rparr>]"
  using assms
  by (simp add: reconcileUpdate_def Let_def detectDrift_def handleDrift_def sent_simps
      set_status_simps rc_setters set_conditions_simps split: option.splits)

text \<open>
  The requests of the three update paths: the \<^verbatim>\<open>Get\<close> of the external resource when there
  is a baseline, and nothing else.
\<close>

lemma PublicIP_reconcileUpdate_calls:
  "rc_calls (snd (PublicIP_reconcileUpdate clock rc p))
     = rc_calls rc @
         (case st_LastAppliedSpec (rc_object rc) of
            None \<Rightarrow> []
          | Some lastAppliedSpec \<Rightarrow> [ProviderGetPublicIP (st_ExternalID (rc_object rc))])"
  by (simp add: PublicIP_reconcileUpdate_def Let_def PublicIP_detectDrift_def
      PublicIP_checkReadiness_def sent_simps set_status_simps rc_setters set_conditions_simps
      split: option.splits prod.splits State.splits)

lemma SecurityGroupRule_reconcileUpdate_calls:
  "rc_calls (snd (SecurityGroupRule_reconcileUpdate clock rc p))
     = rc_calls rc @
         (case st_LastAppliedSpec (rc_object rc) of
            None \<Rightarrow> []
          | Some lastAppliedSpec \<Rightarrow>
              [ProviderGetSecurityGroupRule (st_ExternalID (rc_object rc))])"
  by (simp add: SecurityGroupRule_reconcileUpdate_def Let_def SecurityGroupRule_detectDrift_def
      SecurityGroupRule_checkReadiness_def sent_simps set_status_simps rc_setters
      set_conditions_simps split: option.splits prod.splits State.splits)

lemma SNATRule_reconcileUpdate_calls:
  "rc_calls (snd (SNATRule_reconcileUpdate clock rc p))
     = rc_calls rc @
         (case st_LastAppliedSpec (rc_object rc) of
            None \<Rightarrow> []
          | Some lastAppliedSpec \<Rightarrow> [ProviderGetSNATRule (st_ExternalID (rc_object rc))])"
  by (simp add: SNATRule_reconcileUpdate_def Let_def SNATRule_detectDrift_def
      SNATRule_checkReadiness_def sent_simps set_status_simps rc_setters set_conditions_simps
      split: option.splits prod.splits State.splits)

text \<open>
  With a baseline, the three update paths do not read the spec: on an object whose spec
  has been replaced they return the same result and leave the same state, the spec apart.
\<close>

lemma with_spec_commute:
  "set_conditions f (set_status (\<lambda>n. n\<lparr>Spec := spec\<rparr>) rc)
     = set_status (\<lambda>n. n\<lparr>Spec := spec\<rparr>) (set_conditions f rc)"
  "sent c (set_status (\<lambda>n. n\<lparr>Spec := spec\<rparr>) rc)
     = set_status (\<lambda>n. n\<lparr>Spec := spec\<rparr>) (sent c rc)"
  "set_status (\<lambda>n. n\<lparr>st_LastSyncTime := t\<rparr>) (set_status (\<lambda>n. n\<lparr>Spec := spec\<rparr>) rc)
     = set_status (\<lambda>n. n\<lparr>Spec := spec\<rparr>) (set_status (\<lambda>n. n\<lparr>st_LastSyncTime := t\<rparr>) rc)"
  "set_status (\<lambda>n. n\<lparr>st_ExternalID := x, st_LastAppliedSpec := l\<rparr>)
       (set_status (\<lambda>n. n\<lparr>Spec := spec\<rparr>) rc)
     = set_status (\<lambda>n. n\<lparr>Spec := spec\<rparr>)
         (set_status (\<lambda>n. n\<lparr>st_ExternalID := x, st_LastAppliedSpec := l\<rparr>) rc)"
  "st_LastAppliedSpec (rc_object (set_status (\<lambda>n. n\<lparr>Spec := spec\<rparr>) rc))
     = st_LastAppliedSpec (rc_object rc)"
  "st_ExternalID (rc_object (set_status (\<lambda>n. n\<lparr>Spec := spec\<rparr>) rc))
     = st_ExternalID (rc_object rc)"
  "st_LastSyncTime (rc_object (set_status (\<lambda>n. n\<lparr>Spec := spec\<rparr>) rc))
     = st_LastSyncTime (rc_object rc)"
  by (simp_all add: set_conditions_def set_status_def sent_def)

lemma PublicIP_reconcileUpdate_spec:
  assumes "st_LastAppliedSpec (rc_object rc) \<noteq> None"
  shows "PublicIP_reconcileUpdate clock (set_status (\<lambda>n. n\<lparr>Spec := spec\<rparr>) rc) p
     = (fst (PublicIP_reconcileUpdate clock rc p),
        set_status (\<lambda>n. n\<lparr>Spec := spec\<rparr>) (snd (PublicIP_reconcileUpdate clock rc p)))"
  using assms
  by (auto simp: PublicIP_reconcileUpdate_def Let_def PublicIP_detectDrift_def
      PublicIP_checkReadiness_def with_spec_commute rc_setters
      split: option.splits prod.splits State.splits)

lemma SecurityGroupRule_reconcileUpdate_spec:
  assumes "st_LastAppliedSpec (rc_object rc) \<noteq> None"
  shows "SecurityGroupRule_reconcileUpdate clock (set_status (\<lambda>n. n\<lparr>Spec := spec\<rparr>) rc) p
     = (fst (SecurityGroupRule_reconcileUpdate clock rc p),
        set_status (\<lambda>n. n\<lparr>Spec := spec\<rparr>)
          (snd (SecurityGroupRule_reconcileUpdate clock rc p)))"
  using assms
  by (auto simp: SecurityGroupRule_reconcileUpdate_def Let_def SecurityGroupRule_detectDrift_def
      SecurityGroupRule_checkReadiness_def with_spec_commute rc_setters
      split: option.splits prod.splits State.splits)

lemma SNATRule_reconcileUpdate_spec:
  assumes "st_LastAppliedSpec (rc_object rc) \<noteq> None"
  shows "SNATRule_reconcileUpdate clock (set_status (\<lambda>n. n\<lparr>Spec := spec\<rparr>) rc) p
     = (fst (SNATRule_reconcileUpdate clock rc p),
        set_status (\<lambda>n. n\<lparr>Spec := spec\<rparr>) (snd (SNATRule_reconcileUpdate clock rc p)))"
  using assms
  by (auto simp: SNATRule_reconcileUpdate_def Let_def SNATRule_detectDrift_def
      SNATRule_checkReadiness_def with_spec_commute rc_setters
      split: option.splits prod.splits State.splits)

text \<open>
  Claim C9. For every PublicIP, SecurityGroupRule and SNATRule object, whatever its spec
  and its baseline, \<^verbatim>\<open>detectDrift\<close> returns the zero value of the update request and
  \<^verbatim>\<open>needsUpdate = false\<close>; \<^verbatim>\<open>handleDrift\<close> sends nothing. On an object that has a baseline
  (every object has one after creation), the update path of each of the three kinds sends
  the provider exactly one request, the \<^verbatim>\<open>Get\<close> of the external resource, whatever the
  spec and the baseline are, and no update; and it does not depend on the spec: after any
  change of the spec it returns the same result and leaves the same status as without the
  change.
\<close>

theorem C9_drift_detection_stubs:
  "PublicIP_detectDrift publicIP = (\<lparr>upr_unused = ()\<rparr>, False) \<and>
   SecurityGroupRule_detectDrift securityGroupRule = (\<lparr>usgr_Description = []\<rparr>, False) \<and>
   SNATRule_detectDrift snatRule = (\<lparr>usr_unused = ()\<rparr>, False) \<and>
   rc_calls (snd (PublicIP_handleDrift prc p preq)) = rc_calls prc \<and>
   rc_calls (snd (SecurityGroupRule_handleDrift grc p greq)) = rc_calls grc \<and>
   rc_calls (snd (SNATRule_handleDrift src p sreq)) = rc_calls src \<and>
   (st_LastAppliedSpec (rc_object prc) \<noteq> None \<longrightarrow>
      rc_calls (snd (PublicIP_reconcileUpdate clock prc p))
        = rc_calls prc @ [ProviderGetPublicIP (st_ExternalID (rc_object prc))] \<and>
      PublicIP_reconcileUpdate clock (set_status (\<lambda>n. n\<lparr>Spec := pspec\<rparr>) prc) p
        = (fst (PublicIP_reconcileUpdate clock prc p),
           set_status (\<lambda>n. n\<lparr>Spec := pspec\<rparr>) (snd (PublicIP_reconcileUpdate clock prc p)))) \<and>
   (st_LastAppliedSpec (rc_object grc) \<noteq> None \<longrightarrow>
      rc_calls (snd (SecurityGroupRule_reconcileUpdate clock grc p))
        = rc_calls grc @ [ProviderGetSecurityGroupRule (st_ExternalID (rc_object grc))] \<and>
      SecurityGroupRule_reconcileUpdate clock (set_status (\<lambda>n. n\<lparr>Spec := gspec\<rparr>) grc) p
        = (fst (SecurityGroupRule_reconcileUpdate clock grc p),
           set_status (\<lambda>n. n\<lparr>Spec := gspec\<rparr>)
             (snd (SecurityGroupRule_reconcileUpdate clock grc p)))) \<and>
   (st_LastAppliedSpec (rc_object src) \<noteq> None \<longrightarrow>
      rc_calls (snd (SNATRule_reconcileUpdate clock src p))
        = rc_calls src @ [ProviderGetSNATRule (st_ExternalID (rc_object src))] \<and>
      SNATRule_reconcileUpdate clock (set_status (\<lambda>n. n\<lparr>Spec := sspec\<rparr>) src) p
        = (fst (SNATRule_reconcileUpdate clock src p),
           set_status (\<lambda>n. n\<lparr>Spec := sspec\<rparr>) (snd (SNATRule_reconcileUpdate clock src p))))"
proof -
  have a: "PublicIP_detectDrift publicIP = (\<lparr>upr_unused = ()\<rparr>, False) \<and>
      SecurityGroupRule_detectDrift securityGroupRule = (\<lparr>usgr_Description = []\<rparr>, False) \<and>
      SNATRule_detectDrift snatRule = (\<lparr>usr_unused = ()\<rparr>, False)"
    by (simp add: PublicIP_detectDrift_def SecurityGroupRule_detectDrift_def
        SNATRule_detectDrift_def)
  have b: "rc_calls (snd (PublicIP_handleDrift prc p preq)) = rc_calls prc \<and>
      rc_calls (snd (SecurityGroupRule_handleDrift grc p greq)) = rc_calls grc \<and>
      rc_calls (snd (SNATRule_handleDrift src p sreq)) = rc_calls src"
    by (simp add: PublicIP_handleDrift_def SecurityGroupRule_handleDrift_def
        SNATRule_handleDrift_def)
  have c1: "st_LastAppliedSpec (rc_object prc) \<noteq> None \<longrightarrow>
      rc_calls (snd (PublicIP_reconcileUpdate clock prc p))
        = rc_calls prc @ [ProviderGetPublicIP (st_ExternalID (rc_object prc))] \<and>
      PublicIP_reconcileUpdate clock (set_status (\<lambda>n. n\<lparr>Spec := pspec\<rparr>) prc) p
        = (fst (PublicIP_reconcileUpdate clock prc p),
           set_status (\<lambda>n. n\<lparr>Spec := pspec\<rparr>) (snd (PublicIP_reconcileUpdate clock prc p)))"
    using PublicIP_reconcileUpdate_calls [of clock prc p]
      PublicIP_reconcileUpdate_spec [of prc clock pspec p]
    by (cases "st_LastAppliedSpec (rc_object prc)") simp_all
  have c2: "st_LastAppliedSpec (rc_object grc) \<noteq> None \<longrightarrow>
      rc_calls (snd (SecurityGroupRule_reconcileUpdate clock grc p))
        = rc_calls grc @ [ProviderGetSecurityGroupRule (st_ExternalID (rc_object grc))] \<and>
      SecurityGroupRule_reconcileUpdate clock (set_status (\<lambda>n. n\<lparr>Spec := gspec\<rparr>) grc) p
        = (fst (SecurityGroupRule_reconcileUpdate clock grc p),
           set_status (\<lambda>n. n\<lparr>Spec := gspec\<rparr>)
             (snd (SecurityGroupRule_reconcileUpdate clock grc p)))"
    using SecurityGroupRule_reconcileUpdate_calls [of clock grc p]
      SecurityGroupRule_reconcileUpdate_spec [of grc clock gspec p]
    by (cases "st_LastAppliedSpec (rc_object grc)") simp_all
  have c3: "st_LastAppliedSpec (rc_object src) \<noteq> None \<longrightarrow>
      rc_calls (snd (SNATRule_reconcileUpdate clock src p))
        = rc_calls src @ [ProviderGetSNATRule (st_ExternalID (rc_object src))] \<and>
      SNATRule_reconcileUpdate clock (set_status (\<lambda>n. n\<lparr>Spec := sspec\<rparr>) src) p
        = (fst (SNATRule_reconcileUpdate clock src p),
           set_status (\<lambda>n. n\<lparr>Spec := sspec\<rparr>) (snd (SNATRule_reconcileUpdate clock src p)))"
    using SNATRule_reconcileUpdate_calls [of clock src p]
      SNATRule_reconcileUpdate_spec [of src clock sspec p]
    by (cases "st_LastAppliedSpec (rc_object src)") simp_all
  from a b c1 c2 c3 show ?thesis by blast
qed

text \<open>
  On the examples: after creation the bandwidth size of the PublicIP has been changed from
  5 to 10, the description and the priority of the SecurityGroupRule and the description
  of the SNATRule have been changed. Each update path asks the provider for the external
  resource and sends nothing else, returns without error or requeue, and leaves what it
  leaves for the unchanged spec: the changed spec is not the baseline and is not applied.
\<close>

theorem C9_drift_detection_stubs_witness:
  "publicip_resized \<noteq> Spec publicip_example \<and>
   st_LastAppliedSpec (rc_object (rc_example publicip_example publicip_resized))
     = Some (Spec publicip_example) \<and>
   rc_calls (snd (PublicIP_reconcileUpdate 7 (rc_example publicip_example publicip_resized)
                    live_provider))
     = [ProviderGetPublicIP ''eip-1''] \<and>
   PublicIP_reconcileUpdate 7 (rc_example publicip_example publicip_resized) live_provider
     = (fst (PublicIP_reconcileUpdate 7 (rc_example publicip_example (Spec publicip_example))
               live_provider),
        set_status (\<lambda>n. n\<lparr>Spec := publicip_resized\<rparr>)
          (snd (PublicIP_reconcileUpdate 7
                  (rc_example publicip_example (Spec publicip_example)) live_provider))) \<and>
   fst (PublicIP_reconcileUpdate 7 (rc_example publicip_example publicip_resized)
          live_provider) = (no_requeue, None) \<and>
   securitygrouprule_redescribed \<noteq> Spec securitygrouprule_example \<and>
   rc_calls (snd (SecurityGroupRule_reconcileUpdate 7
                    (rc_example securitygrouprule_example securitygrouprule_redescribed)
                    live_provider))
     = [ProviderGetSecurityGroupRule ''rule-1''] \<and>
   fst (SecurityGroupRule_reconcileUpdate 7
          (rc_example securitygrouprule_example securitygrouprule_redescribed) live_provider)
     = (no_requeue, None) \<and>
   snatrule_redescribed \<noteq> Spec snatrule_example \<and>
   rc_calls (snd (SNATRule_reconcileUpdate 7
                    (rc_example snatrule_example snatrule_redescribed) live_provider))
     = [ProviderGetSNATRule ''snat-1''] \<and>
   fst (SNATRule_reconcileUpdate 7 (rc_example snatrule_example snatrule_redescribed)
          live_provider) = (no_requeue, None)"
proof -
  have l: "st_LastAppliedSpec (rc_object (rc_example (new_object n ns ls sp res x cs) spec))
             = Some sp"
    "st_ExternalID (rc_object (rc_example (new_object n ns ls sp res x cs) spec)) = x"
    "st_LastSyncTime (rc_object (rc_example (new_object n ns ls sp res x cs) spec)) = None"
    "rc_calls (rc_example obj spec) = []"
    "Spec (new_object n ns ls sp res x cs) = sp"
    "set_status (\<lambda>n. n\<lparr>Spec := spec\<rparr>) (rc_example obj spec') = rc_example obj spec"
    for n ns ls sp res x cs spec spec' and obj :: "('a, 'b) object"
    by (simp_all add: rc_example_def new_object_def set_status_def)
  have d: "publicip_resized \<noteq> Spec publicip_example"
    "securitygrouprule_redescribed \<noteq> Spec securitygrouprule_example"
    "snatrule_redescribed \<noteq> Spec snatrule_example"
    by (simp_all add: publicip_resized_def securitygrouprule_redescribed_def
        snatrule_redescribed_def publicip_example_def securitygrouprule_example_def
        snatrule_example_def new_object_def)
  note w = C9_drift_detection_stubs [where publicIP = publicip_example
      and securityGroupRule = securitygrouprule_example and snatRule = snatrule_example
      and p = live_provider and clock = 7
      and prc = "rc_example publicip_example (Spec publicip_example)"
      and preq = "\<lparr>upr_unused = ()\<rparr>" and pspec = publicip_resized
      and grc = "rc_example securitygrouprule_example (Spec securitygrouprule_example)"
      and greq = "\<lparr>usgr_Description = []\<rparr>" and gspec = securitygrouprule_redescribed
      and src = "rc_example snatrule_example (Spec snatrule_example)"
      and sreq = "\<lparr>usr_unused = ()\<rparr>" and sspec = snatrule_redescribed]
  have g: "p_GetPublicIP live_provider x
             = (Some \<lparr>pii_ID = x, pii_Name = ''eip'', pii_PublicAddress = ''80.158.0.1'',
                  pii_PrivateAddress = [], pii_Type = ''5_bgp'', pii_BandwidthSize = 5,
                  pii_BandwidthName = [], pii_BandwidthShareType = ''PER'',
                  pii_Status = ''ACTIVE''\<rparr>, None)"
    "p_GetSecurityGroupRule live_provider x
       = (Some \<lparr>sgri_ID = x, sgri_SecurityGroupID = ''sg-1'', sgri_Description = ''ssh'',
                  sgri_Direction = ''ingress'', sgri_Protocol = ''tcp'', sgri_EtherType = ''IPv4'',
                  sgri_Multiport = ''22'', sgri_Action = ''allow'', sgri_Priority = 1\<rparr>, None)"
    "p_GetSNATRule live_provider x
       = (Some \<lparr>snati_ID = x, snati_Description = [], snati_Status = ''ACTIVE'',
                  snati_NATGatewayID = ''nat-1'', snati_SubnetID = ''sub-1'',
                  snati_PublicIPID = ''eip-1''\<rparr>, None)" for x
    by (simp_all add: live_provider_def)
  have r: "fst (PublicIP_reconcileUpdate 7 (rc_example publicip_example (Spec publicip_example))
                  live_provider) = (no_requeue, None)"
    "fst (SecurityGroupRule_reconcileUpdate 7
            (rc_example securitygrouprule_example (Spec securitygrouprule_example))
            live_provider) = (no_requeue, None)"
    "fst (SNATRule_reconcileUpdate 7 (rc_example snatrule_example (Spec snatrule_example))
            live_provider) = (no_requeue, None)"
    by (simp_all add: PublicIP_reconcileUpdate_def SecurityGroupRule_reconcileUpdate_def
        SNATRule_reconcileUpdate_def Let_def l g sent_simps publicip_example_def
        securitygrouprule_example_def snatrule_example_def
        PublicIP_detectDrift_def PublicIP_checkReadiness_def PublicIPInfo_State_def
        SecurityGroupRule_detectDrift_def SecurityGroupRule_checkReadiness_def
        SecurityGroupRuleInfo_State_def SNATRule_detectDrift_def SNATRule_checkReadiness_def
        SNATRuleInfo_State_def)
  have e: "st_LastAppliedSpec (rc_object (rc_example publicip_example spec))
             = Some (Spec publicip_example)"
    "st_LastAppliedSpec (rc_object (rc_example securitygrouprule_example gspec))
       = Some (Spec securitygrouprule_example)"
    "st_LastAppliedSpec (rc_object (rc_example snatrule_example sspec))
       = Some (Spec snatrule_example)"
    "st_ExternalID (rc_object (rc_example publicip_example spec)) = ''eip-1''"
    "st_ExternalID (rc_object (rc_example securitygrouprule_example gspec)) = ''rule-1''"
    "st_ExternalID (rc_object (rc_example snatrule_example sspec)) = ''snat-1''"
    for spec gspec sspec
    by (simp_all add: publicip_example_def securitygrouprule_example_def snatrule_example_def l)
  have c: "rc_calls (snd (PublicIP_reconcileUpdate 7
                            (rc_example publicip_example publicip_resized) live_provider))
             = [ProviderGetPublicIP ''eip-1'']"
    "rc_calls (snd (SecurityGroupRule_reconcileUpdate 7
                      (rc_example securitygrouprule_example securitygrouprule_redescribed)
                      live_provider))
       = [ProviderGetSecurityGroupRule ''rule-1'']"
    "rc_calls (snd (SNATRule_reconcileUpdate 7
                      (rc_example snatrule_example snatrule_redescribed) live_provider))
       = [ProviderGetSNATRule ''snat-1'']"
    using w by (simp_all add: e l sent_simps set_status_simps)
  show ?thesis
    using w by (simp add: e l r c d set_status_simps)
qed

end
